theory Spec2Isabelle
  imports Main
begin

section \<open>Strings\<close>

text \<open>
  A JavaScript string is a sequence of UTF-16 code units.  The parser's keywords are
  Russian, so a code unit is modelled as a natural number (the Cyrillic block lies at
  U+0400 to U+045F, that is 1024 to 1119) and a string as a list of them.  ASCII
  literals are written through \<open>js\<close>.
\<close>

type_synonym jsstring = "nat list"

definition js :: "string \<Rightarrow> jsstring" where
  "js s = map of_char s"

text \<open>White space as \<open>\s\<close> and \<open>String.prototype.trim\<close> see it (ECMAScript WhiteSpace
  and LineTerminator).\<close>

definition isSpace :: "nat \<Rightarrow> bool" where
  "isSpace c \<longleftrightarrow>
     (9 \<le> c \<and> c \<le> 13) \<or> c = 32 \<or> c = 160 \<or> c = 5760 \<or> (8192 \<le> c \<and> c \<le> 8202) \<or>
     c = 8232 \<or> c = 8233 \<or> c = 8239 \<or> c = 8287 \<or> c = 12288 \<or> c = 65279"

definition isDigit :: "nat \<Rightarrow> bool" where
  "isDigit c \<longleftrightarrow> 48 \<le> c \<and> c \<le> 57"

text \<open>
  \<open>IsWordChar\<close> of a regular expression without the \<open>u\<close> flag: the word characters are
  the 63 characters \<open>a-z A-Z 0-9 _\<close> and no others.  A Cyrillic letter is therefore not a
  word character, and \<open>\b\<close> holds between a Cyrillic letter and an ASCII letter or digit,
  but not between a Cyrillic letter and a blank or an end of the string.
\<close>

definition isWordChar :: "nat \<Rightarrow> bool" where
  "isWordChar c \<longleftrightarrow>
     (97 \<le> c \<and> c \<le> 122) \<or> (65 \<le> c \<and> c \<le> 90) \<or> (48 \<le> c \<and> c \<le> 57) \<or> c = 95"

text \<open>
  \<open>String.prototype.toUpperCase\<close> on a string of one code unit: the full upper-case
  mapping of the Unicode Character Database, version 14.0 (the simple mappings and the
  unconditional ones of SpecialCasing, so U+00DF becomes \<open>SS\<close>).  Basic Latin and the Cyrillic letters
  U+0430 to U+045F are written as rules; the two tables hold the other code units of
  the Basic Multilingual Plane that have an upper case, the first as ranges
  \<open>(lo, hi, step, image of lo)\<close> of letters with one distance to their upper case, the
  second the letters whose upper case has more than one code unit.  A surrogate is its
  own upper case.
\<close>

definition upperRanges :: "(nat \<times> nat \<times> nat \<times> nat) list" where
  "upperRanges =
     [
      (181, 181, 1, 924), (224, 246, 1, 192), (248, 254, 1, 216), (255, 255, 1, 376),
      (257, 303, 2, 256), (305, 305, 1, 73), (307, 311, 2, 306), (314, 328, 2, 313),
      (331, 375, 2, 330), (378, 382, 2, 377), (383, 383, 1, 83), (384, 384, 1, 579),
      (387, 389, 2, 386), (392, 392, 1, 391), (396, 396, 1, 395), (402, 402, 1, 401),
      (405, 405, 1, 502), (409, 409, 1, 408), (410, 410, 1, 573), (414, 414, 1, 544),
      (417, 421, 2, 416), (424, 424, 1, 423), (429, 429, 1, 428), (432, 432, 1, 431),
      (436, 438, 2, 435), (441, 441, 1, 440), (445, 445, 1, 444), (447, 447, 1, 503),
      (453, 453, 1, 452), (454, 454, 1, 452), (456, 456, 1, 455), (457, 457, 1, 455),
      (459, 459, 1, 458), (460, 460, 1, 458), (462, 476, 2, 461), (477, 477, 1, 398),
      (479, 495, 2, 478), (498, 498, 1, 497), (499, 499, 1, 497), (501, 501, 1, 500),
      (505, 543, 2, 504), (547, 563, 2, 546), (572, 572, 1, 571), (575, 576, 1, 11390),
      (578, 578, 1, 577), (583, 591, 2, 582), (592, 592, 1, 11375), (593, 593, 1, 11373),
      (594, 594, 1, 11376), (595, 595, 1, 385), (596, 596, 1, 390), (598, 599, 1, 393),
      (601, 601, 1, 399), (603, 603, 1, 400), (604, 604, 1, 42923), (608, 608, 1, 403),
      (609, 609, 1, 42924), (611, 611, 1, 404), (613, 613, 1, 42893), (614, 614, 1, 42922),
      (616, 616, 1, 407), (617, 617, 1, 406), (618, 618, 1, 42926), (619, 619, 1, 11362),
      (620, 620, 1, 42925), (623, 623, 1, 412), (625, 625, 1, 11374), (626, 626, 1, 413),
      (629, 629, 1, 415), (637, 637, 1, 11364), (640, 640, 1, 422), (642, 642, 1, 42949),
      (643, 643, 1, 425), (647, 647, 1, 42929), (648, 648, 1, 430), (649, 649, 1, 580),
      (650, 651, 1, 433), (652, 652, 1, 581), (658, 658, 1, 439), (669, 669, 1, 42930),
      (670, 670, 1, 42928), (837, 837, 1, 921), (881, 883, 2, 880), (887, 887, 1, 886),
      (891, 893, 1, 1021), (940, 940, 1, 902), (941, 943, 1, 904), (945, 961, 1, 913),
      (962, 962, 1, 931), (963, 971, 1, 931), (972, 972, 1, 908), (973, 974, 1, 910),
      (976, 976, 1, 914), (977, 977, 1, 920), (981, 981, 1, 934), (982, 982, 1, 928),
      (983, 983, 1, 975), (985, 1007, 2, 984), (1008, 1008, 1, 922), (1009, 1009, 1, 929),
      (1010, 1010, 1, 1017), (1011, 1011, 1, 895), (1013, 1013, 1, 917), (1016, 1016, 1, 1015),
      (1019, 1019, 1, 1018), (1121, 1153, 2, 1120), (1163, 1215, 2, 1162), (1218, 1230, 2, 1217),
      (1231, 1231, 1, 1216), (1233, 1327, 2, 1232), (1377, 1414, 1, 1329), (4304, 4346, 1, 7312),
      (4349, 4351, 1, 7357), (5112, 5117, 1, 5104), (7296, 7296, 1, 1042), (7297, 7297, 1, 1044),
      (7298, 7298, 1, 1054), (7299, 7300, 1, 1057), (7301, 7301, 1, 1058), (7302, 7302, 1, 1066),
      (7303, 7303, 1, 1122), (7304, 7304, 1, 42570), (7545, 7545, 1, 42877), (7549, 7549, 1, 11363),
      (7566, 7566, 1, 42950), (7681, 7829, 2, 7680), (7835, 7835, 1, 7776), (7841, 7935, 2, 7840),
      (7936, 7943, 1, 7944), (7952, 7957, 1, 7960), (7968, 7975, 1, 7976), (7984, 7991, 1, 7992),
      (8000, 8005, 1, 8008), (8017, 8023, 2, 8025), (8032, 8039, 1, 8040), (8048, 8049, 1, 8122),
      (8050, 8053, 1, 8136), (8054, 8055, 1, 8154), (8056, 8057, 1, 8184), (8058, 8059, 1, 8170),
      (8060, 8061, 1, 8186), (8112, 8113, 1, 8120), (8126, 8126, 1, 921), (8144, 8145, 1, 8152),
      (8160, 8161, 1, 8168), (8165, 8165, 1, 8172), (8526, 8526, 1, 8498), (8560, 8575, 1, 8544),
      (8580, 8580, 1, 8579), (9424, 9449, 1, 9398), (11312, 11359, 1, 11264), (11361, 11361, 1, 11360),
      (11365, 11365, 1, 570), (11366, 11366, 1, 574), (11368, 11372, 2, 11367), (11379, 11379, 1, 11378),
      (11382, 11382, 1, 11381), (11393, 11491, 2, 11392), (11500, 11502, 2, 11499), (11507, 11507, 1, 11506),
      (11520, 11557, 1, 4256), (11559, 11559, 1, 4295), (11565, 11565, 1, 4301), (42561, 42605, 2, 42560),
      (42625, 42651, 2, 42624), (42787, 42799, 2, 42786), (42803, 42863, 2, 42802), (42874, 42876, 2, 42873),
      (42879, 42887, 2, 42878), (42892, 42892, 1, 42891), (42897, 42899, 2, 42896), (42900, 42900, 1, 42948),
      (42903, 42921, 2, 42902), (42933, 42947, 2, 42932), (42952, 42954, 2, 42951), (42961, 42961, 1, 42960),
      (42967, 42969, 2, 42966), (42998, 42998, 1, 42997), (43859, 43859, 1, 42931), (43888, 43967, 1, 5024),
      (65345, 65370, 1, 65313)]"

definition upperSpecial :: "(nat \<times> jsstring) list" where
  "upperSpecial =
     [
      (223, [83, 83]), (329, [700, 78]), (496, [74, 780]), (912, [921, 776, 769]),
      (944, [933, 776, 769]), (1415, [1333, 1362]), (7830, [72, 817]), (7831, [84, 776]),
      (7832, [87, 778]), (7833, [89, 778]), (7834, [65, 702]), (8016, [933, 787]),
      (8018, [933, 787, 768]), (8020, [933, 787, 769]), (8022, [933, 787, 834]), (8064, [7944, 921]),
      (8065, [7945, 921]), (8066, [7946, 921]), (8067, [7947, 921]), (8068, [7948, 921]),
      (8069, [7949, 921]), (8070, [7950, 921]), (8071, [7951, 921]), (8072, [7944, 921]),
      (8073, [7945, 921]), (8074, [7946, 921]), (8075, [7947, 921]), (8076, [7948, 921]),
      (8077, [7949, 921]), (8078, [7950, 921]), (8079, [7951, 921]), (8080, [7976, 921]),
      (8081, [7977, 921]), (8082, [7978, 921]), (8083, [7979, 921]), (8084, [7980, 921]),
      (8085, [7981, 921]), (8086, [7982, 921]), (8087, [7983, 921]), (8088, [7976, 921]),
      (8089, [7977, 921]), (8090, [7978, 921]), (8091, [7979, 921]), (8092, [7980, 921]),
      (8093, [7981, 921]), (8094, [7982, 921]), (8095, [7983, 921]), (8096, [8040, 921]),
      (8097, [8041, 921]), (8098, [8042, 921]), (8099, [8043, 921]), (8100, [8044, 921]),
      (8101, [8045, 921]), (8102, [8046, 921]), (8103, [8047, 921]), (8104, [8040, 921]),
      (8105, [8041, 921]), (8106, [8042, 921]), (8107, [8043, 921]), (8108, [8044, 921]),
      (8109, [8045, 921]), (8110, [8046, 921]), (8111, [8047, 921]), (8114, [8122, 921]),
      (8115, [913, 921]), (8116, [902, 921]), (8118, [913, 834]), (8119, [913, 834, 921]),
      (8124, [913, 921]), (8130, [8138, 921]), (8131, [919, 921]), (8132, [905, 921]),
      (8134, [919, 834]), (8135, [919, 834, 921]), (8140, [919, 921]), (8146, [921, 776, 768]),
      (8147, [921, 776, 769]), (8150, [921, 834]), (8151, [921, 776, 834]), (8162, [933, 776, 768]),
      (8163, [933, 776, 769]), (8164, [929, 787]), (8166, [933, 834]), (8167, [933, 776, 834]),
      (8178, [8186, 921]), (8179, [937, 921]), (8180, [911, 921]), (8182, [937, 834]),
      (8183, [937, 834, 921]), (8188, [937, 921]), (64256, [70, 70]), (64257, [70, 73]),
      (64258, [70, 76]), (64259, [70, 70, 73]), (64260, [70, 70, 76]), (64261, [83, 84]),
      (64262, [83, 84]), (64275, [1348, 1350]), (64276, [1348, 1333]), (64277, [1348, 1339]),
      (64278, [1358, 1350]), (64279, [1348, 1341])]"

definition toUpperCase1 :: "nat \<Rightarrow> jsstring" where
  "toUpperCase1 c =
     (if c < 128 then [if 97 \<le> c \<and> c \<le> 122 then c - 32 else c]
      else if 1072 \<le> c \<and> c \<le> 1103 then [c - 32]
      else if 1104 \<le> c \<and> c \<le> 1119 then [c - 80]
      else (case map_of upperSpecial c of
              Some u \<Rightarrow> u
            | None \<Rightarrow>
                (case find (\<lambda>(lo, hi, step, img). lo \<le> c \<and> c \<le> hi \<and> (c - lo) mod step = 0)
                        upperRanges of
                   Some (lo, hi, step, img) \<Rightarrow> [img + (c - lo)]
                 | None \<Rightarrow> [c])))"

text \<open>
  \<open>String.prototype.toLowerCase\<close>, restricted to the letters of Basic Latin and of
  the Cyrillic block; every other code unit is kept.  The parser never returns a
  lower-cased string.  It lower-cases a capture to look it up in a table: a capture that
  matched a key under the \<open>i\<close> flag holds letters of Basic Latin and of the Cyrillic
  block and the letters U+1C80 to U+1C86, which are lower case already.  And it
  lower-cases the cleaned buffer and the text to compare them, where only the equality
  of the two results is used.
\<close>

definition toLowerUnit :: "nat \<Rightarrow> nat" where
  "toLowerUnit c =
     (if 65 \<le> c \<and> c \<le> 90 then c + 32
      else if 1040 \<le> c \<and> c \<le> 1071 then c + 32
      else if 1024 \<le> c \<and> c \<le> 1039 then c + 80
      else c)"

definition toLowerCase :: "jsstring \<Rightarrow> jsstring" where
  "toLowerCase s = map toLowerUnit s"

definition trim :: "jsstring \<Rightarrow> jsstring" where
  "trim s = rev (dropWhile isSpace (rev (dropWhile isSpace s)))"

section \<open>Numbers\<close>

text \<open>
  A JavaScript number is an IEEE 754 double.  The numbers of the parser are the results
  of \<open>parseInt\<close> on decimal digits, the literals of the tables and the product
  \<open>3600 * n\<close>: integers that a double holds, or an infinity.
\<close>

datatype number = Num int | Infinity | MinusInfinity

function bitLength :: "int \<Rightarrow> nat" where
  "bitLength n = (if n \<le> 0 then 0 else 1 + bitLength (n div 2))"
  by pat_completeness auto
termination
  by (relation "measure nat") auto

declare bitLength.simps [simp del]

text \<open>
  The double nearest to an integer, ties to the even significand: an integer below
  \<open>2^53\<close> in absolute value is a double; a larger one keeps its 53 leading bits, rounded,
  and is an infinity from \<open>2^1024\<close> on.
\<close>

definition roundDouble :: "int \<Rightarrow> number" where
  "roundDouble n =
     (let a = \<bar>n\<bar>
      in if a < 9007199254740992 then Num n
         else (let e = bitLength a - 53;
                   q = a div 2 ^ e;
                   r = a mod 2 ^ e;
                   half = 2 ^ (e - 1);
                   q' = (if half < r \<or> (r = half \<and> odd q) then q + 1 else q);
                   v = q' * 2 ^ e
               in if 2 ^ 1024 \<le> v then (if n < 0 then MinusInfinity else Infinity)
                  else Num (if n < 0 then - v else v)))"

text \<open>\<open>parseInt(s, 10)\<close> on a string of decimal digits, as the captures of \<open>\d\<close> are:
  the double nearest to the integer that the digits denote (ECMAScript allows an
  approximation from the 21st significant digit on; V8, the engine of the Node.js image
  of the repository, rounds correctly).\<close>

definition parseInt :: "jsstring \<Rightarrow> number" where
  "parseInt s = roundDouble (foldl (\<lambda>a c. 10 * a + (int c - 48)) 0 s)"

text \<open>The product \<open>3600 * n\<close>, the comparison \<open>a < b\<close> and \<open>Math.min(a, b)\<close>.\<close>

definition times3600 :: "number \<Rightarrow> number" where
  "times3600 n =
     (case n of Num v \<Rightarrow> roundDouble (3600 * v) | Infinity \<Rightarrow> Infinity
      | MinusInfinity \<Rightarrow> MinusInfinity)"

definition numLess :: "number \<Rightarrow> number \<Rightarrow> bool" where
  "numLess a b =
     (case a of
        Num x \<Rightarrow> (case b of Num y \<Rightarrow> x < y | Infinity \<Rightarrow> True | MinusInfinity \<Rightarrow> False)
      | Infinity \<Rightarrow> False
      | MinusInfinity \<Rightarrow> (case b of MinusInfinity \<Rightarrow> False | _ \<Rightarrow> True))"

definition numMin :: "number \<Rightarrow> number \<Rightarrow> number" where
  "numMin a b = (if numLess b a then b else a)"

section \<open>Regular expressions\<close>

text \<open>
  The fragment of ECMAScript regular expressions that the parser uses, with the
  semantics of a backtracking matcher: every expression yields its matches in the order
  in which backtracking tries them, and the first one is the match.  All patterns carry
  the \<open>i\<close> flag and none the \<open>u\<close> flag, so two code units agree when their
  \<open>Canonicalize\<close> images agree: the upper case of the unit where that is one code unit,
  and not a Basic Latin one for a unit outside Basic Latin; the unit itself otherwise.
\<close>

definition Canonicalize :: "nat \<Rightarrow> nat" where
  "Canonicalize c =
     (case toUpperCase1 c of
        [u] \<Rightarrow> if 128 \<le> c \<and> u < 128 then c else u
      | _ \<Rightarrow> c)"

datatype cset = CChar nat | CDigit | CSpace

datatype cls = In "cset list" | NotIn "cset list"

datatype re =
    Lit jsstring
  | Alts "jsstring list"
  | One cls
  | Rep cls nat "nat option"
  | Opt re
  | Grp re
  | Cat re re
  | WordB
  | NotAhead re

fun cset_has :: "cset \<Rightarrow> nat \<Rightarrow> bool" where
  "cset_has (CChar a) c = (Canonicalize a = Canonicalize c)"
| "cset_has CDigit c = isDigit c"
| "cset_has CSpace c = isSpace c"

fun cls_has :: "cls \<Rightarrow> nat \<Rightarrow> bool" where
  "cls_has (In xs) c = list_ex (\<lambda>x. cset_has x c) xs"
| "cls_has (NotIn xs) c = (\<not> list_ex (\<lambda>x. cset_has x c) xs)"

text \<open>A matcher state: the captures so far, the code unit before the position (for
  \<open>\b\<close>) and the input from the position on.\<close>

type_synonym mstate = "jsstring list \<times> nat option \<times> jsstring"

fun lit_match :: "jsstring \<Rightarrow> nat option \<Rightarrow> jsstring \<Rightarrow> (nat option \<times> jsstring) option" where
  "lit_match [] p s = Some (p, s)"
| "lit_match (a # w) p [] = None"
| "lit_match (a # w) p (c # s) =
     (if Canonicalize c = Canonicalize a then lit_match w (Some c) s else None)"

text \<open>Greedy repetition of a class, between \<open>lo\<close> and \<open>hi\<close> times: the longest run
  first, then the shorter ones.\<close>

fun rep :: "cls \<Rightarrow> nat \<Rightarrow> nat option \<Rightarrow> nat option \<Rightarrow> jsstring \<Rightarrow> (nat option \<times> jsstring) list" where
  "rep k lo hi p [] = (if lo = 0 then [(p, [])] else [])"
| "rep k lo hi p (c # s) =
     (if hi \<noteq> Some 0 \<and> cls_has k c
      then rep k (lo - 1) (map_option (\<lambda>h. h - 1) hi) (Some c) s else [])
     @ (if lo = 0 then [(p, c # s)] else [])"

definition isWordAt :: "nat option \<Rightarrow> bool" where
  "isWordAt p = (case p of None \<Rightarrow> False | Some c \<Rightarrow> isWordChar c)"

definition nextUnit :: "jsstring \<Rightarrow> nat option" where
  "nextUnit s = (case s of [] \<Rightarrow> None | c # _ \<Rightarrow> Some c)"

fun matcher :: "re \<Rightarrow> mstate \<Rightarrow> mstate list" where
  "matcher (Lit w) (cs, p, s) =
     (case lit_match w p s of None \<Rightarrow> [] | Some (p', s') \<Rightarrow> [(cs, p', s')])"
| "matcher (Alts ws) (cs, p, s) =
     concat (map (\<lambda>w. case lit_match w p s of None \<Rightarrow> [] | Some (p', s') \<Rightarrow> [(cs, p', s')]) ws)"
| "matcher (One k) (cs, p, s) =
     (case s of [] \<Rightarrow> [] | c # s' \<Rightarrow> if cls_has k c then [(cs, Some c, s')] else [])"
| "matcher (Rep k lo hi) (cs, p, s) = map (\<lambda>(p', s'). (cs, p', s')) (rep k lo hi p s)"
| "matcher (Opt r) st = matcher r st @ [st]"
| "matcher (Grp r) (cs, p, s) =
     map (\<lambda>(cs', p', s'). (cs' @ [take (length s - length s') s], p', s')) (matcher r (cs, p, s))"
| "matcher (Cat a b) st = concat (map (matcher b) (matcher a st))"
| "matcher WordB (cs, p, s) = (if isWordAt p \<noteq> isWordAt (nextUnit s) then [(cs, p, s)] else [])"
| "matcher (NotAhead r) st = (if matcher r st = [] then [st] else [])"

fun seq :: "re list \<Rightarrow> re" where
  "seq [] = Lit []"
| "seq [r] = r"
| "seq (r # rs) = Cat r (seq rs)"

text \<open>
  The first match, trying every start position from the left: the text before the match
  (collected in reverse), the captures and the text after the match.
\<close>

fun search :: "re \<Rightarrow> jsstring \<Rightarrow> nat option \<Rightarrow> jsstring \<Rightarrow> (jsstring \<times> jsstring list \<times> jsstring) option" where
  "search r pre p [] =
     (case matcher r ([], p, []) of [] \<Rightarrow> None | (cs, _, s') # _ \<Rightarrow> Some (rev pre, cs, s'))"
| "search r pre p (c # t) =
     (case matcher r ([], p, c # t) of
        [] \<Rightarrow> search r (c # pre) (Some c) t
      | (cs, _, s') # _ \<Rightarrow> Some (rev pre, cs, s'))"

text \<open>\<open>str.match(re)\<close> for a pattern without the \<open>g\<close> flag: the captures of the first
  match, or nothing.\<close>

definition match :: "jsstring \<Rightarrow> re \<Rightarrow> jsstring list option" where
  "match s r = map_option (\<lambda>(_, cs, _). cs) (search r [] None s)"

definition test :: "re \<Rightarrow> jsstring \<Rightarrow> bool" where
  "test r s \<longleftrightarrow> search r [] None s \<noteq> None"

text \<open>\<open>str.replace(re, ' ')\<close> for a pattern without the \<open>g\<close> flag: the first match
  becomes one blank.\<close>

definition replace :: "jsstring \<Rightarrow> re \<Rightarrow> jsstring" where
  "replace s r = (case search r [] None s of None \<Rightarrow> s | Some (pre, _, post) \<Rightarrow> pre @ [32] @ post)"

text \<open>
  A pattern with the \<open>g\<close> flag is applied from the end of one match to the next.  The
  scan yields, in text order, the captures of every match (\<open>Inl\<close>) and the code units
  outside the matches (\<open>Inr\<close>); \<open>k\<close> counts the units of the current match still to
  skip.  An empty match moves on by one unit, as \<open>lastIndex\<close> does.
\<close>

fun gscan :: "re \<Rightarrow> nat \<Rightarrow> nat option \<Rightarrow> jsstring \<Rightarrow> (jsstring list + nat) list" where
  "gscan r k p [] =
     (if k = 0 then (case matcher r ([], p, []) of [] \<Rightarrow> [] | (cs, _, _) # _ \<Rightarrow> [Inl cs]) else [])"
| "gscan r k p (c # s) =
     (if 0 < k then gscan r (k - 1) (Some c) s
      else (case matcher r ([], p, c # s) of
              [] \<Rightarrow> Inr c # gscan r 0 (Some c) s
            | (cs, _, s') # _ \<Rightarrow>
                (let n = length (c # s) - length s'
                 in if n = 0 then Inl cs # Inr c # gscan r 0 (Some c) s
                    else Inl cs # gscan r (n - 1) (Some c) s)))"

text \<open>The loop \<open>while ((x = re.exec(s)) !== null)\<close> over a \<open>g\<close> pattern: the captures of
  all matches.\<close>

definition execAll :: "re \<Rightarrow> jsstring \<Rightarrow> jsstring list list" where
  "execAll r s = concat (map (\<lambda>x. case x of Inl cs \<Rightarrow> [cs] | Inr _ \<Rightarrow> []) (gscan r 0 None s))"

text \<open>\<open>str.replace(re, ' ')\<close> for a \<open>g\<close> pattern: every match becomes one blank.\<close>

definition replaceAll :: "jsstring \<Rightarrow> re \<Rightarrow> jsstring" where
  "replaceAll s r = map (\<lambda>x. case x of Inl _ \<Rightarrow> 32 | Inr c \<Rightarrow> c) (gscan r 0 None s)"

section \<open>Dates\<close>

text \<open>
  A \<open>Date\<close> holds a time value: the milliseconds since 1970-01-01T00:00:00Z, or NaN
  (an Invalid Date), which is \<open>None\<close> here.  The parser reads the local fields of a date;
  the tests pin the process to \<open>TZ=UTC\<close>, and so does the model: local time is UTC.
  The day and year arithmetic is that of the ECMAScript specification.
\<close>

type_synonym Date = "int option"

datatype error = RangeError

definition msPerDay :: int where
  "msPerDay = 86400000"

definition TimeClip :: "int \<Rightarrow> Date" where
  "TimeClip t = (if \<bar>t\<bar> \<le> 8640000000000000 then Some t else None)"

definition Day :: "int \<Rightarrow> int" where
  "Day t = t div msPerDay"

definition TimeWithinDay :: "int \<Rightarrow> int" where
  "TimeWithinDay t = t mod msPerDay"

definition leapYear :: "int \<Rightarrow> bool" where
  "leapYear y \<longleftrightarrow> (y mod 4 = 0 \<and> y mod 100 \<noteq> 0) \<or> y mod 400 = 0"

definition DaysInYear :: "int \<Rightarrow> int" where
  "DaysInYear y = (if leapYear y then 366 else 365)"

definition DayFromYear :: "int \<Rightarrow> int" where
  "DayFromYear y = 365 * (y - 1970) + (y - 1969) div 4 - (y - 1901) div 100 + (y - 1601) div 400"

text \<open>\<open>YearFromTime\<close> is the largest year whose first day is not after the day: an
  estimate from the mean length of a year, moved up or down until it fits.\<close>

function yearUp :: "int \<Rightarrow> int \<Rightarrow> int" where
  "yearUp y d = (if DayFromYear (y + 1) \<le> d then yearUp (y + 1) d else y)"
  by pat_completeness auto
termination
  by (relation "measure (\<lambda>(y, d). nat (d + 1 - DayFromYear (y + 1)))")
     (auto simp: DayFromYear_def)

function yearDown :: "int \<Rightarrow> int \<Rightarrow> int" where
  "yearDown y d = (if d < DayFromYear y then yearDown (y - 1) d else y)"
  by pat_completeness auto
termination
  by (relation "measure (\<lambda>(y, d). nat (DayFromYear y - d))")
     (auto simp: DayFromYear_def)

declare yearUp.simps [simp del] yearDown.simps [simp del]

definition YearFromDay :: "int \<Rightarrow> int" where
  "YearFromDay d =
     (let y = 1970 + (400 * d) div 146097
      in if DayFromYear y \<le> d then yearUp y d else yearDown y d)"

definition monthStart :: "int \<Rightarrow> bool \<Rightarrow> int" where
  "monthStart mn leap =
     (if mn = 0 then 0 else if mn = 1 then 31
      else (if leap then 1 else 0) +
        (if mn = 2 then 59 else if mn = 3 then 90 else if mn = 4 then 120
         else if mn = 5 then 151 else if mn = 6 then 181 else if mn = 7 then 212
         else if mn = 8 then 243 else if mn = 9 then 273 else if mn = 10 then 304
         else 334))"

definition MonthFromDay :: "int \<Rightarrow> int" where
  "MonthFromDay d =
     (let y = YearFromDay d; w = d - DayFromYear y; l = (if leapYear y then 1 else 0)
      in if w < 31 then 0 else if w < 59 + l then 1 else if w < 90 + l then 2
         else if w < 120 + l then 3 else if w < 151 + l then 4 else if w < 181 + l then 5
         else if w < 212 + l then 6 else if w < 243 + l then 7 else if w < 273 + l then 8
         else if w < 304 + l then 9 else if w < 334 + l then 10 else 11)"

definition DateFromDay :: "int \<Rightarrow> int" where
  "DateFromDay d =
     (let y = YearFromDay d
      in d - DayFromYear y - monthStart (MonthFromDay d) (leapYear y) + 1)"

definition MakeDay :: "int \<Rightarrow> int \<Rightarrow> int \<Rightarrow> int" where
  "MakeDay year month date =
     (let ym = year + month div 12; mn = month mod 12
      in DayFromYear ym + monthStart mn (leapYear ym) + date - 1)"

definition MakeTime :: "int \<Rightarrow> int \<Rightarrow> int \<Rightarrow> int \<Rightarrow> int" where
  "MakeTime h mi s ms = h * 3600000 + mi * 60000 + s * 1000 + ms"

definition MakeDate :: "int \<Rightarrow> int \<Rightarrow> int" where
  "MakeDate day time = day * msPerDay + time"

subsection \<open>The getters of a valid date\<close>

definition getFullYear :: "int \<Rightarrow> int" where
  "getFullYear t = YearFromDay (Day t)"

definition getMonth :: "int \<Rightarrow> int" where
  "getMonth t = MonthFromDay (Day t)"

definition getDate :: "int \<Rightarrow> int" where
  "getDate t = DateFromDay (Day t)"

definition getDay :: "int \<Rightarrow> int" where
  "getDay t = (Day t + 4) mod 7"

definition getHours :: "int \<Rightarrow> int" where
  "getHours t = (t div 3600000) mod 24"

definition getMinutes :: "int \<Rightarrow> int" where
  "getMinutes t = (t div 60000) mod 60"

definition getSeconds :: "int \<Rightarrow> int" where
  "getSeconds t = (t div 1000) mod 60"

definition getMilliseconds :: "int \<Rightarrow> int" where
  "getMilliseconds t = t mod 1000"

text \<open>\<open>new Date(year, month, day)\<close>: a year from 0 to 99 means 1900 + year.\<close>

definition newDate :: "int \<Rightarrow> int \<Rightarrow> number \<Rightarrow> Date" where
  "newDate y mo d =
     (case d of
        Num k \<Rightarrow> TimeClip (MakeDate (MakeDay (if 0 \<le> y \<and> y \<le> 99 then 1900 + y else y) mo k) 0)
      | _ \<Rightarrow> None)"

subsection \<open>The functions of date-fns that the parser imports\<close>

text \<open>Each one copies its argument and calls the setter of that name; a setter keeps
  an Invalid Date invalid, makes one of an amount that is not finite, and clips its
  result to the range of time values.\<close>

definition startOfDay :: "Date \<Rightarrow> Date" where
  "startOfDay d = (case d of None \<Rightarrow> None | Some t \<Rightarrow> TimeClip (MakeDate (Day t) 0))"

definition setHours :: "Date \<Rightarrow> number \<Rightarrow> Date" where
  "setHours d hours =
     (case d of None \<Rightarrow> None | Some t \<Rightarrow>
     (case hours of
        Num k \<Rightarrow>
          TimeClip (MakeDate (Day t) (MakeTime k (getMinutes t) (getSeconds t) (getMilliseconds t)))
      | _ \<Rightarrow> None))"

definition setMinutes :: "Date \<Rightarrow> number \<Rightarrow> Date" where
  "setMinutes d minutes =
     (case d of None \<Rightarrow> None | Some t \<Rightarrow>
     (case minutes of
        Num k \<Rightarrow>
          TimeClip (MakeDate (Day t) (MakeTime (getHours t) k (getSeconds t) (getMilliseconds t)))
      | _ \<Rightarrow> None))"

definition setSeconds :: "Date \<Rightarrow> number \<Rightarrow> Date" where
  "setSeconds d seconds =
     (case d of None \<Rightarrow> None | Some t \<Rightarrow>
     (case seconds of
        Num k \<Rightarrow>
          TimeClip (MakeDate (Day t) (MakeTime (getHours t) (getMinutes t) k (getMilliseconds t)))
      | _ \<Rightarrow> None))"

definition setMilliseconds :: "Date \<Rightarrow> number \<Rightarrow> Date" where
  "setMilliseconds d ms =
     (case d of None \<Rightarrow> None | Some t \<Rightarrow>
     (case ms of
        Num k \<Rightarrow>
          TimeClip (MakeDate (Day t) (MakeTime (getHours t) (getMinutes t) (getSeconds t) k))
      | _ \<Rightarrow> None))"

text \<open>\<open>addDays\<close> returns the date itself for the amount 0 and calls
  \<open>setDate(getDate() + amount)\<close> otherwise.\<close>

definition addDays :: "Date \<Rightarrow> number \<Rightarrow> Date" where
  "addDays d amount =
     (case d of None \<Rightarrow> None | Some t \<Rightarrow>
     (case amount of
        Num n \<Rightarrow>
          if n = 0 then Some t
          else TimeClip (MakeDate (MakeDay (getFullYear t) (getMonth t) (getDate t + n))
                  (TimeWithinDay t))
      | _ \<Rightarrow> None))"

text \<open>\<open>getDaysInMonth\<close>: the date of day 0 of the following month; NaN when that day
  is outside the range of time values.\<close>

definition getDaysInMonth :: "int \<Rightarrow> int option" where
  "getDaysInMonth t =
     map_option getDate (TimeClip (MakeDate (MakeDay (getFullYear t) (getMonth t + 1) 0) 0))"

text \<open>The length of the month \<open>mo\<close> (from 0) of the year \<open>y\<close> in the calendar.  The
  parser does not call it; the month lengths that \<open>getDaysInMonth\<close> computes are compared
  with it.\<close>

definition daysInMonth :: "int \<Rightarrow> int \<Rightarrow> int" where
  "daysInMonth y mo =
     (if mo = 1 then (if leapYear y then 29 else 28)
      else if mo = 3 \<or> mo = 5 \<or> mo = 8 \<or> mo = 10 then 30 else 31)"

text \<open>\<open>addMonths\<close>: the same day of the month \<open>n\<close> months on, or the last day of that
  month where it is shorter; the time of day is kept.\<close>

definition addMonths :: "Date \<Rightarrow> int \<Rightarrow> Date" where
  "addMonths d n =
     (case d of None \<Rightarrow> None | Some t \<Rightarrow>
     if n = 0 then Some t
     else (case TimeClip (MakeDate (MakeDay (getFullYear t) (getMonth t + n + 1) 0) (TimeWithinDay t)) of
             None \<Rightarrow> None
           | Some e \<Rightarrow>
               if getDate t \<ge> getDate e then Some e
               else TimeClip (MakeDate (MakeDay (getFullYear e) (getMonth e) (getDate t)) (TimeWithinDay t))))"

definition isBefore :: "Date \<Rightarrow> Date \<Rightarrow> bool" where
  "isBefore a b = (case a of None \<Rightarrow> False | Some x \<Rightarrow> (case b of None \<Rightarrow> False | Some y \<Rightarrow> x < y))"

subsection \<open>\<open>toISOString\<close>\<close>

definition pad2 :: "int \<Rightarrow> jsstring" where
  "pad2 v = [48 + nat (v div 10 mod 10), 48 + nat (v mod 10)]"

definition pad3 :: "int \<Rightarrow> jsstring" where
  "pad3 v = (48 + nat (v div 100 mod 10)) # pad2 v"

definition pad4 :: "int \<Rightarrow> jsstring" where
  "pad4 v = (48 + nat (v div 1000 mod 10)) # pad3 v"

definition pad6 :: "int \<Rightarrow> jsstring" where
  "pad6 v = [48 + nat (v div 100000 mod 10), 48 + nat (v div 10000 mod 10)] @ pad4 v"

definition isoString :: "int \<Rightarrow> jsstring" where
  "isoString t =
     (let y = getFullYear t
      in (if 0 \<le> y \<and> y \<le> 9999 then pad4 y
          else (if y < 0 then [45] else [43]) @ pad6 \<bar>y\<bar>)
         @ [45] @ pad2 (getMonth t + 1) @ [45] @ pad2 (getDate t)
         @ [84] @ pad2 (getHours t) @ [58] @ pad2 (getMinutes t) @ [58] @ pad2 (getSeconds t)
         @ [46] @ pad3 (getMilliseconds t) @ [90])"

text \<open>\<open>toISOString\<close> throws a RangeError on an Invalid Date.\<close>

definition toIso :: "Date \<Rightarrow> error + jsstring" where
  "toIso d = (case d of None \<Rightarrow> Inl RangeError | Some t \<Rightarrow> Inr (isoString t))"

subsection \<open>The parser's helpers\<close>

definition atTime :: "Date \<Rightarrow> number \<Rightarrow> number \<Rightarrow> Date" where
  "atTime date hours minutes =
     setMilliseconds (setSeconds (setMinutes (setHours date hours) minutes) (Num 0)) (Num 0)"

definition atEndOfDay :: "Date \<Rightarrow> Date" where
  "atEndOfDay date = atTime date (Num 23) (Num 59)"

text \<open>On an Invalid Date \<open>getDay\<close> is NaN, both comparisons of \<open>delta\<close> fail and
  \<open>addDays\<close> of an Invalid Date is invalid.\<close>

definition nextWeekday :: "Date \<Rightarrow> int \<Rightarrow> bool \<Rightarrow> Date" where
  "nextWeekday from targetWeekday allowToday =
     (case from of
        None \<Rightarrow> None
      | Some t \<Rightarrow>
          (let fromDay = getDay t;
               delta = targetWeekday - fromDay;
               delta = (if delta < 0 \<or> (delta = 0 \<and> \<not> allowToday) then delta + 7 else delta)
           in addDays (startOfDay from) (Num delta)))"

text \<open>With a NaN month length the candidate is an Invalid Date, which is before
  nothing, and is returned.\<close>

definition nearestDayOfMonth :: "Date \<Rightarrow> number \<Rightarrow> Date" where
  "nearestDayOfMonth from day =
     (case from of
        None \<Rightarrow> None
      | Some t \<Rightarrow>
          (case getDaysInMonth t of
             None \<Rightarrow> None
           | Some daysInCurrent \<Rightarrow>
               (let clampedDay = numMin day (Num daysInCurrent);
                    candidate = newDate (getFullYear t) (getMonth t) clampedDay
                in if \<not> isBefore candidate (startOfDay from) then candidate
                   else (case addMonths from 1 of
                           None \<Rightarrow> None
                         | Some n \<Rightarrow>
                             (case getDaysInMonth n of
                                None \<Rightarrow> None
                              | Some daysInNext \<Rightarrow>
                                  newDate (getFullYear n) (getMonth n)
                                    (numMin day (Num daysInNext)))))))"

definition ceilToHour :: "Date \<Rightarrow> Date" where
  "ceilToHour d =
     (case d of
        None \<Rightarrow> None
      | Some t \<Rightarrow>
          if getMinutes t = 0 \<and> getSeconds t = 0 then d
          else (case TimeClip (MakeDate (Day t) (MakeTime (getHours t) 0 0 0)) of
                  None \<Rightarrow> None
                | Some r \<Rightarrow> setHours (Some r) (Num (getHours r + 1))))"

section \<open>The parser's tables and patterns\<close>

text \<open>The Russian words of the tables and patterns, as their code units; each constant
  is named by the Latin transliteration of its word.\<close>

definition ru_srochno :: jsstring where
  "ru_srochno = [1089, 1088, 1086, 1095, 1085, 1086]"

definition ru_vazhno :: jsstring where
  "ru_vazhno = [1074, 1072, 1078, 1085, 1086]"

definition ru_voskresenye :: jsstring where
  "ru_voskresenye = [1074, 1086, 1089, 1082, 1088, 1077, 1089, 1077, 1085, 1100, 1077]"

definition ru_ponedelnik :: jsstring where
  "ru_ponedelnik = [1087, 1086, 1085, 1077, 1076, 1077, 1083, 1100, 1085, 1080, 1082]"

definition ru_vtornik :: jsstring where
  "ru_vtornik = [1074, 1090, 1086, 1088, 1085, 1080, 1082]"

definition ru_sredu :: jsstring where
  "ru_sredu = [1089, 1088, 1077, 1076, 1091]"

definition ru_sreda :: jsstring where
  "ru_sreda = [1089, 1088, 1077, 1076, 1072]"

definition ru_chetverg :: jsstring where
  "ru_chetverg = [1095, 1077, 1090, 1074, 1077, 1088, 1075]"

definition ru_pyatnitsu :: jsstring where
  "ru_pyatnitsu = [1087, 1103, 1090, 1085, 1080, 1094, 1091]"

definition ru_pyatnitsa :: jsstring where
  "ru_pyatnitsa = [1087, 1103, 1090, 1085, 1080, 1094, 1072]"

definition ru_subbotu :: jsstring where
  "ru_subbotu = [1089, 1091, 1073, 1073, 1086, 1090, 1091]"

definition ru_subbota :: jsstring where
  "ru_subbota = [1089, 1091, 1073, 1073, 1086, 1090, 1072]"

definition ru_utrom :: jsstring where
  "ru_utrom = [1091, 1090, 1088, 1086, 1084]"

definition ru_dnem :: jsstring where
  "ru_dnem = [1076, 1085, 1077, 1084]"

definition ru_dnyom :: jsstring where
  "ru_dnyom = [1076, 1085, 1105, 1084]"

definition ru_vecherom :: jsstring where
  "ru_vecherom = [1074, 1077, 1095, 1077, 1088, 1086, 1084]"

definition ru_nochyu :: jsstring where
  "ru_nochyu = [1085, 1086, 1095, 1100, 1102]"

definition ru_kazhdyj :: jsstring where
  "ru_kazhdyj = [1082, 1072, 1078, 1076, 1099, 1081]"

definition ru_kazhduyu :: jsstring where
  "ru_kazhduyu = [1082, 1072, 1078, 1076, 1091, 1102]"

definition ru_kazhdoe :: jsstring where
  "ru_kazhdoe = [1082, 1072, 1078, 1076, 1086, 1077]"

definition ru_kazhdye :: jsstring where
  "ru_kazhdye = [1082, 1072, 1078, 1076, 1099, 1077]"

definition ru_kazhdoj :: jsstring where
  "ru_kazhdoj = [1082, 1072, 1078, 1076, 1086, 1081]"

definition ru_den :: jsstring where
  "ru_den = [1076, 1077, 1085, 1100]"

definition ru_nedelyu :: jsstring where
  "ru_nedelyu = [1085, 1077, 1076, 1077, 1083, 1102]"

definition ru_nedeli :: jsstring where
  "ru_nedeli = [1085, 1077, 1076, 1077, 1083, 1080]"

definition ru_mesyats :: jsstring where
  "ru_mesyats = [1084, 1077, 1089, 1103, 1094]"

definition ru_chas :: jsstring where
  "ru_chas = [1095, 1072, 1089]"

definition ru_chaso :: jsstring where
  "ru_chaso = [1095, 1072, 1089, 1086]"

definition ru_chisl :: jsstring where
  "ru_chisl = [1095, 1080, 1089, 1083]"

definition ru_vtoroj :: jsstring where
  "ru_vtoroj = [1074, 1090, 1086, 1088, 1086, 1081]"

definition ru_segodnya :: jsstring where
  "ru_segodnya = [1089, 1077, 1075, 1086, 1076, 1085, 1103]"

definition ru_zavtra :: jsstring where
  "ru_zavtra = [1079, 1072, 1074, 1090, 1088, 1072]"

definition ru_poslezavtra :: jsstring where
  "ru_poslezavtra = [1087, 1086, 1089, 1083, 1077, 1079, 1072, 1074, 1090, 1088, 1072]"

definition ru_cherez :: jsstring where
  "ru_cherez = [1095, 1077, 1088, 1077, 1079]"

definition ru_dn :: jsstring where
  "ru_dn = [1076, 1085]"

definition ru_v :: jsstring where
  "ru_v = [1074]"

text \<open>The other words of the inputs of \<open>quickAddRu.test.ts\<close> that are run below.\<close>

definition ru_vynesti :: jsstring where
  "ru_vynesti = [1074, 1099, 1085, 1077, 1089, 1090, 1080]"

definition ru_musor :: jsstring where
  "ru_musor = [1084, 1091, 1089, 1086, 1088]"

definition ru_pozvonit :: jsstring where
  "ru_pozvonit = [1087, 1086, 1079, 1074, 1086, 1085, 1080, 1090, 1100]"

definition ru_podgotovit :: jsstring where
  "ru_podgotovit = [1087, 1086, 1076, 1075, 1086, 1090, 1086, 1074, 1080, 1090, 1100]"

definition ru_otchyot :: jsstring where
  "ru_otchyot = [1086, 1090, 1095, 1105, 1090]"


definition PRIORITY_MAP :: "(jsstring \<times> int) list" where
  "PRIORITY_MAP =
     [(ru_srochno, 5),
      (js ''urgent'', 5),
      (ru_vazhno, 4),
      (js ''important'', 4)]"

definition WEEKDAY_MAP :: "(jsstring \<times> int) list" where
  "WEEKDAY_MAP =
     [(ru_voskresenye, 0),
      (js ''sunday'', 0), (js ''sun'', 0),
      (ru_ponedelnik, 1),
      (js ''monday'', 1), (js ''mon'', 1),
      (ru_vtornik, 2),
      (js ''tuesday'', 2), (js ''tue'', 2),
      (ru_sredu, 3),
      (ru_sreda, 3),
      (js ''wednesday'', 3), (js ''wed'', 3),
      (ru_chetverg, 4),
      (js ''thursday'', 4), (js ''thu'', 4),
      (ru_pyatnitsu, 5),
      (ru_pyatnitsa, 5),
      (js ''friday'', 5), (js ''fri'', 5),
      (ru_subbotu, 6),
      (ru_subbota, 6),
      (js ''saturday'', 6), (js ''sat'', 6)]"

record TimeHM =
  h :: int
  m :: int

definition TIME_MARKER_MAP :: "(jsstring \<times> TimeHM) list" where
  "TIME_MARKER_MAP =
     [(ru_utrom, \<lparr>h = 8, m = 0\<rparr>),
      (ru_dnem, \<lparr>h = 13, m = 0\<rparr>),
      (ru_dnyom, \<lparr>h = 13, m = 0\<rparr>),
      (ru_vecherom, \<lparr>h = 20, m = 0\<rparr>),
      (ru_nochyu, \<lparr>h = 23, m = 0\<rparr>)]"

text \<open>\<open>Object.keys\<close> lists the keys in the order of the literal.\<close>

definition keys :: "(jsstring \<times> 'a) list \<Rightarrow> jsstring list" where
  "keys tab = map fst tab"

definition spaces :: re where  \<comment> \<open>\<open>\s+\<close>\<close>
  "spaces = Rep (In [CSpace]) 1 None"

definition digits12 :: re where  \<comment> \<open>\<open>\d{1,2}\<close>\<close>
  "digits12 = Rep (In [CDigit]) 1 (Some 2)"

definition digits1 :: re where  \<comment> \<open>\<open>\d+\<close>\<close>
  "digits1 = Rep (In [CDigit]) 1 None"

definition token :: re where  \<comment> \<open>\<open>[^\s!+*"]+\<close>\<close>
  "token = Rep (NotIn [CSpace, CChar 33, CChar 43, CChar 42, CChar 34]) 1 None"

definition quoted :: re where  \<comment> \<open>\<open>[^"]+\<close>\<close>
  "quoted = Rep (NotIn [CChar 34]) 1 None"

definition prioNumRe :: re where  \<comment> \<open>\<open>/!([1-5])\b/i\<close>\<close>
  "prioNumRe =
     seq [Lit [33], Grp (One (In [CChar 49, CChar 50, CChar 51, CChar 52, CChar 53])), WordB]"

definition prioWordRe :: re where  \<comment> \<open>\<open>!(keys)\b\<close>, flag \<open>i\<close>\<close>
  "prioWordRe = seq [Lit [33], Grp (Alts (keys PRIORITY_MAP)), WordB]"

definition projectQuotedRe :: re where  \<comment> \<open>\<open>/\+"([^"]+)"/i\<close>\<close>
  "projectQuotedRe = seq [Lit [43, 34], Grp quoted, Lit [34]]"

definition projectSimpleRe :: re where  \<comment> \<open>\<open>/\+([^\s!+*"]+)/i\<close>\<close>
  "projectSimpleRe = seq [Lit [43], Grp token]"

definition labelQuotedRe :: re where  \<comment> \<open>\<open>/\*"([^"]+)"/gi\<close>\<close>
  "labelQuotedRe = seq [Lit [42, 34], Grp quoted, Lit [34]]"

definition labelSimpleRe :: re where  \<comment> \<open>\<open>/\*([^\s!+*"]+)/gi\<close>\<close>
  "labelSimpleRe = seq [Lit [42], Grp token]"

definition explicitTimeRe :: re where  \<comment> \<open>\<open>/(?:v\s+)?(\d{1,2}):(\d{2})(?!\d)/i\<close>, v = U+0432\<close>
  "explicitTimeRe =
     seq [Opt (Cat (Lit ru_v) spaces), Grp digits12, Lit [58],
          Grp (Rep (In [CDigit]) 2 (Some 2)), NotAhead (One (In [CDigit]))]"

definition hourOnlyTimeRe :: re where  \<comment> \<open>\<open>/\bv\s+(\d{1,2})\b(?!:)/i\<close>, v = U+0432\<close>
  "hourOnlyTimeRe = seq [WordB, Lit ru_v, spaces, Grp digits12, WordB, NotAhead (Lit [58])]"

definition timeMarkerRe :: re where  \<comment> \<open>\<open>\b(keys)\b\<close>, flag \<open>i\<close>\<close>
  "timeMarkerRe = seq [WordB, Grp (Alts (keys TIME_MARKER_MAP)), WordB]"

definition everyDayRe :: re where  \<comment> \<open>\<open>/\bkazhdyj\s+den'\b/i\<close>\<close>
  "everyDayRe = seq [WordB, Lit ru_kazhdyj, spaces, Lit ru_den, WordB]"

definition everyWeekRe :: re where  \<comment> \<open>\<open>/\bkazhduyu\s+nedelyu\b/i\<close>\<close>
  "everyWeekRe = seq [WordB, Lit ru_kazhduyu, spaces, Lit ru_nedelyu, WordB]"

definition everyMonthRe :: re where  \<comment> \<open>\<open>/\bkazhdyj\s+mesyats\b/i\<close>\<close>
  "everyMonthRe = seq [WordB, Lit ru_kazhdyj, spaces, Lit ru_mesyats, WordB]"

definition everyHourRe :: re where  \<comment> \<open>\<open>/\bkazhdyj\s+chas\b/i\<close>\<close>
  "everyHourRe = seq [WordB, Lit ru_kazhdyj, spaces, Lit ru_chas, WordB]"

definition everyNHoursRe :: re where  \<comment> \<open>\<open>/\bkazhdye\s+(\d+)\s+chasov?\b/i\<close>\<close>
  "everyNHoursRe =
     seq [WordB, Lit ru_kazhdye, spaces, Grp digits1, spaces,
          Lit ru_chaso, Rep (In [CChar 1074]) 0 (Some 1), WordB]"

definition everyWeekdayRe :: re where  \<comment> \<open>\<open>\b(?:kazhdyj|kazhduyu|kazhdoe)\s+(keys)\b\<close>, flag \<open>i\<close>\<close>
  "everyWeekdayRe =
     seq [WordB, Alts [ru_kazhdyj, ru_kazhduyu, ru_kazhdoe], spaces, Grp (Alts (keys WEEKDAY_MAP)), WordB]"

definition everyDayOfMonthRe :: re where  \<comment> \<open>\<open>/\bkazhdoe\s+(\d{1,2})\s+chisl[oa]?\b/i\<close>\<close>
  "everyDayOfMonthRe =
     seq [WordB, Lit ru_kazhdoe, spaces, Grp digits12, spaces,
          Lit ru_chisl, Rep (In [CChar 1086, CChar 1072]) 0 (Some 1), WordB]"

definition secondDayOfWeekRe :: re where  \<comment> \<open>\<open>/\bvtoroj\s+den'\s+kazhdoj\s+nedeli\b/i\<close>\<close>
  "secondDayOfWeekRe =
     seq [WordB, Lit ru_vtoroj, spaces, Lit ru_den, spaces, Lit ru_kazhdoj, spaces, Lit ru_nedeli, WordB]"

definition todayRe :: re where  \<comment> \<open>\<open>/\b(segodnya|today)\b/i\<close>\<close>
  "todayRe = seq [WordB, Grp (Alts [ru_segodnya, js ''today'']), WordB]"

definition tomorrowRe :: re where  \<comment> \<open>\<open>/\b(zavtra|tomorrow)\b/i\<close>\<close>
  "tomorrowRe = seq [WordB, Grp (Alts [ru_zavtra, js ''tomorrow'']), WordB]"

definition dayAfterTomorrowRe :: re where  \<comment> \<open>\<open>/\bposlezavtra\b/i\<close>\<close>
  "dayAfterTomorrowRe = seq [WordB, Lit ru_poslezavtra, WordB]"

definition inNDaysRe :: re where  \<comment> \<open>\<open>/\bcherez\s+(\d+)\s+dn[e yo ya j]?\b/i\<close>\<close>
  "inNDaysRe =
     seq [WordB, Lit ru_cherez, spaces, Grp digits1, spaces,
          Lit ru_dn, Rep (In [CChar 1077, CChar 1105, CChar 1103, CChar 1081]) 0 (Some 1), WordB]"

definition weekdayOnceRe :: re where  \<comment> \<open>\<open>\b(?:v\s+)?(keys)\b\<close>, flag \<open>i\<close>\<close>
  "weekdayOnceRe = seq [WordB, Opt (Cat (Lit ru_v) spaces), Grp (Alts (keys WEEKDAY_MAP)), WordB]"

definition spaceRunRe :: re where  \<comment> \<open>\<open>/\s{2,}/g\<close>\<close>
  "spaceRunRe = Rep (In [CSpace]) 2 None"

text \<open>The text of capture group \<open>i\<close> (from 1).  Every group of the patterns above takes
  part in every match, so the captures hold at least as many entries as the pattern
  has groups.\<close>

definition capture :: "jsstring list \<Rightarrow> nat \<Rightarrow> jsstring" where
  "capture cs i = (if 0 < i \<and> i \<le> length cs then cs ! (i - 1) else [])"

section \<open>The parser\<close>

record ParsedTaskPatch =
  due_date :: "jsstring option"
  priority :: "number option"
  project_name :: "jsstring option"
  labels :: "jsstring list option"
  repeat_after :: "number option"
  repeat_mode :: "int option"
  cleaned_title :: "jsstring option"

text \<open>The variables that \<open>parseQuickAddRu\<close> updates as it goes: the buffer, the patch
  and the hour and minute of the two time extractors.\<close>

record pstate =
  remaining :: jsstring
  patch :: ParsedTaskPatch
  parsedHour :: "number option"
  parsedMinute :: "number option"
  markerHour :: "number option"
  markerMinute :: "number option"

definition emptyPatch :: ParsedTaskPatch where
  "emptyPatch =
     \<lparr>due_date = None, priority = None, project_name = None, labels = None,
      repeat_after = None, repeat_mode = None, cleaned_title = None\<rparr>"

definition initial :: "jsstring \<Rightarrow> pstate" where
  "initial text =
     \<lparr>remaining = text, patch = emptyPatch, parsedHour = None, parsedMinute = None,
      markerHour = None, markerMinute = None\<rparr>"

subsection \<open>1. Priority\<close>

definition extractPriority :: "pstate \<Rightarrow> pstate" where
  "extractPriority st =
     (case match (remaining st) prioNumRe of
        Some cs \<Rightarrow>
          st\<lparr>patch := (patch st)\<lparr>priority := Some (parseInt (capture cs 1))\<rparr>,
             remaining := replace (remaining st) prioNumRe\<rparr>
      | None \<Rightarrow>
          (case match (remaining st) prioWordRe of
             Some cs \<Rightarrow>
               st\<lparr>patch := (patch st)\<lparr>priority := map_option Num (map_of PRIORITY_MAP (toLowerCase (capture cs 1)))\<rparr>,
                  remaining := replace (remaining st) prioWordRe\<rparr>
           | None \<Rightarrow> st))"

subsection \<open>2. Project\<close>

definition extractProject :: "pstate \<Rightarrow> pstate" where
  "extractProject st =
     (case match (remaining st) projectQuotedRe of
        Some cs \<Rightarrow>
          st\<lparr>patch := (patch st)\<lparr>project_name := Some (trim (capture cs 1))\<rparr>,
             remaining := replace (remaining st) projectQuotedRe\<rparr>
      | None \<Rightarrow>
          (case match (remaining st) projectSimpleRe of
             Some cs \<Rightarrow>
               st\<lparr>patch := (patch st)\<lparr>project_name := Some (trim (capture cs 1))\<rparr>,
                  remaining := replace (remaining st) projectSimpleRe\<rparr>
           | None \<Rightarrow> st))"

subsection \<open>3. Labels\<close>

definition extractLabels :: "pstate \<Rightarrow> pstate" where
  "extractLabels st =
     (let quotedLabels = map (\<lambda>cs. trim (capture cs 1)) (execAll labelQuotedRe (remaining st));
          remaining1 = replaceAll (remaining st) labelQuotedRe;
          simpleLabels = map (\<lambda>cs. trim (capture cs 1)) (execAll labelSimpleRe remaining1);
          remaining2 = replaceAll remaining1 labelSimpleRe;
          allLabels = quotedLabels @ simpleLabels
      in st\<lparr>patch := (if 0 < length allLabels then (patch st)\<lparr>labels := Some allLabels\<rparr>
                      else patch st),
            remaining := remaining2\<rparr>)"

subsection \<open>4. Explicit time\<close>

definition extractExplicitTime :: "pstate \<Rightarrow> pstate" where
  "extractExplicitTime st =
     (case match (remaining st) explicitTimeRe of
        Some cs \<Rightarrow>
          st\<lparr>parsedHour := Some (parseInt (capture cs 1)),
             parsedMinute := Some (parseInt (capture cs 2)),
             remaining := replace (remaining st) explicitTimeRe\<rparr>
      | None \<Rightarrow>
          (case match (remaining st) hourOnlyTimeRe of
             Some cs \<Rightarrow>
               st\<lparr>parsedHour := Some (parseInt (capture cs 1)),
                  parsedMinute := Some (Num 0),
                  remaining := replace (remaining st) hourOnlyTimeRe\<rparr>
           | None \<Rightarrow> st))"

subsection \<open>5. Time-of-day markers\<close>

definition extractTimeMarker :: "pstate \<Rightarrow> pstate" where
  "extractTimeMarker st =
     (case match (remaining st) timeMarkerRe of
        Some cs \<Rightarrow>
          (case map_of TIME_MARKER_MAP (toLowerCase (capture cs 1)) of
             Some tm \<Rightarrow>
               st\<lparr>markerHour := Some (Num (h tm)), markerMinute := Some (Num (m tm)),
                  remaining := replace (remaining st) timeMarkerRe\<rparr>
           | None \<Rightarrow> st\<lparr>remaining := replace (remaining st) timeMarkerRe\<rparr>)
      | None \<Rightarrow> st)"

text \<open>Explicit time wins over marker (\<open>??\<close>).\<close>

definition effectiveHour :: "pstate \<Rightarrow> number option" where
  "effectiveHour st = (case parsedHour st of Some x \<Rightarrow> Some x | None \<Rightarrow> markerHour st)"

definition effectiveMinute :: "pstate \<Rightarrow> number option" where
  "effectiveMinute st = (case parsedMinute st of Some x \<Rightarrow> Some x | None \<Rightarrow> markerMinute st)"

definition applyTime :: "pstate \<Rightarrow> Date \<Rightarrow> Date" where
  "applyTime st base =
     (case effectiveHour st of
        Some eh \<Rightarrow> (case effectiveMinute st of Some em \<Rightarrow> atTime base eh em | None \<Rightarrow> atEndOfDay base)
      | None \<Rightarrow> atEndOfDay base)"

text \<open>\<open>patch.due_date = toIso(d)\<close>: the assignment, or the RangeError of \<open>toIso\<close>.\<close>

definition setDue :: "pstate \<Rightarrow> Date \<Rightarrow> error + pstate" where
  "setDue st d =
     (case toIso d of
        Inl e \<Rightarrow> Inl e
      | Inr str \<Rightarrow> Inr (st\<lparr>patch := (patch st)\<lparr>due_date := Some str\<rparr>\<rparr>))"

subsection \<open>6. Recurrence\<close>

definition recurrenceKeywords :: "pstate \<Rightarrow> pstate" where
  "recurrenceKeywords st =
     (if test everyDayRe (remaining st) then
        st\<lparr>patch := (patch st)\<lparr>repeat_after := Some (Num 86400), repeat_mode := Some 0\<rparr>,
           remaining := replace (remaining st) everyDayRe\<rparr>
      else if test everyWeekRe (remaining st) then
        st\<lparr>patch := (patch st)\<lparr>repeat_after := Some (Num 604800), repeat_mode := Some 0\<rparr>,
           remaining := replace (remaining st) everyWeekRe\<rparr>
      else if test everyMonthRe (remaining st) then
        st\<lparr>patch := (patch st)\<lparr>repeat_mode := Some 1\<rparr>,
           remaining := replace (remaining st) everyMonthRe\<rparr>
      else if test everyHourRe (remaining st) then
        st\<lparr>patch := (patch st)\<lparr>repeat_after := Some (Num 3600), repeat_mode := Some 0\<rparr>,
           remaining := replace (remaining st) everyHourRe\<rparr>
      else
        (case match (remaining st) everyNHoursRe of
           Some cs \<Rightarrow>
             st\<lparr>patch := (patch st)\<lparr>repeat_after := Some (times3600 (parseInt (capture cs 1))),
                                     repeat_mode := Some 0\<rparr>,
                remaining := replace (remaining st) everyNHoursRe\<rparr>
         | None \<Rightarrow> st))"

text \<open>The weekly default of the two weekday stages, set when neither recurrence field
  is.\<close>

definition weeklyIfUnset :: "ParsedTaskPatch \<Rightarrow> ParsedTaskPatch" where
  "weeklyIfUnset p =
     (if repeat_after p = None \<and> repeat_mode p = None
      then p\<lparr>repeat_after := Some (Num 604800), repeat_mode := Some 0\<rparr> else p)"

definition secondDayOfWeek :: "Date \<Rightarrow> pstate \<Rightarrow> error + pstate" where
  "secondDayOfWeek now st =
     (if test secondDayOfWeekRe (remaining st) \<and> due_date (patch st) = None then
        (case setDue (st\<lparr>patch := weeklyIfUnset (patch st)\<rparr>)
                (applyTime st (nextWeekday (startOfDay now) 2 True)) of
           Inl e \<Rightarrow> Inl e
         | Inr st' \<Rightarrow> Inr (st'\<lparr>remaining := replace (remaining st) secondDayOfWeekRe\<rparr>))
      else Inr st)"

text \<open>\<open>!patch.due_date\<close> holds for an absent and for an empty string.\<close>

definition falsy :: "jsstring option \<Rightarrow> bool" where
  "falsy x = (case x of None \<Rightarrow> True | Some s \<Rightarrow> s = [])"

definition everyWeekday :: "Date \<Rightarrow> pstate \<Rightarrow> error + pstate" where
  "everyWeekday now st =
     (case (if falsy (due_date (patch st)) then match (remaining st) everyWeekdayRe else None) of
        None \<Rightarrow> Inr st
      | Some cs \<Rightarrow>
          (case map_of WEEKDAY_MAP (toLowerCase (capture cs 1)) of
             None \<Rightarrow> Inr (st\<lparr>remaining := replace (remaining st) everyWeekdayRe\<rparr>)
           | Some targetDay \<Rightarrow>
               (case setDue (st\<lparr>patch := weeklyIfUnset (patch st)\<rparr>)
                       (applyTime st (nextWeekday (startOfDay now) targetDay True)) of
                  Inl e \<Rightarrow> Inl e
                | Inr st' \<Rightarrow> Inr (st'\<lparr>remaining := replace (remaining st) everyWeekdayRe\<rparr>))))"

definition everyDayOfMonth :: "Date \<Rightarrow> pstate \<Rightarrow> error + pstate" where
  "everyDayOfMonth now st =
     (case (if falsy (due_date (patch st)) then match (remaining st) everyDayOfMonthRe else None) of
        None \<Rightarrow> Inr st
      | Some cs \<Rightarrow>
          (let day = parseInt (capture cs 1);
               p = (if repeat_after (patch st) = None \<and> repeat_mode (patch st) = None
                    then (patch st)\<lparr>repeat_mode := Some 1\<rparr> else patch st)
           in case setDue (st\<lparr>patch := p\<rparr>) (applyTime st (nearestDayOfMonth (startOfDay now) day)) of
                Inl e \<Rightarrow> Inl e
              | Inr st' \<Rightarrow> Inr (st'\<lparr>remaining := replace (remaining st) everyDayOfMonthRe\<rparr>)))"

subsection \<open>7. Date expressions\<close>

definition erase :: "re \<Rightarrow> jsstring \<Rightarrow> error + pstate \<Rightarrow> error + pstate" where
  "erase r buf x =
     (case x of Inl e \<Rightarrow> Inl e | Inr st' \<Rightarrow> Inr (st'\<lparr>remaining := replace buf r\<rparr>))"

definition dateExpressions :: "Date \<Rightarrow> pstate \<Rightarrow> error + pstate" where
  "dateExpressions now st =
     (if due_date (patch st) = None then
        (if test todayRe (remaining st) then
           erase todayRe (remaining st) (setDue st (applyTime st (startOfDay now)))
         else if test tomorrowRe (remaining st) then
           erase tomorrowRe (remaining st) (setDue st (applyTime st (startOfDay (addDays now (Num 1)))))
         else if test dayAfterTomorrowRe (remaining st) then
           erase dayAfterTomorrowRe (remaining st) (setDue st (applyTime st (startOfDay (addDays now (Num 2)))))
         else
           (case match (remaining st) inNDaysRe of
              Some cs \<Rightarrow>
                erase inNDaysRe (remaining st)
                  (setDue st (applyTime st (startOfDay (addDays now (parseInt (capture cs 1))))))
            | None \<Rightarrow>
                (case match (remaining st) weekdayOnceRe of
                   Some cs \<Rightarrow>
                     (case map_of WEEKDAY_MAP (toLowerCase (capture cs 1)) of
                        Some targetDay \<Rightarrow>
                          erase weekdayOnceRe (remaining st)
                            (setDue st (applyTime st (nextWeekday (startOfDay now) targetDay False)))
                      | None \<Rightarrow> Inr (st\<lparr>remaining := replace (remaining st) weekdayOnceRe\<rparr>))
                 | None \<Rightarrow> Inr st)))
      else Inr st)"

subsection \<open>8. Time-only (no date matched)\<close>

definition timeOnly :: "Date \<Rightarrow> pstate \<Rightarrow> error + pstate" where
  "timeOnly now st =
     (case (if due_date (patch st) = None then effectiveHour st else None) of
        None \<Rightarrow> Inr st
      | Some eh \<Rightarrow>
          (case effectiveMinute st of
             None \<Rightarrow> Inr st
           | Some em \<Rightarrow>
               (let candidate = atTime (startOfDay now) eh em
                in if isBefore candidate now
                   then setDue st (atTime (startOfDay (addDays now (Num 1))) eh em)
                   else setDue st candidate)))"

subsection \<open>9. Hourly repeat: set due_date if still missing\<close>

definition hourlyRepeat :: "Date \<Rightarrow> pstate \<Rightarrow> error + pstate" where
  "hourlyRepeat now st =
     (case repeat_after (patch st) of
        None \<Rightarrow> Inr st
      | Some ra \<Rightarrow>
          if numLess ra (Num 86400) \<and> due_date (patch st) = None then setDue st (ceilToHour now)
          else Inr st)"

subsection \<open>10. Monthly repeat fallback: use today if no date\<close>

definition monthlyFallback :: "Date \<Rightarrow> pstate \<Rightarrow> error + pstate" where
  "monthlyFallback now st =
     (if repeat_mode (patch st) = Some 1 \<and> due_date (patch st) = None then
        (let candidate = applyTime st (startOfDay now)
         in if isBefore candidate now
            then setDue st (applyTime st (startOfDay (addDays now (Num 1))))
            else setDue st candidate)
      else Inr st)"

subsection \<open>11. Cleaned title and result\<close>

definition cleaned :: "jsstring \<Rightarrow> jsstring" where
  "cleaned buf = trim (replaceAll buf spaceRunRe)"

text \<open>\<open>cleaned.charAt(0).toUpperCase() + cleaned.slice(1)\<close>\<close>

definition capitalise :: "jsstring \<Rightarrow> jsstring" where
  "capitalise s = (case s of [] \<Rightarrow> [] | c # cs \<Rightarrow> toUpperCase1 c @ cs)"

definition withTitle :: "jsstring \<Rightarrow> pstate \<Rightarrow> ParsedTaskPatch" where
  "withTitle text st =
     (let c = cleaned (remaining st)
      in if 0 < length c \<and> toLowerCase c \<noteq> trim (toLowerCase text)
         then (patch st)\<lparr>cleaned_title := Some (capitalise c)\<rparr> else patch st)"

definition hasMeaningfulPatch :: "ParsedTaskPatch \<Rightarrow> bool" where
  "hasMeaningfulPatch p \<longleftrightarrow>
     due_date p \<noteq> None \<or> priority p \<noteq> None \<or> project_name p \<noteq> None \<or>
     (case labels p of None \<Rightarrow> False | Some ls \<Rightarrow> 0 < length ls) \<or>
     repeat_after p \<noteq> None \<or> repeat_mode p \<noteq> None"

definition result :: "ParsedTaskPatch \<Rightarrow> ParsedTaskPatch option" where
  "result p = (if \<not> hasMeaningfulPatch p \<and> cleaned_title p = None then None else Some p)"

subsection \<open>The whole function\<close>

text \<open>The stages before the recurrence keywords, in the order of the source; none of
  them writes a due date or a recurrence field.\<close>

definition extractMarkers :: "jsstring \<Rightarrow> pstate" where
  "extractMarkers text =
     extractTimeMarker (extractExplicitTime
       (extractLabels (extractProject (extractPriority (initial text)))))"

definition extractAll :: "jsstring \<Rightarrow> pstate" where
  "extractAll text = recurrenceKeywords (extractMarkers text)"

text \<open>The stages that may write the due date, in the order of the source; a RangeError
  ends the run.\<close>

definition dueStages :: "Date \<Rightarrow> (pstate \<Rightarrow> error + pstate) list" where
  "dueStages now =
     [secondDayOfWeek now, everyWeekday now, everyDayOfMonth now, dateExpressions now,
      timeOnly now, hourlyRepeat now, monthlyFallback now]"

fun run :: "(pstate \<Rightarrow> error + pstate) list \<Rightarrow> pstate \<Rightarrow> error + pstate" where
  "run [] st = Inr st"
| "run (f # fs) st = (case f st of Inl e \<Rightarrow> Inl e | Inr st' \<Rightarrow> run fs st')"

definition parseQuickAddRu :: "jsstring \<Rightarrow> Date \<Rightarrow> error + ParsedTaskPatch option" where
  "parseQuickAddRu text now =
     (if text = [] \<or> length (trim text) = 0 then Inr None
      else (case run (dueStages now) (extractAll text) of
              Inl e \<Rightarrow> Inl e
            | Inr st \<Rightarrow> Inr (result (withTitle text st))))"

text \<open>The patterns of the stages that erase text, and the texts that none of them
  matches.\<close>

definition allPatterns :: "re list" where
  "allPatterns =
     [prioNumRe, prioWordRe, projectQuotedRe, projectSimpleRe, labelQuotedRe, labelSimpleRe,
      explicitTimeRe, hourOnlyTimeRe, timeMarkerRe, everyDayRe, everyWeekRe, everyMonthRe,
      everyHourRe, everyNHoursRe, secondDayOfWeekRe, everyWeekdayRe, everyDayOfMonthRe,
      todayRe, tomorrowRe, dayAfterTomorrowRe, inNDaysRe, weekdayOnceRe]"

definition markerFree :: "jsstring \<Rightarrow> bool" where
  "markerFree s \<longleftrightarrow> list_all (\<lambda>r. search r [] None s = None) allPatterns"

text \<open>The reference instant of the tests, 2024-01-10T12:00:00.000Z, a Wednesday.\<close>

definition NOW :: Date where
  "NOW = Some 1704888000000"

section \<open>Evaluation\<close>

text \<open>The definitions that the simplifier unfolds to run the model on a concrete input.\<close>

lemmas word_defs = ru_srochno_def ru_vazhno_def ru_voskresenye_def ru_ponedelnik_def ru_vtornik_def ru_sredu_def ru_sreda_def ru_chetverg_def ru_pyatnitsu_def ru_pyatnitsa_def ru_subbotu_def ru_subbota_def ru_utrom_def ru_dnem_def ru_dnyom_def ru_vecherom_def ru_nochyu_def ru_kazhdyj_def ru_kazhduyu_def ru_kazhdoe_def ru_kazhdye_def ru_kazhdoj_def ru_den_def ru_nedelyu_def ru_nedeli_def ru_mesyats_def ru_chas_def ru_chaso_def ru_chisl_def ru_vtoroj_def ru_segodnya_def ru_zavtra_def ru_poslezavtra_def ru_cherez_def ru_dn_def ru_v_def ru_vynesti_def ru_musor_def ru_pozvonit_def ru_podgotovit_def ru_otchyot_def

lemmas string_defs = js_def isSpace_def isDigit_def isWordChar_def toUpperCase1_def toLowerUnit_def
  toLowerCase_def trim_def bitLength.simps roundDouble_def parseInt_def times3600_def numLess_def numMin_def
  Canonicalize_def isWordAt_def nextUnit_def
  match_def test_def replace_def execAll_def replaceAll_def capture_def

lemmas date_defs = msPerDay_def TimeClip_def Day_def TimeWithinDay_def leapYear_def DaysInYear_def
  DayFromYear_def yearUp.simps yearDown.simps YearFromDay_def monthStart_def MonthFromDay_def
  DateFromDay_def MakeDay_def MakeTime_def MakeDate_def getFullYear_def getMonth_def getDate_def
  getDay_def getHours_def getMinutes_def getSeconds_def getMilliseconds_def newDate_def
  startOfDay_def setHours_def setMinutes_def setSeconds_def setMilliseconds_def addDays_def
  getDaysInMonth_def daysInMonth_def addMonths_def isBefore_def pad2_def pad3_def pad4_def pad6_def isoString_def
  toIso_def atTime_def atEndOfDay_def nextWeekday_def nearestDayOfMonth_def ceilToHour_def

lemmas pattern_defs = PRIORITY_MAP_def WEEKDAY_MAP_def TIME_MARKER_MAP_def keys_def spaces_def
  digits12_def digits1_def token_def quoted_def prioNumRe_def prioWordRe_def projectQuotedRe_def
  projectSimpleRe_def labelQuotedRe_def labelSimpleRe_def explicitTimeRe_def hourOnlyTimeRe_def
  timeMarkerRe_def everyDayRe_def everyWeekRe_def everyMonthRe_def everyHourRe_def
  everyNHoursRe_def everyWeekdayRe_def everyDayOfMonthRe_def secondDayOfWeekRe_def todayRe_def
  tomorrowRe_def dayAfterTomorrowRe_def inNDaysRe_def weekdayOnceRe_def spaceRunRe_def

lemmas stage_defs = emptyPatch_def initial_def extractPriority_def extractProject_def
  extractLabels_def extractExplicitTime_def extractTimeMarker_def effectiveHour_def
  effectiveMinute_def applyTime_def setDue_def recurrenceKeywords_def weeklyIfUnset_def
  secondDayOfWeek_def falsy_def everyWeekday_def everyDayOfMonth_def erase_def
  dateExpressions_def timeOnly_def hourlyRepeat_def monthlyFallback_def cleaned_def
  capitalise_def withTitle_def hasMeaningfulPatch_def result_def extractMarkers_def
  extractAll_def dueStages_def parseQuickAddRu_def NOW_def

lemmas eval_defs = word_defs string_defs date_defs pattern_defs stage_defs Let_def

section \<open>The stages and the patch\<close>

lemma isoString_nonempty: "isoString t \<noteq> []"
  by (simp add: isoString_def Let_def)

lemma setDue_Inr:
  "setDue st d = Inr st' \<Longrightarrow>
   \<exists>t. d = Some t \<and> st' = st\<lparr>patch := (patch st)\<lparr>due_date := Some (isoString t)\<rparr>\<rparr>"
  by (auto simp: setDue_def toIso_def split: option.splits)

lemma run_append:
  "run (fs @ gs) st = (case run fs st of Inl e \<Rightarrow> Inl e | Inr st' \<Rightarrow> run gs st')"
  by (induction fs arbitrary: st) (auto split: sum.splits)

lemma run_invariant:
  assumes "\<And>f a b. f \<in> set fs \<Longrightarrow> P a \<Longrightarrow> f a = Inr b \<Longrightarrow> P b"
    and "P st" and "run fs st = Inr st'"
  shows "P st'"
  using assms
proof (induction fs arbitrary: st)
  case Nil
  then show ?case by simp
next
  case (Cons f fs)
  from Cons.prems(3) obtain st1 where f: "f st = Inr st1" and r: "run fs st1 = Inr st'"
    by (auto split: sum.splits)
  have p1: "P st1" using Cons.prems(1)[of f st st1] Cons.prems(2) f by simp
  have step: "\<And>g a b. g \<in> set fs \<Longrightarrow> P a \<Longrightarrow> g a = Inr b \<Longrightarrow> P b"
    using Cons.prems(1) by (meson list.set_intros(2))
  from Cons.IH[OF step p1 r] show ?case .
qed

text \<open>The stages before the recurrence keywords leave the due date and the recurrence
  fields alone.\<close>

lemma extractPriority_patch:
  "due_date (patch (extractPriority st)) = due_date (patch st) \<and>
   repeat_after (patch (extractPriority st)) = repeat_after (patch st) \<and>
   repeat_mode (patch (extractPriority st)) = repeat_mode (patch st)"
  by (simp add: extractPriority_def split: option.splits)

lemma extractProject_patch:
  "due_date (patch (extractProject st)) = due_date (patch st) \<and>
   repeat_after (patch (extractProject st)) = repeat_after (patch st) \<and>
   repeat_mode (patch (extractProject st)) = repeat_mode (patch st)"
  by (simp add: extractProject_def split: option.splits)

lemma extractLabels_patch:
  "due_date (patch (extractLabels st)) = due_date (patch st) \<and>
   repeat_after (patch (extractLabels st)) = repeat_after (patch st) \<and>
   repeat_mode (patch (extractLabels st)) = repeat_mode (patch st)"
  by (simp add: extractLabels_def Let_def)

lemma extractExplicitTime_patch: "patch (extractExplicitTime st) = patch st"
  by (simp add: extractExplicitTime_def split: option.splits)

lemma extractTimeMarker_patch: "patch (extractTimeMarker st) = patch st"
  by (simp add: extractTimeMarker_def split: option.splits)

lemma extractMarkers_patch:
  "due_date (patch (extractMarkers text)) = None \<and>
   repeat_after (patch (extractMarkers text)) = None \<and>
   repeat_mode (patch (extractMarkers text)) = None"
  by (simp add: extractMarkers_def extractTimeMarker_patch extractExplicitTime_patch
        extractLabels_patch extractProject_patch extractPriority_patch initial_def emptyPatch_def)

lemma recurrenceKeywords_due: "due_date (patch (recurrenceKeywords st)) = due_date (patch st)"
  by (simp add: recurrenceKeywords_def split: option.splits)

lemma extractAll_due: "due_date (patch (extractAll text)) = None"
  by (simp add: extractAll_def recurrenceKeywords_due extractMarkers_patch)

text \<open>What a stage after the recurrence keywords may change in the patch: it sets the due
  date only where it is unset, and a recurrence only where neither field is set.\<close>

lemma secondDayOfWeek_frame:
  assumes "secondDayOfWeek now st = Inr st'"
  shows "(due_date (patch st') = due_date (patch st) \<or>
          (falsy (due_date (patch st)) \<and> (\<exists>t. due_date (patch st') = Some (isoString t)))) \<and>
         ((repeat_after (patch st') = repeat_after (patch st) \<and>
           repeat_mode (patch st') = repeat_mode (patch st)) \<or>
          (repeat_after (patch st) = None \<and> repeat_mode (patch st) = None \<and>
           ((repeat_after (patch st') = Some (Num 604800) \<and> repeat_mode (patch st') = Some 0) \<or>
            (repeat_after (patch st') = None \<and> repeat_mode (patch st') = Some 1))))"
  using assms
  by (auto simp: secondDayOfWeek_def falsy_def weeklyIfUnset_def erase_def Let_def
      dest!: setDue_Inr split: if_splits sum.splits option.splits)

lemma everyWeekday_frame:
  assumes "everyWeekday now st = Inr st'"
  shows "(due_date (patch st') = due_date (patch st) \<or>
          (falsy (due_date (patch st)) \<and> (\<exists>t. due_date (patch st') = Some (isoString t)))) \<and>
         ((repeat_after (patch st') = repeat_after (patch st) \<and>
           repeat_mode (patch st') = repeat_mode (patch st)) \<or>
          (repeat_after (patch st) = None \<and> repeat_mode (patch st) = None \<and>
           ((repeat_after (patch st') = Some (Num 604800) \<and> repeat_mode (patch st') = Some 0) \<or>
            (repeat_after (patch st') = None \<and> repeat_mode (patch st') = Some 1))))"
  using assms
  by (auto simp: everyWeekday_def falsy_def weeklyIfUnset_def erase_def Let_def
      dest!: setDue_Inr split: if_splits sum.splits option.splits)

lemma everyDayOfMonth_frame:
  assumes "everyDayOfMonth now st = Inr st'"
  shows "(due_date (patch st') = due_date (patch st) \<or>
          (falsy (due_date (patch st)) \<and> (\<exists>t. due_date (patch st') = Some (isoString t)))) \<and>
         ((repeat_after (patch st') = repeat_after (patch st) \<and>
           repeat_mode (patch st') = repeat_mode (patch st)) \<or>
          (repeat_after (patch st) = None \<and> repeat_mode (patch st) = None \<and>
           ((repeat_after (patch st') = Some (Num 604800) \<and> repeat_mode (patch st') = Some 0) \<or>
            (repeat_after (patch st') = None \<and> repeat_mode (patch st') = Some 1))))"
  using assms
  by (auto simp: everyDayOfMonth_def falsy_def weeklyIfUnset_def erase_def Let_def
      dest!: setDue_Inr split: if_splits sum.splits option.splits)

lemma dateExpressions_frame:
  assumes "dateExpressions now st = Inr st'"
  shows "(due_date (patch st') = due_date (patch st) \<or>
          (falsy (due_date (patch st)) \<and> (\<exists>t. due_date (patch st') = Some (isoString t)))) \<and>
         ((repeat_after (patch st') = repeat_after (patch st) \<and>
           repeat_mode (patch st') = repeat_mode (patch st)) \<or>
          (repeat_after (patch st) = None \<and> repeat_mode (patch st) = None \<and>
           ((repeat_after (patch st') = Some (Num 604800) \<and> repeat_mode (patch st') = Some 0) \<or>
            (repeat_after (patch st') = None \<and> repeat_mode (patch st') = Some 1))))"
  using assms
  by (auto simp: dateExpressions_def falsy_def weeklyIfUnset_def erase_def Let_def
      dest!: setDue_Inr split: if_splits sum.splits option.splits)

lemma timeOnly_frame:
  assumes "timeOnly now st = Inr st'"
  shows "(due_date (patch st') = due_date (patch st) \<or>
          (falsy (due_date (patch st)) \<and> (\<exists>t. due_date (patch st') = Some (isoString t)))) \<and>
         ((repeat_after (patch st') = repeat_after (patch st) \<and>
           repeat_mode (patch st') = repeat_mode (patch st)) \<or>
          (repeat_after (patch st) = None \<and> repeat_mode (patch st) = None \<and>
           ((repeat_after (patch st') = Some (Num 604800) \<and> repeat_mode (patch st') = Some 0) \<or>
            (repeat_after (patch st') = None \<and> repeat_mode (patch st') = Some 1))))"
  using assms
  by (auto simp: timeOnly_def falsy_def weeklyIfUnset_def erase_def Let_def
      dest!: setDue_Inr split: if_splits sum.splits option.splits)

lemma hourlyRepeat_frame:
  assumes "hourlyRepeat now st = Inr st'"
  shows "(due_date (patch st') = due_date (patch st) \<or>
          (falsy (due_date (patch st)) \<and> (\<exists>t. due_date (patch st') = Some (isoString t)))) \<and>
         ((repeat_after (patch st') = repeat_after (patch st) \<and>
           repeat_mode (patch st') = repeat_mode (patch st)) \<or>
          (repeat_after (patch st) = None \<and> repeat_mode (patch st) = None \<and>
           ((repeat_after (patch st') = Some (Num 604800) \<and> repeat_mode (patch st') = Some 0) \<or>
            (repeat_after (patch st') = None \<and> repeat_mode (patch st') = Some 1))))"
  using assms
  by (auto simp: hourlyRepeat_def falsy_def weeklyIfUnset_def erase_def Let_def
      dest!: setDue_Inr split: if_splits sum.splits option.splits)

lemma monthlyFallback_frame:
  assumes "monthlyFallback now st = Inr st'"
  shows "(due_date (patch st') = due_date (patch st) \<or>
          (falsy (due_date (patch st)) \<and> (\<exists>t. due_date (patch st') = Some (isoString t)))) \<and>
         ((repeat_after (patch st') = repeat_after (patch st) \<and>
           repeat_mode (patch st') = repeat_mode (patch st)) \<or>
          (repeat_after (patch st) = None \<and> repeat_mode (patch st) = None \<and>
           ((repeat_after (patch st') = Some (Num 604800) \<and> repeat_mode (patch st') = Some 0) \<or>
            (repeat_after (patch st') = None \<and> repeat_mode (patch st') = Some 1))))"
  using assms
  by (auto simp: monthlyFallback_def falsy_def weeklyIfUnset_def erase_def Let_def
      dest!: setDue_Inr split: if_splits sum.splits option.splits)

lemma dueStages_frame:
  assumes "f \<in> set (dueStages now)" and "f st = Inr st'"
  shows "(due_date (patch st') = due_date (patch st) \<or>
          (falsy (due_date (patch st)) \<and> (\<exists>t. due_date (patch st') = Some (isoString t)))) \<and>
         ((repeat_after (patch st') = repeat_after (patch st) \<and>
           repeat_mode (patch st') = repeat_mode (patch st)) \<or>
          (repeat_after (patch st) = None \<and> repeat_mode (patch st) = None \<and>
           ((repeat_after (patch st') = Some (Num 604800) \<and> repeat_mode (patch st') = Some 0) \<or>
            (repeat_after (patch st') = None \<and> repeat_mode (patch st') = Some 1))))"
proof -
  from assms(1) consider "f = secondDayOfWeek now" | "f = everyWeekday now"
    | "f = everyDayOfMonth now" | "f = dateExpressions now" | "f = timeOnly now"
    | "f = hourlyRepeat now" | "f = monthlyFallback now"
    by (auto simp: dueStages_def)
  then show ?thesis
  proof cases
    case 1 then show ?thesis using assms(2) secondDayOfWeek_frame by blast
  next
    case 2 then show ?thesis using assms(2) everyWeekday_frame by blast
  next
    case 3 then show ?thesis using assms(2) everyDayOfMonth_frame by blast
  next
    case 4 then show ?thesis using assms(2) dateExpressions_frame by blast
  next
    case 5 then show ?thesis using assms(2) timeOnly_frame by blast
  next
    case 6 then show ?thesis using assms(2) hourlyRepeat_frame by blast
  next
    case 7 then show ?thesis using assms(2) monthlyFallback_frame by blast
  qed
qed

lemma dueStages_keep_due:
  assumes "f \<in> set (dueStages now)" and "f st = Inr st'"
    and "due_date (patch st) = Some d \<and> d \<noteq> []"
  shows "due_date (patch st') = Some d \<and> d \<noteq> []"
  using dueStages_frame[OF assms(1,2)] assms(3) by (auto simp: falsy_def)

lemma dueStages_due_nonempty:
  assumes "f \<in> set (dueStages now)" and "f st = Inr st'"
    and "due_date (patch st) \<noteq> Some []"
  shows "due_date (patch st') \<noteq> Some []"
  using dueStages_frame[OF assms(1,2)] assms(3) by (auto simp: isoString_nonempty)

lemma dueStages_keep_recurrence:
  assumes "f \<in> set (dueStages now)" and "f st = Inr st'"
    and "repeat_after (patch st) = a \<and> repeat_mode (patch st) = b \<and> (a \<noteq> None \<or> b \<noteq> None)"
  shows "repeat_after (patch st') = a \<and> repeat_mode (patch st') = b \<and> (a \<noteq> None \<or> b \<noteq> None)"
  using dueStages_frame[OF assms(1,2)] assms(3) by auto

lemma dueStages_recurrence_shape:
  assumes "f \<in> set (dueStages now)" and "f st = Inr st'"
    and "(repeat_after (patch st) = None \<and> repeat_mode (patch st) = None) \<or>
         repeat_mode (patch st) = Some 0 \<or>
         (repeat_after (patch st) = None \<and> repeat_mode (patch st) = Some 1)"
  shows "(repeat_after (patch st') = None \<and> repeat_mode (patch st') = None) \<or>
         repeat_mode (patch st') = Some 0 \<or>
         (repeat_after (patch st') = None \<and> repeat_mode (patch st') = Some 1)"
  using dueStages_frame[OF assms(1,2)] assms(3) by auto

lemma recurrenceKeywords_shape:
  assumes "repeat_after (patch st) = None" and "repeat_mode (patch st) = None"
  shows "(repeat_after (patch (recurrenceKeywords st)) = None \<and>
          repeat_mode (patch (recurrenceKeywords st)) = None) \<or>
         repeat_mode (patch (recurrenceKeywords st)) = Some 0 \<or>
         (repeat_after (patch (recurrenceKeywords st)) = None \<and>
          repeat_mode (patch (recurrenceKeywords st)) = Some 1)"
  using assms by (simp add: recurrenceKeywords_def split: option.splits)

text \<open>The parts of a run of \<open>parseQuickAddRu\<close> that returns a patch.\<close>

lemma parse_Some:
  assumes "parseQuickAddRu text now = Inr (Some p)"
  obtains st where "run (dueStages now) (extractAll text) = Inr st"
    and "p = withTitle text st"
  using assms
  by (auto simp: parseQuickAddRu_def result_def split: if_splits sum.splits)

lemma withTitle_fields:
  "due_date (withTitle text st) = due_date (patch st) \<and>
   repeat_after (withTitle text st) = repeat_after (patch st) \<and>
   repeat_mode (withTitle text st) = repeat_mode (patch st)"
  by (simp add: withTitle_def Let_def)

lemma parse_recurrence_shape:
  assumes "parseQuickAddRu text now = Inr (Some p)"
  shows "(repeat_after p = None \<and> repeat_mode p = None) \<or> repeat_mode p = Some 0 \<or>
         (repeat_after p = None \<and> repeat_mode p = Some 1)"
proof -
  from assms obtain st where r: "run (dueStages now) (extractAll text) = Inr st"
    and p: "p = withTitle text st" by (rule parse_Some)
  have "(repeat_after (patch (extractAll text)) = None \<and>
          repeat_mode (patch (extractAll text)) = None) \<or>
        repeat_mode (patch (extractAll text)) = Some 0 \<or>
        (repeat_after (patch (extractAll text)) = None \<and>
          repeat_mode (patch (extractAll text)) = Some 1)"
    unfolding extractAll_def using extractMarkers_patch recurrenceKeywords_shape by blast
  from run_invariant[where P = "\<lambda>s. (repeat_after (patch s) = None \<and> repeat_mode (patch s) = None) \<or>
         repeat_mode (patch s) = Some 0 \<or>
         (repeat_after (patch s) = None \<and> repeat_mode (patch s) = Some 1)",
       OF dueStages_recurrence_shape this r]
  show ?thesis by (simp add: p withTitle_fields)
qed

section \<open>Runs on concrete inputs\<close>

text \<open>A text in which both the daily and the hourly keyword match: each stands between
  ASCII letters, where \<open>\b\<close> holds.\<close>

lemma parse_daily_and_hourly:
  "parseQuickAddRu (js ''a'' @ ru_kazhdyj @ js '' '' @ ru_den @ js ''b a'' @ ru_kazhdyj @ js '' ''
      @ ru_chas @ js ''b'') NOW =
   Inr (Some \<lparr>due_date = None, priority = None, project_name = None, labels = None,
     repeat_after = Some (Num 86400), repeat_mode = Some 0,
     cleaned_title = Some (js ''A b a'' @ ru_kazhdyj @ js '' '' @ ru_chas @ js ''b'')\<rparr>)"
  by (simp add: eval_defs)

lemma parse_monthly:
  "parseQuickAddRu (js ''a'' @ ru_kazhdyj @ js '' '' @ ru_mesyats @ js ''b'') NOW =
   Inr (Some \<lparr>due_date = Some (js ''2024-01-10T23:59:00.000Z''), priority = None,
     project_name = None, labels = None, repeat_after = None, repeat_mode = Some 1,
     cleaned_title = Some (js ''A b'')\<rparr>)"
  by (simp add: eval_defs)

section \<open>The recurrence fields of a returned patch\<close>

text \<open>
  Claim C7.  For every text and every instant, a patch that \<open>parseQuickAddRu\<close> returns
  never has the repeat mode 3: where \<open>repeat_mode\<close> is set, it is 0 (Interval) or 1
  (MonthlyByDay).
\<close>

theorem repeat_mode_is_0_or_1:
  assumes "parseQuickAddRu text now = Inr (Some p)" and "repeat_mode p = Some n"
  shows "(n = 0 \<or> n = 1) \<and> n \<noteq> 3"
  using parse_recurrence_shape[OF assms(1)] assms(2) by auto

theorem repeat_mode_is_0_or_1_witness:
  "parseQuickAddRu (js ''a'' @ ru_kazhdyj @ js '' '' @ ru_mesyats @ js ''b'') NOW =
     Inr (Some \<lparr>due_date = Some (js ''2024-01-10T23:59:00.000Z''), priority = None,
       project_name = None, labels = None, repeat_after = None, repeat_mode = Some 1,
       cleaned_title = Some (js ''A b'')\<rparr>) \<and>
   ((1::int) = 0 \<or> (1::int) = 1) \<and> (1::int) \<noteq> 3"
  using repeat_mode_is_0_or_1[OF parse_monthly, of 1] parse_monthly by simp

text \<open>
  Claim C9.  For every text and every instant, a returned patch with \<open>repeat_after\<close> set
  has \<open>repeat_mode\<close> set to 0 (Interval); a returned patch with the repeat mode 1
  (MonthlyByDay) has no \<open>repeat_after\<close>.
\<close>

theorem repeat_after_only_with_interval:
  assumes "parseQuickAddRu text now = Inr (Some p)"
  shows "(repeat_after p \<noteq> None \<longrightarrow> repeat_mode p = Some 0) \<and>
         (repeat_mode p = Some 1 \<longrightarrow> repeat_after p = None)"
  using parse_recurrence_shape[OF assms] by auto

theorem repeat_after_only_with_interval_witness:
  "parseQuickAddRu (js ''a'' @ ru_kazhdyj @ js '' '' @ ru_den @ js ''b a'' @ ru_kazhdyj @ js '' ''
      @ ru_chas @ js ''b'') NOW =
     Inr (Some \<lparr>due_date = None, priority = None, project_name = None, labels = None,
       repeat_after = Some (Num 86400), repeat_mode = Some 0,
       cleaned_title = Some (js ''A b a'' @ ru_kazhdyj @ js '' '' @ ru_chas @ js ''b'')\<rparr>) \<and>
   repeat_mode \<lparr>due_date = None, priority = None, project_name = None, labels = None,
       repeat_after = Some (Num 86400), repeat_mode = Some 0,
       cleaned_title = Some (js ''A b a'' @ ru_kazhdyj @ js '' '' @ ru_chas @ js ''b'')\<rparr> = Some 0 \<and>
   parseQuickAddRu (js ''a'' @ ru_kazhdyj @ js '' '' @ ru_mesyats @ js ''b'') NOW =
     Inr (Some \<lparr>due_date = Some (js ''2024-01-10T23:59:00.000Z''), priority = None,
       project_name = None, labels = None, repeat_after = None, repeat_mode = Some 1,
       cleaned_title = Some (js ''A b'')\<rparr>) \<and>
   repeat_after \<lparr>due_date = Some (js ''2024-01-10T23:59:00.000Z''), priority = None,
       project_name = None, labels = None, repeat_after = None, repeat_mode = Some 1,
       cleaned_title = Some (js ''A b'')\<rparr> = None"
  using repeat_after_only_with_interval[OF parse_daily_and_hourly]
    repeat_after_only_with_interval[OF parse_monthly]
    parse_daily_and_hourly parse_monthly
  by simp

lemma run_today_at_1830:
  "run (take 4 (dueStages NOW)) (extractAll (js ''today 18:30 call'')) =
   Inr \<lparr>remaining = js ''    call'',
     patch = \<lparr>due_date = Some (js ''2024-01-10T18:30:00.000Z''), priority = None,
       project_name = None, labels = None, repeat_after = None, repeat_mode = None,
       cleaned_title = None\<rparr>,
     parsedHour = Some (Num 18), parsedMinute = Some (Num 30), markerHour = None, markerMinute = None\<rparr>"
  by (simp add: eval_defs)

lemma parse_today_at_1830:
  "parseQuickAddRu (js ''today 18:30 call'') NOW =
   Inr (Some \<lparr>due_date = Some (js ''2024-01-10T18:30:00.000Z''), priority = None,
     project_name = None, labels = None, repeat_after = None, repeat_mode = None,
     cleaned_title = Some (js ''Call'')\<rparr>)"
  by (simp add: eval_defs)

section \<open>The due date is written once\<close>

text \<open>
  Claim C4.  For every text and every instant, the due date is assigned at most once in
  a parse.  The stages that can write it (the second-day-of-week idiom, the
  every-weekday and every-day-of-month recurrences, the one-shot date expressions, the
  time-only fallback, the hourly-repeat fallback and the monthly-repeat fallback) run in
  this order, and each writes only where the due date is unset: a due date that is set
  after any number \<open>k\<close> of these stages is the due date of the returned patch.
\<close>

theorem due_date_assigned_at_most_once:
  assumes "run (take k (dueStages now)) (extractAll text) = Inr st"
    and "due_date (patch st) = Some d"
    and "parseQuickAddRu text now = Inr (Some p)"
  shows "due_date p = Some d"
proof -
  from assms(3) obtain st' where r: "run (dueStages now) (extractAll text) = Inr st'"
    and p: "p = withTitle text st'" by (rule parse_Some)
  have "run (dueStages now) (extractAll text) =
      (case run (take k (dueStages now)) (extractAll text) of
         Inl e \<Rightarrow> Inl e | Inr s \<Rightarrow> run (drop k (dueStages now)) s)"
    using run_append[of "take k (dueStages now)" "drop k (dueStages now)"] by simp
  then have rest: "run (drop k (dueStages now)) st = Inr st'"
    using assms(1) r by simp
  have "due_date (patch (extractAll text)) \<noteq> Some []"
    by (simp add: extractAll_due)
  then have "due_date (patch st) \<noteq> Some []"
    using run_invariant[where P = "\<lambda>s. due_date (patch s) \<noteq> Some []" and fs = "take k (dueStages now)",
        OF _ _ assms(1)]
      dueStages_due_nonempty in_set_takeD by metis
  then have d: "due_date (patch st) = Some d \<and> d \<noteq> []"
    using assms(2) by auto
  have "due_date (patch st') = Some d \<and> d \<noteq> []"
    using run_invariant[where P = "\<lambda>s. due_date (patch s) = Some d \<and> d \<noteq> []"
        and fs = "drop k (dueStages now)", OF _ d rest]
      dueStages_keep_due in_set_dropD by metis
  then show ?thesis by (simp add: p withTitle_fields)
qed

theorem due_date_assigned_at_most_once_witness:
  "run (take 4 (dueStages NOW)) (extractAll (js ''today 18:30 call'')) =
     Inr \<lparr>remaining = js ''    call'',
       patch = \<lparr>due_date = Some (js ''2024-01-10T18:30:00.000Z''), priority = None,
         project_name = None, labels = None, repeat_after = None, repeat_mode = None,
         cleaned_title = None\<rparr>,
       parsedHour = Some (Num 18), parsedMinute = Some (Num 30), markerHour = None, markerMinute = None\<rparr> \<and>
   parseQuickAddRu (js ''today 18:30 call'') NOW =
     Inr (Some \<lparr>due_date = Some (js ''2024-01-10T18:30:00.000Z''), priority = None,
       project_name = None, labels = None, repeat_after = None, repeat_mode = None,
       cleaned_title = Some (js ''Call'')\<rparr>) \<and>
   due_date \<lparr>due_date = Some (js ''2024-01-10T18:30:00.000Z''), priority = None,
       project_name = None, labels = None, repeat_after = None, repeat_mode = None,
       cleaned_title = Some (js ''Call'')\<rparr> = Some (js ''2024-01-10T18:30:00.000Z'')"
  using due_date_assigned_at_most_once[OF run_today_at_1830 _ parse_today_at_1830,
      of "js ''2024-01-10T18:30:00.000Z''"]
    run_today_at_1830 parse_today_at_1830
  by simp

section \<open>The recurrence keywords\<close>

lemma run_keeps_recurrence:
  assumes "run (dueStages now) st = Inr st'"
    and "repeat_after (patch st) \<noteq> None \<or> repeat_mode (patch st) \<noteq> None"
  shows "repeat_after (patch st') = repeat_after (patch st) \<and>
         repeat_mode (patch st') = repeat_mode (patch st)"
proof -
  have "repeat_after (patch st) = repeat_after (patch st) \<and>
        repeat_mode (patch st) = repeat_mode (patch st) \<and>
        (repeat_after (patch st) \<noteq> None \<or> repeat_mode (patch st) \<noteq> None)"
    using assms(2) by simp
  from run_invariant[where P = "\<lambda>s. repeat_after (patch s) = repeat_after (patch st) \<and>
        repeat_mode (patch s) = repeat_mode (patch st) \<and>
        (repeat_after (patch st) \<noteq> None \<or> repeat_mode (patch st) \<noteq> None)",
      OF dueStages_keep_recurrence this assms(1)]
  show ?thesis by simp
qed

lemma recurrenceKeywords_daily:
  assumes "test everyDayRe (remaining st)"
  shows "recurrenceKeywords st =
         st\<lparr>patch := (patch st)\<lparr>repeat_after := Some (Num 86400), repeat_mode := Some 0\<rparr>,
            remaining := replace (remaining st) everyDayRe\<rparr>"
  using assms by (simp add: recurrenceKeywords_def)

lemma recurrenceKeywords_weekly:
  assumes "\<not> test everyDayRe (remaining st)" and "test everyWeekRe (remaining st)"
  shows "recurrenceKeywords st =
         st\<lparr>patch := (patch st)\<lparr>repeat_after := Some (Num 604800), repeat_mode := Some 0\<rparr>,
            remaining := replace (remaining st) everyWeekRe\<rparr>"
  using assms by (simp add: recurrenceKeywords_def)

lemma recurrenceKeywords_monthly:
  assumes "\<not> test everyDayRe (remaining st)" and "\<not> test everyWeekRe (remaining st)"
    and "test everyMonthRe (remaining st)"
  shows "recurrenceKeywords st =
         st\<lparr>patch := (patch st)\<lparr>repeat_mode := Some 1\<rparr>,
            remaining := replace (remaining st) everyMonthRe\<rparr>"
  using assms by (simp add: recurrenceKeywords_def)

lemma recurrenceKeywords_hourly:
  assumes "\<not> test everyDayRe (remaining st)" and "\<not> test everyWeekRe (remaining st)"
    and "\<not> test everyMonthRe (remaining st)" and "test everyHourRe (remaining st)"
  shows "recurrenceKeywords st =
         st\<lparr>patch := (patch st)\<lparr>repeat_after := Some (Num 3600), repeat_mode := Some 0\<rparr>,
            remaining := replace (remaining st) everyHourRe\<rparr>"
  using assms by (simp add: recurrenceKeywords_def)

lemma recurrenceKeywords_n_hours:
  assumes "\<not> test everyDayRe (remaining st)" and "\<not> test everyWeekRe (remaining st)"
    and "\<not> test everyMonthRe (remaining st)" and "\<not> test everyHourRe (remaining st)"
    and "match (remaining st) everyNHoursRe = Some cs"
  shows "recurrenceKeywords st =
         st\<lparr>patch := (patch st)\<lparr>repeat_after := Some (times3600 (parseInt (capture cs 1))),
                                 repeat_mode := Some 0\<rparr>,
            remaining := replace (remaining st) everyNHoursRe\<rparr>"
  using assms by (simp add: recurrenceKeywords_def)

lemma parse_keeps_keyword_recurrence:
  assumes "parseQuickAddRu text now = Inr (Some p)"
    and "repeat_after (patch (extractAll text)) \<noteq> None \<or>
         repeat_mode (patch (extractAll text)) \<noteq> None"
  shows "repeat_after p = repeat_after (patch (extractAll text)) \<and>
         repeat_mode p = repeat_mode (patch (extractAll text))"
proof -
  from assms(1) obtain st where r: "run (dueStages now) (extractAll text) = Inr st"
    and p: "p = withTitle text st" by (rule parse_Some)
  from run_keeps_recurrence[OF r assms(2)] show ?thesis
    by (simp add: p withTitle_fields)
qed

text \<open>
  Claim C5.  The five recurrence-keyword checks (daily, weekly, monthly, hourly, every N
  hours) are tried in this order on the buffer that the marker stages leave, and the
  first one that matches is the only one that acts: whatever else the buffer matches,
  the returned patch carries the recurrence of that keyword (a text with the daily and
  the hourly keyword gets \<open>repeat_after = 86400\<close>, not 3600), and the step erases the
  match of that keyword only.  For the every-N-hours keyword \<open>repeat_after\<close> is the
  product \<open>3600 * n\<close> of doubles, \<open>n\<close> the double that \<open>parseInt\<close> reads.
\<close>

theorem recurrence_keywords_first_match_wins:
  assumes "parseQuickAddRu text now = Inr (Some p)"
  shows
    "(test everyDayRe (remaining (extractMarkers text)) \<longrightarrow>
        repeat_after p = Some (Num 86400) \<and> repeat_mode p = Some 0 \<and>
        remaining (extractAll text) = replace (remaining (extractMarkers text)) everyDayRe) \<and>
     (\<not> test everyDayRe (remaining (extractMarkers text)) \<and>
      test everyWeekRe (remaining (extractMarkers text)) \<longrightarrow>
        repeat_after p = Some (Num 604800) \<and> repeat_mode p = Some 0 \<and>
        remaining (extractAll text) = replace (remaining (extractMarkers text)) everyWeekRe) \<and>
     (\<not> test everyDayRe (remaining (extractMarkers text)) \<and>
      \<not> test everyWeekRe (remaining (extractMarkers text)) \<and>
      test everyMonthRe (remaining (extractMarkers text)) \<longrightarrow>
        repeat_after p = None \<and> repeat_mode p = Some 1 \<and>
        remaining (extractAll text) = replace (remaining (extractMarkers text)) everyMonthRe) \<and>
     (\<not> test everyDayRe (remaining (extractMarkers text)) \<and>
      \<not> test everyWeekRe (remaining (extractMarkers text)) \<and>
      \<not> test everyMonthRe (remaining (extractMarkers text)) \<and>
      test everyHourRe (remaining (extractMarkers text)) \<longrightarrow>
        repeat_after p = Some (Num 3600) \<and> repeat_mode p = Some 0 \<and>
        remaining (extractAll text) = replace (remaining (extractMarkers text)) everyHourRe) \<and>
     (\<forall>cs. \<not> test everyDayRe (remaining (extractMarkers text)) \<and>
      \<not> test everyWeekRe (remaining (extractMarkers text)) \<and>
      \<not> test everyMonthRe (remaining (extractMarkers text)) \<and>
      \<not> test everyHourRe (remaining (extractMarkers text)) \<and>
      match (remaining (extractMarkers text)) everyNHoursRe = Some cs \<longrightarrow>
        repeat_after p = Some (times3600 (parseInt (capture cs 1))) \<and> repeat_mode p = Some 0 \<and>
        remaining (extractAll text) = replace (remaining (extractMarkers text)) everyNHoursRe)"
proof (intro conjI impI allI)
  assume a: "test everyDayRe (remaining (extractMarkers text))"
  have e: "extractAll text = (extractMarkers text)
      \<lparr>patch := (patch (extractMarkers text))\<lparr>repeat_after := Some (Num 86400), repeat_mode := Some 0\<rparr>,
       remaining := replace (remaining (extractMarkers text)) everyDayRe\<rparr>"
    unfolding extractAll_def using a by (rule recurrenceKeywords_daily)
  show "repeat_after p = Some (Num 86400)" "repeat_mode p = Some 0"
    using parse_keeps_keyword_recurrence[OF assms] by (simp_all add: e)
  show "remaining (extractAll text) = replace (remaining (extractMarkers text)) everyDayRe"
    by (simp add: e)
next
  assume a: "\<not> test everyDayRe (remaining (extractMarkers text)) \<and>
      test everyWeekRe (remaining (extractMarkers text))"
  have e: "extractAll text = (extractMarkers text)
      \<lparr>patch := (patch (extractMarkers text))\<lparr>repeat_after := Some (Num 604800), repeat_mode := Some 0\<rparr>,
       remaining := replace (remaining (extractMarkers text)) everyWeekRe\<rparr>"
    unfolding extractAll_def using a by (intro recurrenceKeywords_weekly) simp_all
  show "repeat_after p = Some (Num 604800)" "repeat_mode p = Some 0"
    using parse_keeps_keyword_recurrence[OF assms] by (simp_all add: e)
  show "remaining (extractAll text) = replace (remaining (extractMarkers text)) everyWeekRe"
    by (simp add: e)
next
  assume a: "\<not> test everyDayRe (remaining (extractMarkers text)) \<and>
      \<not> test everyWeekRe (remaining (extractMarkers text)) \<and>
      test everyMonthRe (remaining (extractMarkers text))"
  have e: "extractAll text = (extractMarkers text)
      \<lparr>patch := (patch (extractMarkers text))\<lparr>repeat_mode := Some 1\<rparr>,
       remaining := replace (remaining (extractMarkers text)) everyMonthRe\<rparr>"
    unfolding extractAll_def using a by (intro recurrenceKeywords_monthly) simp_all
  show "repeat_after p = None" "repeat_mode p = Some 1"
    using parse_keeps_keyword_recurrence[OF assms] extractMarkers_patch[of "text"]
    by (simp_all add: e)
  show "remaining (extractAll text) = replace (remaining (extractMarkers text)) everyMonthRe"
    by (simp add: e)
next
  assume a: "\<not> test everyDayRe (remaining (extractMarkers text)) \<and>
      \<not> test everyWeekRe (remaining (extractMarkers text)) \<and>
      \<not> test everyMonthRe (remaining (extractMarkers text)) \<and>
      test everyHourRe (remaining (extractMarkers text))"
  have e: "extractAll text = (extractMarkers text)
      \<lparr>patch := (patch (extractMarkers text))\<lparr>repeat_after := Some (Num 3600), repeat_mode := Some 0\<rparr>,
       remaining := replace (remaining (extractMarkers text)) everyHourRe\<rparr>"
    unfolding extractAll_def using a by (intro recurrenceKeywords_hourly) simp_all
  show "repeat_after p = Some (Num 3600)" "repeat_mode p = Some 0"
    using parse_keeps_keyword_recurrence[OF assms] by (simp_all add: e)
  show "remaining (extractAll text) = replace (remaining (extractMarkers text)) everyHourRe"
    by (simp add: e)
next
  fix cs
  assume a: "\<not> test everyDayRe (remaining (extractMarkers text)) \<and>
      \<not> test everyWeekRe (remaining (extractMarkers text)) \<and>
      \<not> test everyMonthRe (remaining (extractMarkers text)) \<and>
      \<not> test everyHourRe (remaining (extractMarkers text)) \<and>
      match (remaining (extractMarkers text)) everyNHoursRe = Some cs"
  have e: "extractAll text = (extractMarkers text)
      \<lparr>patch := (patch (extractMarkers text))
         \<lparr>repeat_after := Some (times3600 (parseInt (capture cs 1))), repeat_mode := Some 0\<rparr>,
       remaining := replace (remaining (extractMarkers text)) everyNHoursRe\<rparr>"
    unfolding extractAll_def using a by (intro recurrenceKeywords_n_hours) simp_all
  show "repeat_after p = Some (times3600 (parseInt (capture cs 1)))" "repeat_mode p = Some 0"
    using parse_keeps_keyword_recurrence[OF assms] by (simp_all add: e)
  show "remaining (extractAll text) = replace (remaining (extractMarkers text)) everyNHoursRe"
    by (simp add: e)
qed

lemma markers_daily_and_hourly:
  "remaining (extractMarkers (js ''a'' @ ru_kazhdyj @ js '' '' @ ru_den @ js ''b a'' @ ru_kazhdyj
      @ js '' '' @ ru_chas @ js ''b'')) =
   js ''a'' @ ru_kazhdyj @ js '' '' @ ru_den @ js ''b a'' @ ru_kazhdyj @ js '' '' @ ru_chas @ js ''b''"
  by (simp add: eval_defs)

lemma tests_daily_and_hourly:
  "test everyDayRe (js ''a'' @ ru_kazhdyj @ js '' '' @ ru_den @ js ''b a'' @ ru_kazhdyj @ js '' ''
      @ ru_chas @ js ''b'') \<and>
   test everyHourRe (js ''a'' @ ru_kazhdyj @ js '' '' @ ru_den @ js ''b a'' @ ru_kazhdyj @ js '' ''
      @ ru_chas @ js ''b'') \<and>
   replace (js ''a'' @ ru_kazhdyj @ js '' '' @ ru_den @ js ''b a'' @ ru_kazhdyj @ js '' ''
      @ ru_chas @ js ''b'') everyDayRe =
     js ''a b a'' @ ru_kazhdyj @ js '' '' @ ru_chas @ js ''b''"
  by (simp add: eval_defs)

text \<open>A text in which only the every-N-hours keyword matches, with a number of hours
  that no double holds: \<open>parseInt\<close> gives \<open>2^53\<close> for \<open>2^53 + 1\<close>.\<close>

lemma parse_every_n_hours:
  "parseQuickAddRu (js ''a'' @ ru_kazhdye @ js '' 9007199254740993 '' @ ru_chaso @ ru_v @ js ''b'') NOW =
   Inr (Some \<lparr>due_date = None, priority = None, project_name = None, labels = None,
     repeat_after = Some (Num 32425917317067571200), repeat_mode = Some 0,
     cleaned_title = Some (js ''A b'')\<rparr>)"
  by (simp add: eval_defs)

lemma markers_every_n_hours:
  "remaining (extractMarkers (js ''a'' @ ru_kazhdye @ js '' 9007199254740993 '' @ ru_chaso @ ru_v
      @ js ''b'')) =
   js ''a'' @ ru_kazhdye @ js '' 9007199254740993 '' @ ru_chaso @ ru_v @ js ''b''"
  by (simp add: eval_defs)

lemma tests_every_n_hours:
  "\<not> test everyDayRe (js ''a'' @ ru_kazhdye @ js '' 9007199254740993 '' @ ru_chaso @ ru_v @ js ''b'') \<and>
   \<not> test everyWeekRe (js ''a'' @ ru_kazhdye @ js '' 9007199254740993 '' @ ru_chaso @ ru_v @ js ''b'') \<and>
   \<not> test everyMonthRe (js ''a'' @ ru_kazhdye @ js '' 9007199254740993 '' @ ru_chaso @ ru_v @ js ''b'') \<and>
   \<not> test everyHourRe (js ''a'' @ ru_kazhdye @ js '' 9007199254740993 '' @ ru_chaso @ ru_v @ js ''b'') \<and>
   match (js ''a'' @ ru_kazhdye @ js '' 9007199254740993 '' @ ru_chaso @ ru_v @ js ''b'') everyNHoursRe =
     Some [js ''9007199254740993''] \<and>
   replace (js ''a'' @ ru_kazhdye @ js '' 9007199254740993 '' @ ru_chaso @ ru_v @ js ''b'') everyNHoursRe =
     js ''a b''"
  by (simp add: eval_defs)

lemma large_number_of_hours:
  "parseInt (capture [js ''9007199254740993''] 1) = Num 9007199254740992 \<and>
   times3600 (Num 9007199254740992) = Num 32425917317067571200"
  by (simp add: eval_defs)

theorem recurrence_keywords_first_match_wins_witness:
  "parseQuickAddRu (js ''a'' @ ru_kazhdyj @ js '' '' @ ru_den @ js ''b a'' @ ru_kazhdyj @ js '' ''
      @ ru_chas @ js ''b'') NOW =
     Inr (Some \<lparr>due_date = None, priority = None, project_name = None, labels = None,
       repeat_after = Some (Num 86400), repeat_mode = Some 0,
       cleaned_title = Some (js ''A b a'' @ ru_kazhdyj @ js '' '' @ ru_chas @ js ''b'')\<rparr>) \<and>
   test everyDayRe (remaining (extractMarkers (js ''a'' @ ru_kazhdyj @ js '' '' @ ru_den @ js ''b a''
      @ ru_kazhdyj @ js '' '' @ ru_chas @ js ''b''))) \<and>
   test everyHourRe (remaining (extractMarkers (js ''a'' @ ru_kazhdyj @ js '' '' @ ru_den @ js ''b a''
      @ ru_kazhdyj @ js '' '' @ ru_chas @ js ''b''))) \<and>
   remaining (extractAll (js ''a'' @ ru_kazhdyj @ js '' '' @ ru_den @ js ''b a'' @ ru_kazhdyj
      @ js '' '' @ ru_chas @ js ''b'')) =
     js ''a b a'' @ ru_kazhdyj @ js '' '' @ ru_chas @ js ''b'' \<and>
   parseQuickAddRu (js ''a'' @ ru_kazhdye @ js '' 9007199254740993 '' @ ru_chaso @ ru_v @ js ''b'') NOW =
     Inr (Some \<lparr>due_date = None, priority = None, project_name = None, labels = None,
       repeat_after = Some (Num 32425917317067571200), repeat_mode = Some 0,
       cleaned_title = Some (js ''A b'')\<rparr>) \<and>
   match (remaining (extractMarkers (js ''a'' @ ru_kazhdye @ js '' 9007199254740993 '' @ ru_chaso
      @ ru_v @ js ''b''))) everyNHoursRe = Some [js ''9007199254740993''] \<and>
   times3600 (parseInt (capture [js ''9007199254740993''] 1)) = Num 32425917317067571200 \<and>
   remaining (extractAll (js ''a'' @ ru_kazhdye @ js '' 9007199254740993 '' @ ru_chaso @ ru_v
      @ js ''b'')) = js ''a b''"
proof -
  have a: "parseQuickAddRu (js ''a'' @ ru_kazhdyj @ js '' '' @ ru_den @ js ''b a'' @ ru_kazhdyj @ js '' ''
      @ ru_chas @ js ''b'') NOW =
     Inr (Some \<lparr>due_date = None, priority = None, project_name = None, labels = None,
       repeat_after = Some (Num 86400), repeat_mode = Some 0,
       cleaned_title = Some (js ''A b a'' @ ru_kazhdyj @ js '' '' @ ru_chas @ js ''b'')\<rparr>) \<and>
   test everyDayRe (remaining (extractMarkers (js ''a'' @ ru_kazhdyj @ js '' '' @ ru_den @ js ''b a''
      @ ru_kazhdyj @ js '' '' @ ru_chas @ js ''b''))) \<and>
   test everyHourRe (remaining (extractMarkers (js ''a'' @ ru_kazhdyj @ js '' '' @ ru_den @ js ''b a''
      @ ru_kazhdyj @ js '' '' @ ru_chas @ js ''b''))) \<and>
   remaining (extractAll (js ''a'' @ ru_kazhdyj @ js '' '' @ ru_den @ js ''b a'' @ ru_kazhdyj
      @ js '' '' @ ru_chas @ js ''b'')) =
     js ''a b a'' @ ru_kazhdyj @ js '' '' @ ru_chas @ js ''b''"
    using recurrence_keywords_first_match_wins[OF parse_daily_and_hourly]
      parse_daily_and_hourly tests_daily_and_hourly
    by (simp add: markers_daily_and_hourly)
  note five = recurrence_keywords_first_match_wins[OF parse_every_n_hours,
      THEN conjunct2, THEN conjunct2, THEN conjunct2, THEN conjunct2, THEN spec,
      of "[js ''9007199254740993'']"]
  have h: "\<not> test everyDayRe (remaining (extractMarkers (js ''a'' @ ru_kazhdye
        @ js '' 9007199254740993 '' @ ru_chaso @ ru_v @ js ''b''))) \<and>
      \<not> test everyWeekRe (remaining (extractMarkers (js ''a'' @ ru_kazhdye
        @ js '' 9007199254740993 '' @ ru_chaso @ ru_v @ js ''b''))) \<and>
      \<not> test everyMonthRe (remaining (extractMarkers (js ''a'' @ ru_kazhdye
        @ js '' 9007199254740993 '' @ ru_chaso @ ru_v @ js ''b''))) \<and>
      \<not> test everyHourRe (remaining (extractMarkers (js ''a'' @ ru_kazhdye
        @ js '' 9007199254740993 '' @ ru_chaso @ ru_v @ js ''b''))) \<and>
      match (remaining (extractMarkers (js ''a'' @ ru_kazhdye
        @ js '' 9007199254740993 '' @ ru_chaso @ ru_v @ js ''b''))) everyNHoursRe =
        Some [js ''9007199254740993'']"
    unfolding markers_every_n_hours using tests_every_n_hours by blast
  from five[rule_format, OF h]
  have "remaining (extractAll (js ''a'' @ ru_kazhdye @ js '' 9007199254740993 '' @ ru_chaso @ ru_v
      @ js ''b'')) =
    replace (remaining (extractMarkers (js ''a'' @ ru_kazhdye @ js '' 9007199254740993 ''
      @ ru_chaso @ ru_v @ js ''b''))) everyNHoursRe"
    and f: "repeat_after \<lparr>due_date = None, priority = None, project_name = None, labels = None,
       repeat_after = Some (Num 32425917317067571200), repeat_mode = Some 0,
       cleaned_title = Some (js ''A b'')\<rparr> =
      Some (times3600 (parseInt (capture [js ''9007199254740993''] 1)))"
    by blast+
  then have c: "remaining (extractAll (js ''a'' @ ru_kazhdye @ js '' 9007199254740993 '' @ ru_chaso
      @ ru_v @ js ''b'')) = js ''a b''"
    unfolding markers_every_n_hours using tests_every_n_hours by simp
  have d: "match (remaining (extractMarkers (js ''a'' @ ru_kazhdye @ js '' 9007199254740993 ''
      @ ru_chaso @ ru_v @ js ''b''))) everyNHoursRe = Some [js ''9007199254740993'']"
    using h by blast
  have e: "times3600 (parseInt (capture [js ''9007199254740993''] 1)) = Num 32425917317067571200"
    using f by simp
  show ?thesis
    using a parse_every_n_hours d e c by blast
qed

section \<open>Day arithmetic\<close>

lemma MonthFromDay_range: "0 \<le> MonthFromDay d \<and> MonthFromDay d \<le> 11"
  by (simp add: MonthFromDay_def Let_def)

text \<open>Reading the fields of a day and building the day back from them, moved by \<open>n\<close>
  days, is adding \<open>n\<close>.\<close>

lemma MakeDay_fields:
  "MakeDay (YearFromDay d) (MonthFromDay d) (DateFromDay d + n) = d + n"
proof -
  have "MonthFromDay d div 12 = 0" "MonthFromDay d mod 12 = MonthFromDay d"
    using MonthFromDay_range[of d] by simp_all
  then show ?thesis
    by (simp add: MakeDay_def DateFromDay_def Let_def)
qed

lemma MakeDate_split: "MakeDate (Day t + n) (TimeWithinDay t) = t + n * msPerDay"
  by (simp add: MakeDate_def Day_def TimeWithinDay_def msPerDay_def algebra_simps)

lemma addDays_Some:
  "addDays (Some t) (Num n) = (if n = 0 then Some t else TimeClip (t + n * msPerDay))"
  by (simp add: addDays_def getFullYear_def getMonth_def getDate_def MakeDay_fields MakeDate_split)

lemma startOfDay_Some: "startOfDay (Some t) = TimeClip (Day t * msPerDay)"
  by (simp add: startOfDay_def MakeDate_def)

lemma Day_of_midnight: "Day (d * msPerDay) = d" "TimeWithinDay (d * msPerDay) = 0"
  by (simp_all add: Day_def TimeWithinDay_def msPerDay_def)

lemma Day_add_days: "Day (t + n * msPerDay) = Day t + n"
  by (simp add: Day_def msPerDay_def)

text \<open>The next occurrence of a weekday, counted from the start of the day of \<open>t\<close>: the
  weekday is the target, and the day is today or one of the six days after it when
  today is allowed, one of the seven days after today when it is not.\<close>

lemma nextWeekday_day:
  assumes "nextWeekday (startOfDay (Some t)) target allowToday = Some r"
    and "0 \<le> target" and "target \<le> 6"
  shows "getDay r = target \<and> TimeWithinDay r = 0 \<and>
         (if allowToday then Day t \<le> Day r \<and> Day r \<le> Day t + 6
          else Day t < Day r \<and> Day r \<le> Day t + 7) \<and>
         (getDay t = target \<longrightarrow> Day r = (if allowToday then Day t else Day t + 7))"
proof -
  obtain s where s: "startOfDay (Some t) = Some s"
    using assms(1) by (cases "startOfDay (Some t)") (simp_all add: nextWeekday_def)
  then have sv: "s = Day t * msPerDay"
    by (simp add: startOfDay_Some TimeClip_def split: if_splits)
  have ss: "startOfDay (Some s) = Some s"
    using s by (simp add: startOfDay_Some sv Day_of_midnight)
  define delta where "delta = (if target - getDay s < 0 \<or> (target - getDay s = 0 \<and> \<not> allowToday)
      then target - getDay s + 7 else target - getDay s)"
  have r: "addDays (Some s) (Num delta) = Some r"
    using assms(1) by (simp add: s ss nextWeekday_def Let_def delta_def)
  have gs: "getDay s = getDay t"
    by (simp add: getDay_def sv Day_of_midnight)
  have g: "0 \<le> getDay t \<and> getDay t \<le> 6"
    by (simp add: getDay_def)
  have rv: "r = s + delta * msPerDay"
    using r by (auto simp: addDays_Some TimeClip_def split: if_splits)
  have dr: "Day r = Day t + delta"
    by (simp add: rv sv Day_def msPerDay_def)
  have tw: "TimeWithinDay r = 0"
    by (simp add: rv sv TimeWithinDay_def msPerDay_def)
  have rng: "if allowToday then 0 \<le> delta \<and> delta \<le> 6 else 1 \<le> delta \<and> delta \<le> 7"
    using g assms(2,3) by (auto simp: delta_def gs)
  have "delta = target - getDay t \<or> delta = target - getDay t + 7"
    by (auto simp: delta_def gs)
  moreover define q where "q = (Day t + 4) div 7"
  moreover have "Day t + 4 = 7 * q + getDay t"
    by (simp add: q_def getDay_def)
  ultimately have "Day t + delta + 4 = target + 7 * q \<or> Day t + delta + 4 = target + 7 * (q + 1)"
    by auto
  then have "(Day t + delta + 4) mod 7 = target mod 7"
    by (elim disjE) (simp_all only: mod_mult_self2)
  then have "(Day t + delta + 4) mod 7 = target"
    using assms(2,3) by simp
  then have gd: "getDay r = target"
    by (simp add: getDay_def dr)
  have same: "getDay t = target \<longrightarrow> delta = (if allowToday then 0 else 7)"
    by (auto simp: delta_def gs)
  show ?thesis
    using gd tw rng dr same by auto
qed

lemma WEEKDAY_MAP_range:
  assumes "map_of WEEKDAY_MAP k = Some v"
  shows "0 \<le> v \<and> v \<le> 6"
  using assms by (auto simp: WEEKDAY_MAP_def split: if_splits)

lemma applyTime_None: "applyTime st None = None"
  by (simp add: applyTime_def atEndOfDay_def atTime_def setHours_def setMinutes_def
      setSeconds_def setMilliseconds_def split: option.splits number.splits)

section \<open>The calendar\<close>

lemma div_step:
  assumes "0 < (k::int)"
  shows "(a + 1) div k = a div k + (if (a + 1) mod k = 0 then 1 else 0)"
proof -
  define q r where "q = a div k" and "r = a mod k"
  have a: "a = k * q + r" and r: "0 \<le> r" "r < k"
    using assms by (simp_all add: q_def r_def)
  show ?thesis
  proof (cases "r + 1 = k")
    case True
    then have e: "a + 1 = k * (q + 1)" using a by (simp add: algebra_simps)
    have "(a + 1) div k = q + 1" "(a + 1) mod k = 0"
      unfolding e using assms by simp_all
    then show ?thesis by (simp add: q_def)
  next
    case False
    then have lt: "r + 1 < k" using r by simp
    have e: "a + 1 = (r + 1) + q * k" using a by (simp add: algebra_simps)
    have "(a + 1) div k = q" "(a + 1) mod k = r + 1"
      unfolding e using assms lt r by simp_all
    then show ?thesis using r by (simp add: q_def)
  qed
qed

lemma mod_shift:
  "((y::int) - 1968) mod 4 = y mod 4" "(y - 1900) mod 100 = y mod 100"
  "(y - 1600) mod 400 = y mod 400"
proof -
  have "y - 1968 = y + (-492) * 4" "y - 1900 = y + (-19) * 100" "y - 1600 = y + (-4) * 400"
    by simp_all
  then show "(y - 1968) mod 4 = y mod 4" "(y - 1900) mod 100 = y mod 100"
    "(y - 1600) mod 400 = y mod 400"
    by (simp_all only: mod_mult_self1)
qed

lemma mod_400_100_4:
  "(y::int) mod 400 = 0 \<Longrightarrow> y mod 100 = 0" "(y::int) mod 100 = 0 \<Longrightarrow> y mod 4 = 0"
proof -
  have a: "(100::int) dvd 400" "(4::int) dvd 100" by simp_all
  show "y mod 400 = 0 \<Longrightarrow> y mod 100 = 0"
    using dvd_trans[OF a(1), of y] by (simp add: mod_eq_0_iff_dvd)
  show "y mod 100 = 0 \<Longrightarrow> y mod 4 = 0"
    using dvd_trans[OF a(2), of y] by (simp add: mod_eq_0_iff_dvd)
qed

lemma DayFromYear_step: "DayFromYear (y + 1) = DayFromYear y + DaysInYear y"
proof -
  have a: "(y + 1 - 1969) div 4 = (y - 1969) div 4 + (if y mod 4 = 0 then 1 else 0)"
    using div_step[of 4 "y - 1969"] mod_shift(1)[of y] by (simp add: algebra_simps)
  have b: "(y + 1 - 1901) div 100 = (y - 1901) div 100 + (if y mod 100 = 0 then 1 else 0)"
    using div_step[of 100 "y - 1901"] mod_shift(2)[of y] by (simp add: algebra_simps)
  have c: "(y + 1 - 1601) div 400 = (y - 1601) div 400 + (if y mod 400 = 0 then 1 else 0)"
    using div_step[of 400 "y - 1601"] mod_shift(3)[of y] by (simp add: algebra_simps)
  show ?thesis
    unfolding DayFromYear_def DaysInYear_def leapYear_def a b c
    using mod_400_100_4[of y] by auto
qed

lemma DaysInYear_pos: "365 \<le> DaysInYear y \<and> DaysInYear y \<le> 366"
  by (simp add: DaysInYear_def)

lemma DayFromYear_mono: "y \<le> y' \<Longrightarrow> DayFromYear y \<le> DayFromYear y'"
proof (induction "nat (y' - y)" arbitrary: y')
  case 0
  then show ?case by simp
next
  case (Suc n)
  then have "n = nat (y' - 1 - y)" "y \<le> y' - 1" by simp_all
  then have "DayFromYear y \<le> DayFromYear (y' - 1)" using Suc.hyps(1) by blast
  moreover have "DayFromYear y' = DayFromYear (y' - 1) + DaysInYear (y' - 1)"
    using DayFromYear_step[of "y' - 1"] by simp
  ultimately show ?case using DaysInYear_pos[of "y' - 1"] by linarith
qed

lemma DayFromYear_strict: "y < y' \<Longrightarrow> DayFromYear y < DayFromYear y'"
  using DayFromYear_mono[of "y + 1" y'] DayFromYear_step[of y] DaysInYear_pos[of y] by simp

lemma yearUp_bounds:
  "DayFromYear y \<le> d \<Longrightarrow>
   DayFromYear (yearUp y d) \<le> d \<and> d < DayFromYear (yearUp y d + 1)"
proof (induction y d rule: yearUp.induct)
  case (1 y d)
  show ?case
  proof (cases "DayFromYear (y + 1) \<le> d")
    case True
    then show ?thesis using "1.IH" by (subst (1 2) yearUp.simps) simp
  next
    case False
    then show ?thesis using "1.prems" by (subst (1 2) yearUp.simps) simp
  qed
qed

lemma yearDown_bounds:
  "d < DayFromYear (y + 1) \<Longrightarrow>
   DayFromYear (yearDown y d) \<le> d \<and> d < DayFromYear (yearDown y d + 1)"
proof (induction y d rule: yearDown.induct)
  case (1 y d)
  show ?case
  proof (cases "d < DayFromYear y")
    case True
    then show ?thesis using "1.IH" by (subst (1 2) yearDown.simps) simp
  next
    case False
    then show ?thesis using "1.prems" by (subst (1 2) yearDown.simps) simp
  qed
qed

lemma YearFromDay_bounds:
  "DayFromYear (YearFromDay d) \<le> d \<and> d < DayFromYear (YearFromDay d + 1)"
proof -
  define y where "y = 1970 + (400 * d) div 146097"
  show ?thesis
  proof (cases "DayFromYear y \<le> d")
    case True
    then show ?thesis using yearUp_bounds[of y d] by (simp add: YearFromDay_def y_def Let_def)
  next
    case False
    then have "d < DayFromYear (y + 1)" using DayFromYear_strict[of y "y + 1"] by simp
    then show ?thesis using False yearDown_bounds[of d y]
      by (simp add: YearFromDay_def y_def Let_def)
  qed
qed

lemma YearFromDay_unique:
  assumes "DayFromYear y \<le> d" and "d < DayFromYear (y + 1)"
  shows "YearFromDay d = y"
proof (rule ccontr)
  assume n: "YearFromDay d \<noteq> y"
  note b = YearFromDay_bounds[of d]
  show False
  proof (cases "YearFromDay d < y")
    case True
    then have "DayFromYear (YearFromDay d + 1) \<le> DayFromYear y"
      by (intro DayFromYear_mono) simp
    then show False using b assms(1) by simp
  next
    case False
    then have "DayFromYear (y + 1) \<le> DayFromYear (YearFromDay d)"
      using n by (intro DayFromYear_mono) simp
    then show False using b assms(2) by simp
  qed
qed

lemma month_cases:
  assumes "0 \<le> (mo::int)" and "mo \<le> 11"
  shows "mo = 0 \<or> mo = 1 \<or> mo = 2 \<or> mo = 3 \<or> mo = 4 \<or> mo = 5 \<or> mo = 6 \<or> mo = 7 \<or>
         mo = 8 \<or> mo = 9 \<or> mo = 10 \<or> mo = 11"
  using assms by arith

lemma monthStart_next:
  assumes "0 \<le> mo" and "mo \<le> 10"
  shows "monthStart (mo + 1) (leapYear y) = monthStart mo (leapYear y) + daysInMonth y mo"
  using month_cases[of mo] assms by (auto simp: monthStart_def daysInMonth_def)

lemma monthStart_december:
  "monthStart 11 (leapYear y) + daysInMonth y 11 = DaysInYear y"
  by (simp add: monthStart_def daysInMonth_def DaysInYear_def)

lemma monthStart_bounds:
  assumes "0 \<le> mo" and "mo \<le> 11"
  shows "0 \<le> monthStart mo (leapYear y) \<and>
         monthStart mo (leapYear y) + daysInMonth y mo \<le> DaysInYear y"
  using month_cases[of mo] assms
  by (auto simp: monthStart_def daysInMonth_def DaysInYear_def)

lemma daysInMonth_range: "28 \<le> daysInMonth y mo \<and> daysInMonth y mo \<le> 31"
  by (simp add: daysInMonth_def)

text \<open>The fields of the day that \<open>MakeDay\<close> builds from a year, a month and a date of
  that month.\<close>

lemma fields_of_day:
  assumes "0 \<le> mo" and "mo \<le> 11" and "1 \<le> k" and "k \<le> daysInMonth y mo"
  shows "YearFromDay (DayFromYear y + monthStart mo (leapYear y) + k - 1) = y"
    and "MonthFromDay (DayFromYear y + monthStart mo (leapYear y) + k - 1) = mo"
    and "DateFromDay (DayFromYear y + monthStart mo (leapYear y) + k - 1) = k"
proof -
  let ?d = "DayFromYear y + monthStart mo (leapYear y) + k - 1"
  have w: "DayFromYear y \<le> ?d" "?d < DayFromYear (y + 1)"
    using monthStart_bounds[OF assms(1,2), of y] assms(3,4) DayFromYear_step[of y] by simp_all
  show y: "YearFromDay ?d = y"
    using w by (rule YearFromDay_unique)
  have e: "?d - DayFromYear y = monthStart mo (leapYear y) + k - 1" by simp
  show m: "MonthFromDay ?d = mo"
    unfolding MonthFromDay_def y Let_def e
    using month_cases[OF assms(1,2)] assms(3,4)
    by (elim disjE; cases "leapYear y"; simp add: monthStart_def daysInMonth_def)
  show "DateFromDay ?d = k"
    by (simp add: DateFromDay_def y m)
qed

text \<open>The fields that are read from a day build it, and the date lies in the month.\<close>

lemma day_of_fields:
  "d = DayFromYear (YearFromDay d) + monthStart (MonthFromDay d) (leapYear (YearFromDay d))
         + DateFromDay d - 1"
  by (simp add: DateFromDay_def Let_def)

lemma DateFromDay_range:
  "1 \<le> DateFromDay d \<and> DateFromDay d \<le> daysInMonth (YearFromDay d) (MonthFromDay d)"
proof -
  define y where "y = YearFromDay d"
  define w where "w = d - DayFromYear y"
  have w: "0 \<le> w" "w < DaysInYear y"
    using YearFromDay_bounds[of d] DayFromYear_step[of y] by (simp_all add: y_def w_def)
  have m: "MonthFromDay d =
     (let l = (if leapYear y then 1 else 0)
      in if w < 31 then 0 else if w < 59 + l then 1 else if w < 90 + l then 2
         else if w < 120 + l then 3 else if w < 151 + l then 4 else if w < 181 + l then 5
         else if w < 212 + l then 6 else if w < 243 + l then 7 else if w < 273 + l then 8
         else if w < 304 + l then 9 else if w < 334 + l then 10 else 11)"
    by (simp add: MonthFromDay_def Let_def y_def w_def)
  have dt: "DateFromDay d = w - monthStart (MonthFromDay d) (leapYear y) + 1"
    by (simp add: DateFromDay_def Let_def y_def w_def)
  show ?thesis
    unfolding dt y_def[symmetric] unfolding m
    using w by (cases "leapYear y"; simp add: Let_def monthStart_def daysInMonth_def DaysInYear_def)
qed

lemma MakeDay_normal:
  assumes "0 \<le> mo" and "mo \<le> 11"
  shows "MakeDay y mo date = DayFromYear y + monthStart mo (leapYear y) + date - 1"
  using assms by (simp add: MakeDay_def Let_def)

text \<open>The month after the month \<open>mo\<close> of the year \<open>y\<close> is the month \<open>(mo + 1) mod 12\<close> of
  the year \<open>y + (mo + 1) div 12\<close>, and it starts when the month has ended.\<close>

lemma next_month_cases:
  assumes "0 \<le> (mo::int)" and "mo \<le> 11"
  shows "(mo \<le> 10 \<and> (mo + 1) div 12 = 0 \<and> (mo + 1) mod 12 = mo + 1) \<or>
         (mo = 11 \<and> (mo + 1) div 12 = 1 \<and> (mo + 1) mod 12 = 0)"
  using month_cases[OF assms] by auto

lemma next_month_range: "0 \<le> ((mo::int) + 1) mod 12 \<and> (mo + 1) mod 12 \<le> 11"
  by simp

lemma next_month_start:
  assumes "0 \<le> mo" and "mo \<le> 11"
  shows "DayFromYear (y + (mo + 1) div 12) + monthStart ((mo + 1) mod 12) (leapYear (y + (mo + 1) div 12)) =
         DayFromYear y + monthStart mo (leapYear y) + daysInMonth y mo"
  using next_month_cases[OF assms]
proof (elim disjE conjE)
  assume "mo \<le> 10" "(mo + 1) div 12 = 0" "(mo + 1) mod 12 = mo + 1"
  then show ?thesis using monthStart_next[OF assms(1), of y] by simp
next
  assume "mo = 11" "(mo + 1) div 12 = 1" "(mo + 1) mod 12 = 0"
  then show ?thesis
    using monthStart_december[of y] DayFromYear_step[of y] by (simp add: monthStart_def)
qed

lemma MakeDay_next_month:
  assumes "0 \<le> mo" and "mo \<le> 11"
  shows "MakeDay y (mo + 1) date =
         DayFromYear y + monthStart mo (leapYear y) + daysInMonth y mo + date - 1"
  using next_month_start[OF assms, of y] by (simp add: MakeDay_def Let_def)

lemma TimeWithinDay_range: "0 \<le> TimeWithinDay t \<and> TimeWithinDay t < msPerDay"
  by (simp add: TimeWithinDay_def msPerDay_def)

lemma Day_MakeDate:
  assumes "0 \<le> tw" and "tw < msPerDay"
  shows "Day (MakeDate x tw) = x" and "TimeWithinDay (MakeDate x tw) = tw"
proof -
  have "(x * msPerDay + tw) div msPerDay = x + tw div msPerDay"
    by (simp add: msPerDay_def)
  then show "Day (MakeDate x tw) = x"
    using assms by (simp add: Day_def MakeDate_def)
  have "(x * msPerDay + tw) mod msPerDay = tw mod msPerDay"
    by (simp add: msPerDay_def)
  then show "TimeWithinDay (MakeDate x tw) = tw"
    using assms by (simp add: TimeWithinDay_def MakeDate_def)
qed

lemma MakeDate_Day: "MakeDate (Day t) (TimeWithinDay t) = t"
  by (simp add: MakeDate_def Day_def TimeWithinDay_def)

lemma TimeClip_MakeDate:
  assumes "- 683100 \<le> x" and "x \<le> 99723100" and "0 \<le> tw" and "tw < msPerDay"
  shows "TimeClip (MakeDate x tw) = Some (MakeDate x tw)"
proof -
  have "- 683100 * msPerDay \<le> x * msPerDay" "x * msPerDay \<le> 99723100 * msPerDay"
    using assms(1,2) by (simp_all add: msPerDay_def)
  then show ?thesis
    using assms(3,4) by (simp add: TimeClip_def MakeDate_def msPerDay_def)
qed

lemma year_range_days:
  assumes "100 \<le> YearFromDay d" and "YearFromDay d \<le> 275000"
  shows "- 683003 \<le> d \<and> d < 99722525"
proof -
  have a: "DayFromYear 100 = - 683003" "DayFromYear 275001 = 99722525"
    by (simp_all add: DayFromYear_def)
  have "DayFromYear 100 \<le> DayFromYear (YearFromDay d)"
    using assms(1) by (rule DayFromYear_mono)
  moreover have "DayFromYear (YearFromDay d + 1) \<le> DayFromYear 275001"
    using assms(2) by (intro DayFromYear_mono) simp
  ultimately show ?thesis
    using YearFromDay_bounds[of d] a by simp
qed

text \<open>The month lengths that \<open>getDaysInMonth\<close> finds are those of the calendar.\<close>

lemma getDaysInMonth_calendar:
  assumes "100 \<le> getFullYear t" and "getFullYear t \<le> 275001"
    and "- 683003 \<le> Day t" and "Day t \<le> 99723000"
  shows "getDaysInMonth t = Some (daysInMonth (getFullYear t) (getMonth t))"
proof -
  define y mo k where "y = getFullYear t" and "mo = getMonth t" and "k = getDate t"
  have mo: "0 \<le> mo" "mo \<le> 11"
    using MonthFromDay_range[of "Day t"] by (simp_all add: mo_def getMonth_def)
  have k: "1 \<le> k" "k \<le> daysInMonth y mo"
    using DateFromDay_range[of "Day t"] by (simp_all add: k_def y_def mo_def getDate_def getFullYear_def getMonth_def)
  have d: "Day t = DayFromYear y + monthStart mo (leapYear y) + k - 1"
    using day_of_fields[of "Day t"] by (simp add: k_def y_def mo_def getDate_def getFullYear_def getMonth_def)
  define e where "e = DayFromYear y + monthStart mo (leapYear y) + daysInMonth y mo - 1"
  have e: "MakeDay y (mo + 1) 0 = e"
    using MakeDay_next_month[OF mo, of y 0] by (simp add: e_def)
  have er: "- 683100 \<le> e" "e \<le> 99723100"
    using assms(3,4) d k daysInMonth_range[of y mo] by (simp_all add: e_def)
  have c: "TimeClip (MakeDate e 0) = Some (MakeDate e 0)"
    using er by (intro TimeClip_MakeDate) (simp_all add: msPerDay_def)
  have "Day (MakeDate e 0) = e"
    by (intro Day_MakeDate) (simp_all add: msPerDay_def)
  then have "getDate (MakeDate e 0) = daysInMonth y mo"
    using fields_of_day(3)[OF mo, of "daysInMonth y mo" y] daysInMonth_range[of y mo]
    by (simp add: getDate_def e_def)
  then show ?thesis
    by (simp add: getDaysInMonth_def y_def[symmetric] mo_def[symmetric] e c)
qed

text \<open>One month on: the same date of the next month, or its last day.\<close>

lemma addMonths_one:
  assumes "100 \<le> getFullYear t" and "getFullYear t \<le> 275000"
  obtains n where "addMonths (Some t) 1 = Some n"
    and "getFullYear n = getFullYear t + (getMonth t + 1) div 12"
    and "getMonth n = (getMonth t + 1) mod 12"
    and "Day n = Day t - getDate t + daysInMonth (getFullYear t) (getMonth t)
           + min (getDate t) (daysInMonth (getFullYear n) (getMonth n))"
proof -
  let ?k = "getDate t"
  let ?tw = "TimeWithinDay t"
  define y mo where "y = getFullYear t" and "mo = getMonth t"
  define y' mo' where "y' = y + (mo + 1) div 12" and "mo' = (mo + 1) mod 12"
  define F where "F = DayFromYear y + monthStart mo (leapYear y)"
  define F' where "F' = DayFromYear y' + monthStart mo' (leapYear y')"
  define L L' where "L = daysInMonth y mo" and "L' = daysInMonth y' mo'"
  have mo: "0 \<le> mo" "mo \<le> 11"
    using MonthFromDay_range[of "Day t"] by (simp_all add: mo_def getMonth_def)
  have mo': "0 \<le> mo'" "mo' \<le> 11"
    by (simp_all add: mo'_def)
  have k: "1 \<le> ?k" "?k \<le> L"
    using DateFromDay_range[of "Day t"]
    by (simp_all add: y_def mo_def L_def getDate_def getFullYear_def getMonth_def)
  have d: "Day t = F + ?k - 1"
    using day_of_fields[of "Day t"]
    by (simp add: F_def y_def mo_def getDate_def getFullYear_def getMonth_def)
  have dr: "- 683003 \<le> Day t" "Day t < 99722525"
    using year_range_days[of "Day t"] assms by (simp_all add: getFullYear_def)
  have tw: "0 \<le> ?tw" "?tw < msPerDay"
    using TimeWithinDay_range[of t] by simp_all
  have L: "28 \<le> L" "L \<le> 31" "28 \<le> L'" "L' \<le> 31"
    using daysInMonth_range[of y mo] daysInMonth_range[of y' mo'] by (simp_all add: L_def L'_def)
  have F': "F' = F + L"
    using next_month_start[OF mo, of y] by (simp add: F'_def F_def L_def y'_def mo'_def)
  have norm: "y + (mo + 1 + 1) div 12 = y' + (mo' + 1) div 12 \<and>
              (mo + 1 + 1) mod 12 = (mo' + 1) mod 12"
    using month_cases[OF mo] by (auto simp: y'_def mo'_def)
  have "MakeDay y (mo + 1 + 1) 0 = MakeDay y' (mo' + 1) 0"
    using norm by (simp add: MakeDay_def Let_def)
  also have "\<dots> = F' + L' - 1"
    using MakeDay_next_month[OF mo', of y' 0] by (simp add: F'_def L'_def)
  finally have e: "MakeDay y (mo + 1 + 1) 0 = F' + L' - 1" .
  have ec: "TimeClip (MakeDate (F' + L' - 1) ?tw) = Some (MakeDate (F' + L' - 1) ?tw)"
    using dr d k L tw by (intro TimeClip_MakeDate) (simp_all add: F')
  have ed: "Day (MakeDate (F' + L' - 1) ?tw) = F' + L' - 1"
    using tw by (rule Day_MakeDate)
  have ef: "YearFromDay (F' + L' - 1) = y'" "MonthFromDay (F' + L' - 1) = mo'"
    "DateFromDay (F' + L' - 1) = L'"
    using fields_of_day[OF mo', of L' y'] L by (simp_all add: F'_def L'_def)
  define dn where "dn = F' + min ?k L' - 1"
  have kk: "1 \<le> min ?k L'" "min ?k L' \<le> L'"
    using k L by simp_all
  have nf: "YearFromDay dn = y'" "MonthFromDay dn = mo'"
    using fields_of_day(1,2)[OF mo' kk(1), of y'] kk(2) by (simp_all add: dn_def F'_def L'_def)
  have nc: "TimeClip (MakeDate dn ?tw) = Some (MakeDate dn ?tw)"
    using dr d k L tw by (intro TimeClip_MakeDate) (simp_all add: dn_def F')
  have nd: "Day (MakeDate dn ?tw) = dn"
    using tw by (rule Day_MakeDate)
  have e2: "MakeDay (getFullYear t) (2 + getMonth t) 0 = F' + L' - 1"
    "MakeDay (getFullYear t) (getMonth t + 2) 0 = F' + L' - 1"
    using e by (simp_all add: y_def mo_def algebra_simps)
  have eg: "getDate (MakeDate (F' + L' - 1) ?tw) = L'"
    "getFullYear (MakeDate (F' + L' - 1) ?tw) = y'" "getMonth (MakeDate (F' + L' - 1) ?tw) = mo'"
    by (simp_all add: getDate_def getFullYear_def getMonth_def ed ef)
  have am: "addMonths (Some t) 1 =
      (if L' \<le> ?k then Some (MakeDate (F' + L' - 1) ?tw)
       else TimeClip (MakeDate (MakeDay y' mo' ?k) ?tw))"
    by (simp add: addMonths_def e2 ec eg)
  have r1: "addMonths (Some t) 1 = Some (MakeDate dn ?tw)"
  proof (cases "L' \<le> ?k")
    case True
    then have "dn = F' + L' - 1" by (simp add: dn_def)
    then show ?thesis
      using True by (simp add: am)
  next
    case False
    then have m: "min ?k L' = ?k" by simp
    have "MakeDay y' mo' ?k = dn"
      using MakeDay_normal[OF mo', of y' ?k] by (simp add: dn_def m F'_def)
    then show ?thesis
      using False by (simp add: am nc)
  qed
  have r2: "getFullYear (MakeDate dn ?tw) = y'"
    by (simp add: getFullYear_def[of "MakeDate dn ?tw"] nd nf)
  have r3: "getMonth (MakeDate dn ?tw) = mo'"
    by (simp add: getMonth_def[of "MakeDate dn ?tw"] nd nf)
  have r4: "Day (MakeDate dn ?tw) = Day t - ?k + L + min ?k L'"
    unfolding nd by (simp add: dn_def F' d)
  show ?thesis
  proof (rule that[of "MakeDate dn ?tw"])
    show "addMonths (Some t) 1 = Some (MakeDate dn ?tw)" by (rule r1)
    show "getFullYear (MakeDate dn ?tw) = getFullYear t + (getMonth t + 1) div 12"
      unfolding r2 y'_def y_def mo_def ..
    show "getMonth (MakeDate dn ?tw) = (getMonth t + 1) mod 12"
      unfolding r3 mo'_def mo_def ..
    show "Day (MakeDate dn ?tw) = Day t - getDate t + daysInMonth (getFullYear t) (getMonth t)
           + min (getDate t) (daysInMonth (getFullYear (MakeDate dn ?tw)) (getMonth (MakeDate dn ?tw)))"
      using r4[unfolded L_def L'_def y_def mo_def] unfolding r2 r3 .
  qed
qed

section \<open>The day-of-month resolver\<close>

lemma numMin_Num: "numMin (Num a) (Num b) = Num (min a b)"
  by (simp add: numMin_def numLess_def min_def)

lemma newDate_calendar:
  assumes "100 \<le> y" and "0 \<le> mo" and "mo \<le> 11"
    and "- 683100 \<le> DayFromYear y + monthStart mo (leapYear y) + c - 1"
    and "DayFromYear y + monthStart mo (leapYear y) + c - 1 \<le> 99723100"
  shows "newDate y mo (Num c) =
         Some (MakeDate (DayFromYear y + monthStart mo (leapYear y) + c - 1) 0)"
proof -
  have "TimeClip (MakeDate (DayFromYear y + monthStart mo (leapYear y) + c - 1) 0) =
        Some (MakeDate (DayFromYear y + monthStart mo (leapYear y) + c - 1) 0)"
    using assms(4,5) by (intro TimeClip_MakeDate) (simp_all add: msPerDay_def)
  then show ?thesis
    using assms(1) MakeDay_normal[OF assms(2,3), of y c] by (simp add: newDate_def)
qed

lemma nearestDayOfMonth_day:
  assumes "100 \<le> getFullYear t" and "getFullYear t \<le> 275000" and "0 \<le> day"
  shows "\<exists>r. nearestDayOfMonth (Some t) (Num day) = Some r \<and> TimeWithinDay r = 0 \<and>
     (if getDate t \<le> min day (daysInMonth (getFullYear t) (getMonth t))
      then Day r = Day t - getDate t + min day (daysInMonth (getFullYear t) (getMonth t))
      else Day r = Day t - getDate t + daysInMonth (getFullYear t) (getMonth t)
             + min day (daysInMonth (getFullYear t + (getMonth t + 1) div 12)
                  ((getMonth t + 1) mod 12)))"
proof -
  let ?k = "getDate t"
  define y mo where "y = getFullYear t" and "mo = getMonth t"
  define y' mo' where "y' = y + (mo + 1) div 12" and "mo' = (mo + 1) mod 12"
  define L L' where "L = daysInMonth y mo" and "L' = daysInMonth y' mo'"
  define F where "F = DayFromYear y + monthStart mo (leapYear y)"
  define F' where "F' = DayFromYear y' + monthStart mo' (leapYear y')"
  define c c' where "c = min day L" and "c' = min day L'"
  have y: "100 \<le> y" "y \<le> 275000" using assms(1,2) by (simp_all add: y_def)
  have mo: "0 \<le> mo" "mo \<le> 11"
    using MonthFromDay_range[of "Day t"] by (simp_all add: mo_def getMonth_def)
  have y': "100 \<le> y'" "y' \<le> 275001"
    using y next_month_cases[OF mo] by (auto simp: y'_def)
  have mo': "0 \<le> mo'" "mo' \<le> 11"
    by (simp_all add: mo'_def)
  have k: "1 \<le> ?k" "?k \<le> L"
    using DateFromDay_range[of "Day t"]
    by (simp_all add: y_def mo_def L_def getDate_def getFullYear_def getMonth_def)
  have d: "Day t = F + ?k - 1"
    using day_of_fields[of "Day t"]
    by (simp add: F_def y_def mo_def getDate_def getFullYear_def getMonth_def)
  have dr: "- 683003 \<le> Day t" "Day t < 99722525"
    using year_range_days[of "Day t"] assms(1,2) by (simp_all add: getFullYear_def)
  have L: "28 \<le> L" "L \<le> 31" "28 \<le> L'" "L' \<le> 31"
    using daysInMonth_range[of y mo] daysInMonth_range[of y' mo'] by (simp_all add: L_def L'_def)
  have c: "0 \<le> c" "c \<le> L" "0 \<le> c'" "c' \<le> L'"
    using assms(3) L by (simp_all add: c_def c'_def)
  have F': "F' = F + L"
    using next_month_start[OF mo, of y] by (simp add: F'_def F_def L_def y'_def mo'_def)
  have g: "getDaysInMonth t = Some L"
    using getDaysInMonth_calendar[of t] assms(1,2) dr by (simp add: L_def y_def mo_def)
  have cand: "newDate (getFullYear t) (getMonth t) (numMin (Num day) (Num L)) =
      Some (MakeDate (F + c - 1) 0)"
    unfolding numMin_Num c_def[symmetric] y_def[symmetric] mo_def[symmetric] F_def
    using dr d k c L by (intro newDate_calendar y(1) mo) (simp_all add: F_def)
  have sod: "startOfDay (Some t) = Some (MakeDate (Day t) 0)"
    using dr TimeClip_MakeDate[of "Day t" 0] by (simp add: startOfDay_def msPerDay_def)
  have before: "isBefore (Some (MakeDate (F + c - 1) 0)) (Some (MakeDate (Day t) 0)) \<longleftrightarrow> c < ?k"
    by (simp add: isBefore_def MakeDate_def msPerDay_def d)
  have main: "\<exists>r. nearestDayOfMonth (Some t) (Num day) = Some r \<and> TimeWithinDay r = 0 \<and>
     (if ?k \<le> c then Day r = Day t - ?k + c else Day r = Day t - ?k + L + c')"
  proof (cases "c < ?k")
    case False
    have "nearestDayOfMonth (Some t) (Num day) = Some (MakeDate (F + c - 1) 0)"
      using False by (simp add: nearestDayOfMonth_def g cand sod before)
    moreover have "Day (MakeDate (F + c - 1) 0) = Day t - ?k + c"
      "TimeWithinDay (MakeDate (F + c - 1) 0) = 0"
      by (simp_all add: Day_MakeDate msPerDay_def d)
    ultimately show ?thesis
      using False by simp
  next
    case True
    from addMonths_one[OF assms(1,2)] obtain n where n: "addMonths (Some t) 1 = Some n"
      and ny: "getFullYear n = y'" and nm: "getMonth n = mo'"
      and nd: "Day n = Day t - ?k + L + min ?k (daysInMonth (getFullYear n) (getMonth n))"
      by (auto simp: y'_def mo'_def y_def mo_def L_def)
    define q where "q = min ?k (daysInMonth (getFullYear n) (getMonth n))"
    have q: "1 \<le> q" "q \<le> 31"
      using k daysInMonth_range[of "getFullYear n" "getMonth n"] by (auto simp: q_def min_def)
    have "Day n = Day t - ?k + L + q"
      using nd by (simp add: q_def)
    then have ndr: "- 683003 \<le> Day n" "Day n \<le> 99723000"
      using dr k L q by simp_all
    have gn: "getDaysInMonth n = Some L'"
      using getDaysInMonth_calendar[of n] ndr y' by (simp add: ny nm L'_def)
    have nxt: "newDate (getFullYear n) (getMonth n) (numMin (Num day) (Num L')) =
        Some (MakeDate (F' + c' - 1) 0)"
      unfolding numMin_Num c'_def[symmetric] ny nm F'_def
      using dr d k c L by (intro newDate_calendar y'(1) mo') (simp_all add: F'[unfolded F'_def])
    have "nearestDayOfMonth (Some t) (Num day) = Some (MakeDate (F' + c' - 1) 0)"
      using True by (simp add: nearestDayOfMonth_def g cand sod before n gn nxt)
    moreover have "Day (MakeDate (F' + c' - 1) 0) = Day t - ?k + L + c'"
      "TimeWithinDay (MakeDate (F' + c' - 1) 0) = 0"
      by (simp_all add: Day_MakeDate msPerDay_def d F')
    ultimately show ?thesis
      using True by simp
  qed
  show ?thesis
    using main unfolding c_def c'_def L_def L'_def y'_def mo'_def y_def mo_def .
qed

text \<open>The fields of a day that is given by its distance from the first day of the month
  of \<open>t\<close>, in that month and in the month after it.\<close>

lemma fields_in_month:
  assumes "1 \<le> c" and "c \<le> daysInMonth (getFullYear t) (getMonth t)"
    and "Day r = Day t - getDate t + c"
  shows "getFullYear r = getFullYear t \<and> getMonth r = getMonth t \<and> getDate r = c"
proof -
  define y mo where "y = getFullYear t" and "mo = getMonth t"
  have mo: "0 \<le> mo" "mo \<le> 11"
    using MonthFromDay_range[of "Day t"] by (simp_all add: mo_def getMonth_def)
  have "Day t = DayFromYear y + monthStart mo (leapYear y) + getDate t - 1"
    using day_of_fields[of "Day t"]
    by (simp add: y_def mo_def getDate_def getFullYear_def getMonth_def)
  then have r: "Day r = DayFromYear y + monthStart mo (leapYear y) + c - 1"
    using assms(3) by simp
  have c: "c \<le> daysInMonth y mo" using assms(2) by (simp add: y_def mo_def)
  from fields_of_day[OF mo assms(1) c]
  have "YearFromDay (Day r) = y" "MonthFromDay (Day r) = mo" "DateFromDay (Day r) = c"
    unfolding r by simp_all
  then show ?thesis
    by (simp add: getFullYear_def[of r] getMonth_def[of r] getDate_def[of r] y_def mo_def)
qed

lemma fields_in_next_month:
  assumes "1 \<le> c"
    and "c \<le> daysInMonth (getFullYear t + (getMonth t + 1) div 12) ((getMonth t + 1) mod 12)"
    and "Day r = Day t - getDate t + daysInMonth (getFullYear t) (getMonth t) + c"
  shows "getFullYear r = getFullYear t + (getMonth t + 1) div 12 \<and>
         getMonth r = (getMonth t + 1) mod 12 \<and> getDate r = c"
proof -
  define y mo where "y = getFullYear t" and "mo = getMonth t"
  define y' mo' where "y' = y + (mo + 1) div 12" and "mo' = (mo + 1) mod 12"
  have mo: "0 \<le> mo" "mo \<le> 11"
    using MonthFromDay_range[of "Day t"] by (simp_all add: mo_def getMonth_def)
  have mo': "0 \<le> mo'" "mo' \<le> 11"
    by (simp_all add: mo'_def)
  have "Day t = DayFromYear y + monthStart mo (leapYear y) + getDate t - 1"
    using day_of_fields[of "Day t"]
    by (simp add: y_def mo_def getDate_def getFullYear_def getMonth_def)
  then have "Day r = DayFromYear y + monthStart mo (leapYear y) + daysInMonth y mo + c - 1"
    using assms(3) by (simp add: y_def mo_def)
  then have r: "Day r = DayFromYear y' + monthStart mo' (leapYear y') + c - 1"
    using next_month_start[OF mo, of y] by (simp add: y'_def mo'_def)
  have c: "c \<le> daysInMonth y' mo'" using assms(2) by (simp add: y'_def mo'_def y_def mo_def)
  from fields_of_day[OF mo' assms(1) c]
  have "YearFromDay (Day r) = y'" "MonthFromDay (Day r) = mo'" "DateFromDay (Day r) = c"
    unfolding r by simp_all
  then show ?thesis
    by (simp add: getFullYear_def[of r] getMonth_def[of r] getDate_def[of r]
        y'_def mo'_def y_def mo_def)
qed

lemma nearest_days_examples:
  "nearestDayOfMonth (startOfDay NOW) (Num 5) = Some 1707091200000 \<and>
   toIso (Some 1707091200000) = Inr (js ''2024-02-05T00:00:00.000Z'') \<and>
   toIso (Some 1712750400000) = Inr (js ''2024-04-10T12:00:00.000Z'') \<and>
   getDaysInMonth 1712750400000 = Some 30 \<and>
   nearestDayOfMonth (Some 1712750400000) (Num 31) = Some 1714435200000 \<and>
   toIso (Some 1714435200000) = Inr (js ''2024-04-30T00:00:00.000Z'')"
  by (simp add: eval_defs)

lemma now_fields:
  "getFullYear 1704888000000 = 2024 \<and> getMonth 1704888000000 = 0 \<and>
   getDate 1704888000000 = 10 \<and> daysInMonth 2024 0 = 31 \<and> daysInMonth 2024 1 = 29"
  by (simp add: eval_defs)

text \<open>
  Claim C6.  The day-of-month resolver \<open>nearestDayOfMonth\<close> does not reject a day that
  lies outside the month: for a reference date in the years 100 to 275000 and every day
  number from 0 on it returns a date, at midnight.  The day is clamped to the length of
  the month of the reference date; if the clamped day is not before the day of the
  reference date, the result is that day of that month, otherwise it is the day, clamped
  to the length of the following month, of the following month.  The month lengths are
  those of the calendar.  For the reference instant 2024-01-10 the day 5 gives
  2024-02-05, and the day 31 in April 2024, a month of 30 days, gives 2024-04-30.
\<close>

theorem nearest_day_of_month_clamps:
  assumes "100 \<le> getFullYear t" and "getFullYear t \<le> 275000" and "0 \<le> day"
  shows "(\<exists>r. nearestDayOfMonth (Some t) (Num day) = Some r \<and> TimeWithinDay r = 0 \<and>
       (if getDate t \<le> min day (daysInMonth (getFullYear t) (getMonth t))
        then Day r = Day t - getDate t + min day (daysInMonth (getFullYear t) (getMonth t)) \<and>
             (1 \<le> day \<longrightarrow>
                getFullYear r = getFullYear t \<and> getMonth r = getMonth t \<and>
                getDate r = min day (daysInMonth (getFullYear t) (getMonth t)))
        else Day r = Day t - getDate t + daysInMonth (getFullYear t) (getMonth t)
               + min day (daysInMonth (getFullYear t + (getMonth t + 1) div 12)
                    ((getMonth t + 1) mod 12)) \<and>
             (1 \<le> day \<longrightarrow>
                getFullYear r = getFullYear t + (getMonth t + 1) div 12 \<and>
                getMonth r = (getMonth t + 1) mod 12 \<and>
                getDate r = min day (daysInMonth (getFullYear r) (getMonth r))))) \<and>
     getDaysInMonth t = Some (daysInMonth (getFullYear t) (getMonth t)) \<and>
     nearestDayOfMonth (startOfDay NOW) (Num 5) = Some 1707091200000 \<and>
     toIso (Some 1707091200000) = Inr (js ''2024-02-05T00:00:00.000Z'') \<and>
     toIso (Some 1712750400000) = Inr (js ''2024-04-10T12:00:00.000Z'') \<and>
     getDaysInMonth 1712750400000 = Some 30 \<and>
     nearestDayOfMonth (Some 1712750400000) (Num 31) = Some 1714435200000 \<and>
     toIso (Some 1714435200000) = Inr (js ''2024-04-30T00:00:00.000Z'')"
proof -
  let ?L = "daysInMonth (getFullYear t) (getMonth t)"
  let ?L' = "daysInMonth (getFullYear t + (getMonth t + 1) div 12) ((getMonth t + 1) mod 12)"
  from nearestDayOfMonth_day[OF assms] obtain r
    where r: "nearestDayOfMonth (Some t) (Num day) = Some r" and tw: "TimeWithinDay r = 0"
      and dr: "if getDate t \<le> min day ?L then Day r = Day t - getDate t + min day ?L
               else Day r = Day t - getDate t + ?L + min day ?L'"
    by blast
  have L: "28 \<le> ?L" "28 \<le> ?L'"
    using daysInMonth_range[of "getFullYear t" "getMonth t"]
      daysInMonth_range[of "getFullYear t + (getMonth t + 1) div 12" "(getMonth t + 1) mod 12"]
    by simp_all
  have f: "if getDate t \<le> min day ?L
      then Day r = Day t - getDate t + min day ?L \<and>
           (1 \<le> day \<longrightarrow>
              getFullYear r = getFullYear t \<and> getMonth r = getMonth t \<and> getDate r = min day ?L)
      else Day r = Day t - getDate t + ?L + min day ?L' \<and>
           (1 \<le> day \<longrightarrow>
              getFullYear r = getFullYear t + (getMonth t + 1) div 12 \<and>
              getMonth r = (getMonth t + 1) mod 12 \<and>
              getDate r = min day (daysInMonth (getFullYear r) (getMonth r)))"
  proof (cases "getDate t \<le> min day ?L")
    case True
    then have d: "Day r = Day t - getDate t + min day ?L" using dr by simp
    have "getFullYear r = getFullYear t \<and> getMonth r = getMonth t \<and> getDate r = min day ?L"
      if "1 \<le> day"
    proof (rule fields_in_month[OF _ _ d])
      show "1 \<le> min day ?L" using that L by simp
      show "min day ?L \<le> ?L" by simp
    qed
    then show ?thesis unfolding if_P[OF True] using d by blast
  next
    case False
    then have d: "Day r = Day t - getDate t + ?L + min day ?L'" using dr by simp
    have "getFullYear r = getFullYear t + (getMonth t + 1) div 12 \<and>
          getMonth r = (getMonth t + 1) mod 12 \<and>
          getDate r = min day (daysInMonth (getFullYear r) (getMonth r))"
      if "1 \<le> day"
    proof -
      have "getFullYear r = getFullYear t + (getMonth t + 1) div 12 \<and>
          getMonth r = (getMonth t + 1) mod 12 \<and> getDate r = min day ?L'"
      proof (rule fields_in_next_month[OF _ _ d])
        show "1 \<le> min day ?L'" using that L by simp
        show "min day ?L' \<le> ?L'" by simp
      qed
      then show ?thesis by simp
    qed
    then show ?thesis unfolding if_not_P[OF False] using d by blast
  qed
  have dd: "- 683003 \<le> Day t" "Day t < 99722525"
    using year_range_days[of "Day t"] assms(1,2) by (simp_all add: getFullYear_def)
  have g: "getDaysInMonth t = Some ?L"
    using getDaysInMonth_calendar[of t] assms(1,2) dd by simp
  show ?thesis
    using r tw f g nearest_days_examples by blast
qed

theorem nearest_day_of_month_clamps_witness:
  "getFullYear 1704888000000 = 2024 \<and> getMonth 1704888000000 = 0 \<and>
   getDate 1704888000000 = 10 \<and> daysInMonth 2024 0 = 31 \<and> daysInMonth 2024 1 = 29 \<and>
   (\<exists>r. nearestDayOfMonth (Some 1704888000000) (Num 5) = Some r \<and> TimeWithinDay r = 0 \<and>
        getFullYear r = 2024 \<and> getMonth r = 1 \<and> getDate r = 5) \<and>
   (\<exists>r. nearestDayOfMonth (Some 1704888000000) (Num 31) = Some r \<and> TimeWithinDay r = 0 \<and>
        getFullYear r = 2024 \<and> getMonth r = 0 \<and> getDate r = 31)"
proof -
  note n = now_fields
  have y: "100 \<le> getFullYear 1704888000000" "getFullYear 1704888000000 \<le> 275000"
    using n by simp_all
  from nearest_day_of_month_clamps[OF y, of 5, THEN conjunct1]
  have a: "\<exists>r. nearestDayOfMonth (Some 1704888000000) (Num 5) = Some r \<and> TimeWithinDay r = 0 \<and>
        getFullYear r = 2024 \<and> getMonth r = 1 \<and> getDate r = 5"
    using n by auto
  from nearest_day_of_month_clamps[OF y, of 31, THEN conjunct1]
  have b: "\<exists>r. nearestDayOfMonth (Some 1704888000000) (Num 31) = Some r \<and> TimeWithinDay r = 0 \<and>
        getFullYear r = 2024 \<and> getMonth r = 0 \<and> getDate r = 31"
    using n by auto
  show ?thesis using n a b by blast
qed

section \<open>An explicit time out of range\<close>

text \<open>
  Claim C10.  The explicit-time extractor does not check the range of the hour and the
  minute.  In the text \<open>v 25:70\<close> (\<open>v\<close> is the Russian preposition, U+0432) the colon form
  matches, the hour 25 and the minute 70 are kept as they are, and \<open>parseQuickAddRu\<close>
  returns a patch with a due date: for the reference instant 2024-01-10T12:00Z the
  time-only fallback sets 25:70 on 2024-01-10, which is 2024-01-11T02:10Z.
\<close>

theorem explicit_time_out_of_range_overflows:
  "parsedHour (extractMarkers (ru_v @ js '' 25:70'')) = Some (Num 25) \<and>
   parsedMinute (extractMarkers (ru_v @ js '' 25:70'')) = Some (Num 70) \<and>
   atTime (startOfDay NOW) (Num 25) (Num 70) = Some 1704939000000 \<and>
   parseQuickAddRu (ru_v @ js '' 25:70'') NOW =
     Inr (Some \<lparr>due_date = Some (js ''2024-01-11T02:10:00.000Z''), priority = None,
       project_name = None, labels = None, repeat_after = None, repeat_mode = None,
       cleaned_title = None\<rparr>)"
proof (intro conjI)
  show "parsedHour (extractMarkers (ru_v @ js '' 25:70'')) = Some (Num 25)"
    by (simp add: eval_defs)
  show "parsedMinute (extractMarkers (ru_v @ js '' 25:70'')) = Some (Num 70)"
    by (simp add: eval_defs)
  show "atTime (startOfDay NOW) (Num 25) (Num 70) = Some 1704939000000"
    by (simp add: eval_defs)
  show "parseQuickAddRu (ru_v @ js '' 25:70'') NOW =
     Inr (Some \<lparr>due_date = Some (js ''2024-01-11T02:10:00.000Z''), priority = None,
       project_name = None, labels = None, repeat_after = None, repeat_mode = None,
       cleaned_title = None\<rparr>)"
    by (simp add: eval_defs)
qed

section \<open>A bare weekday name\<close>

lemma parse_on_wednesday:
  "parseQuickAddRu (js ''on wednesday report'') NOW =
   Inr (Some \<lparr>due_date = Some (js ''2024-01-17T23:59:00.000Z''), priority = None,
     project_name = None, labels = None, repeat_after = None, repeat_mode = None,
     cleaned_title = Some (js ''On report'')\<rparr>)"
  by (simp add: eval_defs)

section \<open>Texts without markers\<close>

lemma markerFree_search:
  assumes "markerFree s" and "r \<in> set allPatterns"
  shows "search r [] None s = None"
  using assms by (simp add: markerFree_def list_all_iff)

lemma markerFree_match:
  assumes "markerFree s" and "r \<in> set allPatterns"
  shows "match s r = None" and "\<not> test r s" and "replace s r = s"
  using markerFree_search[OF assms] by (simp_all add: match_def test_def replace_def)

lemma gscan_no_match:
  "search r pre p s = None \<Longrightarrow> gscan r 0 p s = map Inr s"
proof (induction s arbitrary: pre p)
  case Nil
  then show ?case by (auto split: list.splits prod.splits)
next
  case (Cons c s)
  from Cons.prems have "matcher r ([], p, c # s) = []"
    and "search r (c # pre) (Some c) s = None"
    by (auto split: list.splits)
  then show ?case using Cons.IH[of "c # pre" "Some c"] by simp
qed

lemma markerFree_global:
  assumes "markerFree s" and "r \<in> set allPatterns"
  shows "execAll r s = []" and "replaceAll s r = s"
proof -
  have g: "gscan r 0 None s = map Inr s"
    using markerFree_search[OF assms] by (rule gscan_no_match)
  show "execAll r s = []" by (simp add: execAll_def g)
  show "replaceAll s r = s" by (simp add: replaceAll_def g comp_def)
qed

lemma record_same:
  "(st::pstate)\<lparr>patch := patch st, remaining := remaining st\<rparr> = st"
  "(st::pstate)\<lparr>remaining := remaining st\<rparr> = st"
  by simp_all

lemma markerFree_extractMarkers:
  assumes "markerFree s"
  shows "extractMarkers s = initial s"
proof -
  have r: "remaining (initial s) = s" by (simp add: initial_def)
  have 1: "extractPriority (initial s) = initial s"
    using markerFree_match[OF assms, of prioNumRe] markerFree_match[OF assms, of prioWordRe]
    by (simp add: extractPriority_def r allPatterns_def)
  have 2: "extractProject (initial s) = initial s"
    using markerFree_match[OF assms, of projectQuotedRe] markerFree_match[OF assms, of projectSimpleRe]
    by (simp add: extractProject_def r allPatterns_def)
  have 3: "extractLabels (initial s) = initial s"
    using markerFree_global[OF assms, of labelQuotedRe] markerFree_global[OF assms, of labelSimpleRe]
    by (simp add: extractLabels_def r allPatterns_def)
  have 4: "extractExplicitTime (initial s) = initial s"
    using markerFree_match[OF assms, of explicitTimeRe] markerFree_match[OF assms, of hourOnlyTimeRe]
    by (simp add: extractExplicitTime_def r allPatterns_def)
  have 5: "extractTimeMarker (initial s) = initial s"
    using markerFree_match[OF assms, of timeMarkerRe]
    by (simp add: extractTimeMarker_def r allPatterns_def)
  show ?thesis by (simp add: extractMarkers_def 1 2 3 4 5)
qed

lemma markerFree_extractAll:
  assumes "markerFree s"
  shows "extractAll s = initial s"
  using markerFree_match[OF assms, of everyDayRe] markerFree_match[OF assms, of everyWeekRe]
    markerFree_match[OF assms, of everyMonthRe] markerFree_match[OF assms, of everyHourRe]
    markerFree_match[OF assms, of everyNHoursRe]
  by (simp add: extractAll_def markerFree_extractMarkers[OF assms] recurrenceKeywords_def
      initial_def allPatterns_def)

lemma markerFree_run:
  assumes "markerFree s"
  shows "run (dueStages now) (initial s) = Inr (initial s)"
proof -
  have r: "remaining (initial s) = s" "patch (initial s) = emptyPatch"
    by (simp_all add: initial_def)
  have 1: "secondDayOfWeek now (initial s) = Inr (initial s)"
    using markerFree_match[OF assms, of secondDayOfWeekRe]
    by (simp add: secondDayOfWeek_def r allPatterns_def)
  have 2: "everyWeekday now (initial s) = Inr (initial s)"
    using markerFree_match[OF assms, of everyWeekdayRe]
    by (simp add: everyWeekday_def r allPatterns_def)
  have 3: "everyDayOfMonth now (initial s) = Inr (initial s)"
    using markerFree_match[OF assms, of everyDayOfMonthRe]
    by (simp add: everyDayOfMonth_def r allPatterns_def)
  have 4: "dateExpressions now (initial s) = Inr (initial s)"
    using markerFree_match[OF assms, of todayRe] markerFree_match[OF assms, of tomorrowRe]
      markerFree_match[OF assms, of dayAfterTomorrowRe] markerFree_match[OF assms, of inNDaysRe]
      markerFree_match[OF assms, of weekdayOnceRe]
    by (simp add: dateExpressions_def r allPatterns_def)
  have 5: "timeOnly now (initial s) = Inr (initial s)"
    by (simp add: timeOnly_def effectiveHour_def initial_def)
  have 6: "hourlyRepeat now (initial s) = Inr (initial s)"
    by (simp add: hourlyRepeat_def initial_def emptyPatch_def)
  have 7: "monthlyFallback now (initial s) = Inr (initial s)"
    by (simp add: monthlyFallback_def initial_def emptyPatch_def)
  show ?thesis by (simp add: dueStages_def 1 2 3 4 5 6 7)
qed

lemma isSpace_toLowerUnit: "isSpace (toLowerUnit c) = isSpace c"
  by (auto simp: isSpace_def toLowerUnit_def)

lemma dropWhile_toLowerUnit:
  "dropWhile isSpace (map toLowerUnit xs) = map toLowerUnit (dropWhile isSpace xs)"
  by (induction xs) (simp_all add: isSpace_toLowerUnit)

lemma trim_toLowerCase: "trim (toLowerCase s) = toLowerCase (trim s)"
  by (simp add: trim_def toLowerCase_def dropWhile_toLowerUnit rev_map)

lemma markerFree_parse:
  assumes "markerFree s" and "replaceAll s spaceRunRe = s"
  shows "parseQuickAddRu s now = Inr None"
proof -
  have "withTitle s (initial s) = emptyPatch"
    by (simp add: withTitle_def cleaned_def assms(2) initial_def trim_toLowerCase Let_def)
  moreover have "result emptyPatch = None"
    by (simp add: result_def hasMeaningfulPatch_def emptyPatch_def)
  ultimately show ?thesis
    by (simp add: parseQuickAddRu_def markerFree_extractAll[OF assms(1)] markerFree_run[OF assms(1)])
qed

section \<open>The result gate\<close>

text \<open>No stage before the last writes the cleaned title.\<close>

lemma secondDayOfWeek_title:
  "secondDayOfWeek now st = Inr st' \<Longrightarrow> cleaned_title (patch st') = cleaned_title (patch st)"
  by (auto simp: secondDayOfWeek_def weeklyIfUnset_def erase_def Let_def
      dest!: setDue_Inr split: if_splits sum.splits option.splits)

lemma everyWeekday_title:
  "everyWeekday now st = Inr st' \<Longrightarrow> cleaned_title (patch st') = cleaned_title (patch st)"
  by (auto simp: everyWeekday_def weeklyIfUnset_def erase_def Let_def
      dest!: setDue_Inr split: if_splits sum.splits option.splits)

lemma everyDayOfMonth_title:
  "everyDayOfMonth now st = Inr st' \<Longrightarrow> cleaned_title (patch st') = cleaned_title (patch st)"
  by (auto simp: everyDayOfMonth_def weeklyIfUnset_def erase_def Let_def
      dest!: setDue_Inr split: if_splits sum.splits option.splits)

lemma dateExpressions_title:
  "dateExpressions now st = Inr st' \<Longrightarrow> cleaned_title (patch st') = cleaned_title (patch st)"
  by (auto simp: dateExpressions_def weeklyIfUnset_def erase_def Let_def
      dest!: setDue_Inr split: if_splits sum.splits option.splits)

lemma timeOnly_title:
  "timeOnly now st = Inr st' \<Longrightarrow> cleaned_title (patch st') = cleaned_title (patch st)"
  by (auto simp: timeOnly_def weeklyIfUnset_def erase_def Let_def
      dest!: setDue_Inr split: if_splits sum.splits option.splits)

lemma hourlyRepeat_title:
  "hourlyRepeat now st = Inr st' \<Longrightarrow> cleaned_title (patch st') = cleaned_title (patch st)"
  by (auto simp: hourlyRepeat_def weeklyIfUnset_def erase_def Let_def
      dest!: setDue_Inr split: if_splits sum.splits option.splits)

lemma monthlyFallback_title:
  "monthlyFallback now st = Inr st' \<Longrightarrow> cleaned_title (patch st') = cleaned_title (patch st)"
  by (auto simp: monthlyFallback_def weeklyIfUnset_def erase_def Let_def
      dest!: setDue_Inr split: if_splits sum.splits option.splits)

lemma dueStages_title:
  assumes "f \<in> set (dueStages now)" and "cleaned_title (patch st) = None" and "f st = Inr st'"
  shows "cleaned_title (patch st') = None"
proof -
  from assms(1) consider "f = secondDayOfWeek now" | "f = everyWeekday now"
    | "f = everyDayOfMonth now" | "f = dateExpressions now" | "f = timeOnly now"
    | "f = hourlyRepeat now" | "f = monthlyFallback now"
    by (auto simp: dueStages_def)
  then show ?thesis
  proof cases
    case 1 then show ?thesis using assms(2,3) secondDayOfWeek_title by metis
  next
    case 2 then show ?thesis using assms(2,3) everyWeekday_title by metis
  next
    case 3 then show ?thesis using assms(2,3) everyDayOfMonth_title by metis
  next
    case 4 then show ?thesis using assms(2,3) dateExpressions_title by metis
  next
    case 5 then show ?thesis using assms(2,3) timeOnly_title by metis
  next
    case 6 then show ?thesis using assms(2,3) hourlyRepeat_title by metis
  next
    case 7 then show ?thesis using assms(2,3) monthlyFallback_title by metis
  qed
qed

lemma extractPriority_title:
  "cleaned_title (patch (extractPriority st)) = cleaned_title (patch st)"
  by (simp add: extractPriority_def split: option.splits)

lemma extractProject_title:
  "cleaned_title (patch (extractProject st)) = cleaned_title (patch st)"
  by (simp add: extractProject_def split: option.splits)

lemma extractLabels_title:
  "cleaned_title (patch (extractLabels st)) = cleaned_title (patch st)"
  by (simp add: extractLabels_def Let_def)

lemma recurrenceKeywords_title:
  "cleaned_title (patch (recurrenceKeywords st)) = cleaned_title (patch st)"
  by (simp add: recurrenceKeywords_def split: option.splits)

lemma extractAll_title: "cleaned_title (patch (extractAll text)) = None"
  by (simp add: extractAll_def extractMarkers_def recurrenceKeywords_title extractTimeMarker_patch
      extractExplicitTime_patch extractLabels_title extractProject_title extractPriority_title
      initial_def emptyPatch_def)

lemma run_title:
  assumes "run (dueStages now) (extractAll text) = Inr st"
  shows "cleaned_title (patch st) = None"
  using run_invariant[where P = "\<lambda>s. cleaned_title (patch s) = None", OF dueStages_title
      extractAll_title assms]
  by simp

lemma hasMeaningfulPatch_title:
  "hasMeaningfulPatch (p\<lparr>cleaned_title := x\<rparr>) = hasMeaningfulPatch p"
  by (simp add: hasMeaningfulPatch_def)

text \<open>When \<open>parseQuickAddRu\<close> returns no patch.\<close>

lemma parse_None_iff:
  "parseQuickAddRu text now = Inr None \<longleftrightarrow>
     text = [] \<or> trim text = [] \<or>
     (\<exists>st. run (dueStages now) (extractAll text) = Inr st \<and>
        \<not> hasMeaningfulPatch (patch st) \<and>
        (cleaned (remaining st) = [] \<or>
         toLowerCase (cleaned (remaining st)) = trim (toLowerCase text)))"
proof (cases "text = [] \<or> trim text = []")
  case True
  then show ?thesis by (auto simp: parseQuickAddRu_def)
next
  case False
  show ?thesis
  proof (cases "run (dueStages now) (extractAll text)")
    case (Inl e)
    then show ?thesis using False by (simp add: parseQuickAddRu_def)
  next
    case (Inr st)
    have t: "cleaned_title (patch st) = None" using Inr by (rule run_title)
    have "parseQuickAddRu text now = Inr (result (withTitle text st))"
      using False Inr by (simp add: parseQuickAddRu_def)
    moreover have "result (withTitle text st) = None \<longleftrightarrow>
        \<not> hasMeaningfulPatch (patch st) \<and>
        (cleaned (remaining st) = [] \<or>
         toLowerCase (cleaned (remaining st)) = trim (toLowerCase text))"
      by (auto simp: result_def withTitle_def Let_def hasMeaningfulPatch_title t)
    ultimately show ?thesis using False Inr by simp
  qed
qed

lemma parse_not_empty_patch:
  assumes "parseQuickAddRu text now = Inr (Some p)"
  shows "hasMeaningfulPatch p \<or> cleaned_title p \<noteq> None"
  using assms
  by (auto simp: parseQuickAddRu_def result_def split: if_splits sum.splits)

lemma parse_blank:
  "parseQuickAddRu (js []) NOW = Inr None" "parseQuickAddRu (js ''   '') NOW = Inr None"
  by (simp_all add: parseQuickAddRu_def js_def trim_def isSpace_def)

lemma markerFree_plain_text:
  "markerFree (js ''plain text no markers'') \<and>
   replaceAll (js ''plain text no markers'') spaceRunRe = js ''plain text no markers''"
  by (simp add: markerFree_def allPatterns_def eval_defs)

lemma parse_buy_milk:
  "parseQuickAddRu (js ''buy  milk'') NOW =
   Inr (Some \<lparr>due_date = None, priority = None, project_name = None, labels = None,
     repeat_after = None, repeat_mode = None, cleaned_title = Some (js ''Buy milk'')\<rparr>)"
  by (simp add: eval_defs)

lemma markerFree_buy_milk: "markerFree (js ''buy  milk'')"
  by (simp add: markerFree_def allPatterns_def eval_defs)

text \<open>The stages after the label extractor leave the labels alone, and the label
  extractor writes a list only where it found a label.\<close>

lemma secondDayOfWeek_labels:
  "secondDayOfWeek now st = Inr st' \<Longrightarrow> labels (patch st') = labels (patch st)"
  by (auto simp: secondDayOfWeek_def weeklyIfUnset_def erase_def Let_def
      dest!: setDue_Inr split: if_splits sum.splits option.splits)

lemma everyWeekday_labels:
  "everyWeekday now st = Inr st' \<Longrightarrow> labels (patch st') = labels (patch st)"
  by (auto simp: everyWeekday_def weeklyIfUnset_def erase_def Let_def
      dest!: setDue_Inr split: if_splits sum.splits option.splits)

lemma everyDayOfMonth_labels:
  "everyDayOfMonth now st = Inr st' \<Longrightarrow> labels (patch st') = labels (patch st)"
  by (auto simp: everyDayOfMonth_def weeklyIfUnset_def erase_def Let_def
      dest!: setDue_Inr split: if_splits sum.splits option.splits)

lemma dateExpressions_labels:
  "dateExpressions now st = Inr st' \<Longrightarrow> labels (patch st') = labels (patch st)"
  by (auto simp: dateExpressions_def weeklyIfUnset_def erase_def Let_def
      dest!: setDue_Inr split: if_splits sum.splits option.splits)

lemma timeOnly_labels:
  "timeOnly now st = Inr st' \<Longrightarrow> labels (patch st') = labels (patch st)"
  by (auto simp: timeOnly_def weeklyIfUnset_def erase_def Let_def
      dest!: setDue_Inr split: if_splits sum.splits option.splits)

lemma hourlyRepeat_labels:
  "hourlyRepeat now st = Inr st' \<Longrightarrow> labels (patch st') = labels (patch st)"
  by (auto simp: hourlyRepeat_def weeklyIfUnset_def erase_def Let_def
      dest!: setDue_Inr split: if_splits sum.splits option.splits)

lemma monthlyFallback_labels:
  "monthlyFallback now st = Inr st' \<Longrightarrow> labels (patch st') = labels (patch st)"
  by (auto simp: monthlyFallback_def weeklyIfUnset_def erase_def Let_def
      dest!: setDue_Inr split: if_splits sum.splits option.splits)

lemma dueStages_labels:
  assumes "f \<in> set (dueStages now)" and "labels (patch st) \<noteq> Some []" and "f st = Inr st'"
  shows "labels (patch st') \<noteq> Some []"
proof -
  from assms(1) consider "f = secondDayOfWeek now" | "f = everyWeekday now"
    | "f = everyDayOfMonth now" | "f = dateExpressions now" | "f = timeOnly now"
    | "f = hourlyRepeat now" | "f = monthlyFallback now"
    by (auto simp: dueStages_def)
  then show ?thesis
  proof cases
    case 1 then show ?thesis using assms(2,3) secondDayOfWeek_labels by metis
  next
    case 2 then show ?thesis using assms(2,3) everyWeekday_labels by metis
  next
    case 3 then show ?thesis using assms(2,3) everyDayOfMonth_labels by metis
  next
    case 4 then show ?thesis using assms(2,3) dateExpressions_labels by metis
  next
    case 5 then show ?thesis using assms(2,3) timeOnly_labels by metis
  next
    case 6 then show ?thesis using assms(2,3) hourlyRepeat_labels by metis
  next
    case 7 then show ?thesis using assms(2,3) monthlyFallback_labels by metis
  qed
qed

lemma extractPriority_labels: "labels (patch (extractPriority st)) = labels (patch st)"
  by (simp add: extractPriority_def split: option.splits)

lemma extractProject_labels: "labels (patch (extractProject st)) = labels (patch st)"
  by (simp add: extractProject_def split: option.splits)

lemma extractLabels_labels:
  "labels (patch st) \<noteq> Some [] \<Longrightarrow> labels (patch (extractLabels st)) \<noteq> Some []"
  by (auto simp: extractLabels_def Let_def)

lemma recurrenceKeywords_labels: "labels (patch (recurrenceKeywords st)) = labels (patch st)"
  by (simp add: recurrenceKeywords_def split: option.splits)

lemma extractAll_labels: "labels (patch (extractAll text)) \<noteq> Some []"
proof -
  have "labels (patch (extractProject (extractPriority (initial text)))) \<noteq> Some []"
    by (simp add: extractProject_labels extractPriority_labels initial_def emptyPatch_def)
  then have "labels (patch (extractLabels (extractProject (extractPriority (initial text))))) \<noteq> Some []"
    by (rule extractLabels_labels)
  then show ?thesis
    by (simp add: extractAll_def extractMarkers_def recurrenceKeywords_labels
        extractTimeMarker_patch extractExplicitTime_patch)
qed

lemma run_labels:
  assumes "run (dueStages now) (extractAll text) = Inr st"
  shows "labels (patch st) \<noteq> Some []"
  using run_invariant[where P = "\<lambda>s. labels (patch s) \<noteq> Some []", OF dueStages_labels
      extractAll_labels assms]
  by simp

text \<open>The gate of the result, field by field, on a state that a run reaches.\<close>

lemma hasMeaningfulPatch_fields:
  assumes "labels p \<noteq> Some []"
  shows "hasMeaningfulPatch p \<longleftrightarrow>
     \<not> (due_date p = None \<and> priority p = None \<and> project_name p = None \<and> labels p = None \<and>
        repeat_after p = None \<and> repeat_mode p = None)"
  using assms by (auto simp: hasMeaningfulPatch_def split: option.splits)

lemma parse_None_fields:
  "parseQuickAddRu text now = Inr None \<longleftrightarrow>
     text = [] \<or> trim text = [] \<or>
     (\<exists>st. run (dueStages now) (extractAll text) = Inr st \<and>
        due_date (patch st) = None \<and> priority (patch st) = None \<and>
        project_name (patch st) = None \<and> labels (patch st) = None \<and>
        repeat_after (patch st) = None \<and> repeat_mode (patch st) = None \<and>
        (cleaned (remaining st) = [] \<or>
         toLowerCase (cleaned (remaining st)) = trim (toLowerCase text)))"
proof -
  have "(\<exists>st. run (dueStages now) (extractAll text) = Inr st \<and>
        \<not> hasMeaningfulPatch (patch st) \<and>
        (cleaned (remaining st) = [] \<or>
         toLowerCase (cleaned (remaining st)) = trim (toLowerCase text))) \<longleftrightarrow>
     (\<exists>st. run (dueStages now) (extractAll text) = Inr st \<and>
        due_date (patch st) = None \<and> priority (patch st) = None \<and>
        project_name (patch st) = None \<and> labels (patch st) = None \<and>
        repeat_after (patch st) = None \<and> repeat_mode (patch st) = None \<and>
        (cleaned (remaining st) = [] \<or>
         toLowerCase (cleaned (remaining st)) = trim (toLowerCase text)))"
    using hasMeaningfulPatch_fields[OF run_labels] by blast
  then show ?thesis
    using parse_None_iff[of "text" now] by simp
qed

lemma withTitle_labels: "labels (withTitle text st) = labels (patch st)"
  "priority (withTitle text st) = priority (patch st)"
  "project_name (withTitle text st) = project_name (patch st)"
  by (simp_all add: withTitle_def Let_def)

lemma parse_returns_field:
  assumes "parseQuickAddRu text now = Inr (Some p)"
  shows "due_date p \<noteq> None \<or> priority p \<noteq> None \<or> project_name p \<noteq> None \<or>
         (labels p \<noteq> None \<and> labels p \<noteq> Some []) \<or>
         repeat_after p \<noteq> None \<or> repeat_mode p \<noteq> None \<or> cleaned_title p \<noteq> None"
proof -
  from assms obtain st where r: "run (dueStages now) (extractAll text) = Inr st"
    and p: "p = withTitle text st" by (rule parse_Some)
  have l: "labels p \<noteq> Some []"
    using run_labels[OF r] by (simp add: p withTitle_labels)
  from parse_not_empty_patch[OF assms] hasMeaningfulPatch_fields[OF l]
  show ?thesis using l by auto
qed

text \<open>A text that no pattern matches goes through the stages unchanged; only the
  title cleaner acts on it.\<close>

lemma markerFree_parse_any:
  assumes "markerFree s"
  shows "parseQuickAddRu s now =
     (if trim s = [] \<or> cleaned s = [] \<or> toLowerCase (cleaned s) = toLowerCase (trim s)
      then Inr None
      else Inr (Some (emptyPatch\<lparr>cleaned_title := Some (capitalise (cleaned s))\<rparr>)))"
proof -
  have t: "trim [] = []" by (simp add: trim_def)
  have w: "withTitle s (initial s) =
      (if 0 < length (cleaned s) \<and> toLowerCase (cleaned s) \<noteq> toLowerCase (trim s)
       then emptyPatch\<lparr>cleaned_title := Some (capitalise (cleaned s))\<rparr> else emptyPatch)"
    by (simp add: withTitle_def initial_def trim_toLowerCase Let_def)
  have e: "result emptyPatch = None"
    by (simp add: result_def hasMeaningfulPatch_def emptyPatch_def)
  have c: "result (emptyPatch\<lparr>cleaned_title := Some x\<rparr>) = Some (emptyPatch\<lparr>cleaned_title := Some x\<rparr>)" for x
    by (simp add: result_def)
  have "parseQuickAddRu s now =
      (if s = [] \<or> trim s = [] then Inr None else Inr (result (withTitle s (initial s))))"
    by (simp add: parseQuickAddRu_def markerFree_extractAll[OF assms] markerFree_run[OF assms])
  then show ?thesis
    using t by (auto simp: w e c)
qed

lemma markerFree_buy_milk_trailing: "markerFree (js ''buy milk  '')"
  by (simp add: markerFree_def allPatterns_def eval_defs)

lemma parse_buy_milk_trailing: "parseQuickAddRu (js ''buy milk  '') NOW = Inr None"
  by (simp add: eval_defs)

lemma buy_milk_values:
  "trim (js ''buy  milk'') = js ''buy  milk'' \<and> cleaned (js ''buy  milk'') = js ''buy milk'' \<and>
   toLowerCase (js ''buy milk'') = js ''buy milk'' \<and> toLowerCase (js ''buy  milk'') = js ''buy  milk'' \<and>
   capitalise (js ''buy milk'') = js ''Buy milk'' \<and> js ''buy milk'' \<noteq> js ''buy  milk'' \<and>
   js ''buy milk'' \<noteq> [] \<and> js ''buy  milk'' \<noteq> []"
  by (simp add: eval_defs)

text \<open>
  Claim C8, as the code has it.  \<open>parseQuickAddRu\<close> reports no match exactly when the
  text is empty or blank, or the run ends with none of the fields \<open>due_date\<close>,
  \<open>priority\<close>, \<open>project_name\<close>, \<open>labels\<close>, \<open>repeat_after\<close> and \<open>repeat_mode\<close> set and with a
  cleaned buffer that is empty or equals the trimmed text up to the case of the letters.
  It never returns an empty patch: a returned patch has one of these fields or the
  cleaned title set.  The empty text, the text of three blanks and the text
  \<open>plain text no markers\<close> give no match.  A text that no pattern matches gives no match
  exactly when it is blank or collapsing its runs of white space and trimming it gives
  the trimmed text up to case; otherwise it is returned as a patch that holds the
  cleaned title only: \<open>buy  milk\<close>, with two blanks inside, is returned with the title
  \<open>Buy milk\<close>, whereas \<open>buy milk\<close> followed by two blanks gives no match.
\<close>

theorem no_match_exactly_when_nothing_changed:
  "(parseQuickAddRu text now = Inr None \<longleftrightarrow>
      text = [] \<or> trim text = [] \<or>
      (\<exists>st. run (dueStages now) (extractAll text) = Inr st \<and>
         due_date (patch st) = None \<and> priority (patch st) = None \<and>
         project_name (patch st) = None \<and> labels (patch st) = None \<and>
         repeat_after (patch st) = None \<and> repeat_mode (patch st) = None \<and>
         (cleaned (remaining st) = [] \<or>
          toLowerCase (cleaned (remaining st)) = trim (toLowerCase text)))) \<and>
   (\<forall>p. parseQuickAddRu text now = Inr (Some p) \<longrightarrow>
      due_date p \<noteq> None \<or> priority p \<noteq> None \<or> project_name p \<noteq> None \<or>
      (labels p \<noteq> None \<and> labels p \<noteq> Some []) \<or>
      repeat_after p \<noteq> None \<or> repeat_mode p \<noteq> None \<or> cleaned_title p \<noteq> None) \<and>
   parseQuickAddRu (js []) NOW = Inr None \<and>
   parseQuickAddRu (js ''   '') NOW = Inr None \<and>
   parseQuickAddRu (js ''plain text no markers'') NOW = Inr None \<and>
   (markerFree text \<longrightarrow>
      parseQuickAddRu text now =
        (if trim text = [] \<or> cleaned text = [] \<or>
            toLowerCase (cleaned text) = toLowerCase (trim text)
         then Inr None
         else Inr (Some (emptyPatch\<lparr>cleaned_title := Some (capitalise (cleaned text))\<rparr>)))) \<and>
   markerFree (js ''buy  milk'') \<and>
   parseQuickAddRu (js ''buy  milk'') NOW =
     Inr (Some \<lparr>due_date = None, priority = None, project_name = None, labels = None,
       repeat_after = None, repeat_mode = None, cleaned_title = Some (js ''Buy milk'')\<rparr>) \<and>
   markerFree (js ''buy milk  '') \<and>
   parseQuickAddRu (js ''buy milk  '') NOW = Inr None"
proof (intro conjI allI impI)
  show "parseQuickAddRu text now = Inr None \<longleftrightarrow>
      text = [] \<or> trim text = [] \<or>
      (\<exists>st. run (dueStages now) (extractAll text) = Inr st \<and>
         due_date (patch st) = None \<and> priority (patch st) = None \<and>
         project_name (patch st) = None \<and> labels (patch st) = None \<and>
         repeat_after (patch st) = None \<and> repeat_mode (patch st) = None \<and>
         (cleaned (remaining st) = [] \<or>
          toLowerCase (cleaned (remaining st)) = trim (toLowerCase text)))"
    by (rule parse_None_fields)
  show "due_date p \<noteq> None \<or> priority p \<noteq> None \<or> project_name p \<noteq> None \<or>
      (labels p \<noteq> None \<and> labels p \<noteq> Some []) \<or>
      repeat_after p \<noteq> None \<or> repeat_mode p \<noteq> None \<or> cleaned_title p \<noteq> None"
    if "parseQuickAddRu text now = Inr (Some p)" for p
    using that by (rule parse_returns_field)
  show "parseQuickAddRu (js []) NOW = Inr None" "parseQuickAddRu (js ''   '') NOW = Inr None"
    by (rule parse_blank)+
  show "parseQuickAddRu (js ''plain text no markers'') NOW = Inr None"
    using markerFree_plain_text by (intro markerFree_parse) simp_all
  show "parseQuickAddRu text now =
        (if trim text = [] \<or> cleaned text = [] \<or>
            toLowerCase (cleaned text) = toLowerCase (trim text)
         then Inr None
         else Inr (Some (emptyPatch\<lparr>cleaned_title := Some (capitalise (cleaned text))\<rparr>)))"
    if "markerFree text"
    using that by (rule markerFree_parse_any)
  show "markerFree (js ''buy  milk'')" by (rule markerFree_buy_milk)
  show "parseQuickAddRu (js ''buy  milk'') NOW =
      Inr (Some \<lparr>due_date = None, priority = None, project_name = None, labels = None,
        repeat_after = None, repeat_mode = None, cleaned_title = Some (js ''Buy milk'')\<rparr>)"
    by (rule parse_buy_milk)
  show "markerFree (js ''buy milk  '')" by (rule markerFree_buy_milk_trailing)
  show "parseQuickAddRu (js ''buy milk  '') NOW = Inr None" by (rule parse_buy_milk_trailing)
qed

theorem no_match_exactly_when_nothing_changed_witness:
  "markerFree (js ''buy  milk'') \<and>
   parseQuickAddRu (js ''buy  milk'') (Some 0) =
     Inr (Some \<lparr>due_date = None, priority = None, project_name = None, labels = None,
       repeat_after = None, repeat_mode = None, cleaned_title = Some (js ''Buy milk'')\<rparr>) \<and>
   cleaned_title \<lparr>due_date = None, priority = None, project_name = None, labels = None,
       repeat_after = None, repeat_mode = None, cleaned_title = Some (js ''Buy milk'')\<rparr> \<noteq> None"
  using no_match_exactly_when_nothing_changed[of "js ''buy  milk''" "Some 0"]
    markerFree_buy_milk buy_milk_values
  by (simp add: emptyPatch_def)

text \<open>
  Claim C8, as it is written, fails for a text without markers that holds two blanks in a
  row: \<open>buy  milk\<close> is returned with the cleaned title \<open>Buy milk\<close>.
\<close>

theorem marker_free_text_counterexample:
  "parseQuickAddRu (js ''buy  milk'') NOW =
   Inr (Some \<lparr>due_date = None, priority = None, project_name = None, labels = None,
     repeat_after = None, repeat_mode = None, cleaned_title = Some (js ''Buy milk'')\<rparr>)"
  by (simp add: eval_defs)

section \<open>The inputs of the repository's tests\<close>

text \<open>
  The Russian keywords stand between \<open>\b\<close> in their patterns, and a Cyrillic letter is
  not a word character: next to a blank or an end of the text the boundary does not
  hold, and the pattern does not match.
\<close>

lemma parse_every_tuesday_evening:
  "parseQuickAddRu (js ''every tuesday evening trash'') NOW =
   Inr (Some \<lparr>due_date = Some (js ''2024-01-16T23:59:00.000Z''), priority = None,
     project_name = None, labels = None, repeat_after = None, repeat_mode = None,
     cleaned_title = Some (js ''Every evening trash'')\<rparr>)"
  by (simp add: eval_defs)

text \<open>
  Claim C1.  The test \<open>kazhdyj vtornik vecherom\<close> of \<open>quickAddRu.test.ts\<close> parses
  \<open>vynesti musor kazhdyj vtornik vecherom\<close> (take out the trash every Tuesday in the
  evening) at the reference instant and expects \<open>repeat_after = 604800\<close> and the due
  date 2024-01-16T20:00:00.000Z.  \<open>parseQuickAddRu\<close> returns no match for it: neither the
  every-weekday pattern nor the time-marker pattern matches the text.  The English
  wording of the claim, \<open>every tuesday evening trash\<close>, matches the weekday name only,
  as a one-shot date: the due date is 2024-01-16T23:59:00.000Z and no recurrence is set.
\<close>

theorem every_tuesday_evening_returns_no_match:
  "parseQuickAddRu (ru_vynesti @ js '' '' @ ru_musor @ js '' '' @ ru_kazhdyj @ js '' '' @ ru_vtornik
      @ js '' '' @ ru_vecherom) NOW = Inr None \<and>
   match (ru_vynesti @ js '' '' @ ru_musor @ js '' '' @ ru_kazhdyj @ js '' '' @ ru_vtornik
      @ js '' '' @ ru_vecherom) everyWeekdayRe = None \<and>
   match (ru_vynesti @ js '' '' @ ru_musor @ js '' '' @ ru_kazhdyj @ js '' '' @ ru_vtornik
      @ js '' '' @ ru_vecherom) timeMarkerRe = None \<and>
   parseQuickAddRu (js ''every tuesday evening trash'') NOW =
     Inr (Some \<lparr>due_date = Some (js ''2024-01-16T23:59:00.000Z''), priority = None,
       project_name = None, labels = None, repeat_after = None, repeat_mode = None,
       cleaned_title = Some (js ''Every evening trash'')\<rparr>)"
proof (intro conjI)
  show "parseQuickAddRu (ru_vynesti @ js '' '' @ ru_musor @ js '' '' @ ru_kazhdyj @ js '' '' @ ru_vtornik
      @ js '' '' @ ru_vecherom) NOW = Inr None"
    by (simp add: eval_defs)
  show "match (ru_vynesti @ js '' '' @ ru_musor @ js '' '' @ ru_kazhdyj @ js '' '' @ ru_vtornik
      @ js '' '' @ ru_vecherom) everyWeekdayRe = None"
    by (simp add: eval_defs)
  show "match (ru_vynesti @ js '' '' @ ru_musor @ js '' '' @ ru_kazhdyj @ js '' '' @ ru_vtornik
      @ js '' '' @ ru_vecherom) timeMarkerRe = None"
    by (simp add: eval_defs)
  show "parseQuickAddRu (js ''every tuesday evening trash'') NOW =
     Inr (Some \<lparr>due_date = Some (js ''2024-01-16T23:59:00.000Z''), priority = None,
       project_name = None, labels = None, repeat_after = None, repeat_mode = None,
       cleaned_title = Some (js ''Every evening trash'')\<rparr>)"
    by (rule parse_every_tuesday_evening)
qed

text \<open>
  Claim C2.  The test \<open>v 9\<close> of \<open>quickAddRu.test.ts\<close> parses \<open>v 9 pozvonit'\<close> (call at 9)
  at the reference instant and expects the due date 2024-01-11T09:00:00.000Z.
  \<open>parseQuickAddRu\<close> returns no match for it: the hour-only pattern, which starts with
  \<open>\b\<close> before the Cyrillic preposition, does not match the text.  The English wording of
  the claim, \<open>at 9 call\<close>, gives no match either.
\<close>

theorem at_9_call_returns_no_match:
  "parseQuickAddRu (ru_v @ js '' 9 '' @ ru_pozvonit) NOW = Inr None \<and>
   match (ru_v @ js '' 9 '' @ ru_pozvonit) hourOnlyTimeRe = None \<and>
   parseQuickAddRu (js ''at 9 call'') NOW = Inr None"
proof (intro conjI)
  show "parseQuickAddRu (ru_v @ js '' 9 '' @ ru_pozvonit) NOW = Inr None"
    by (simp add: eval_defs)
  show "match (ru_v @ js '' 9 '' @ ru_pozvonit) hourOnlyTimeRe = None"
    by (simp add: eval_defs)
  show "parseQuickAddRu (js ''at 9 call'') NOW = Inr None"
    by (simp add: eval_defs)
qed

text \<open>
  Claim C3.  The test \<open>v sredu\<close> of \<open>quickAddRu.test.ts\<close> parses
  \<open>v sredu podgotovit' otchyot\<close> (prepare the report on Wednesday) at the reference
  instant, a Wednesday, and expects the due date 2024-01-17T23:59:00.000Z, the Wednesday
  of the next week.  \<open>parseQuickAddRu\<close> returns no match for it: the bare-weekday
  pattern does not match the text.  With the English name the pattern matches, and
  the text \<open>on wednesday report\<close> gets the due date 2024-01-17T23:59:00.000Z.
\<close>

theorem on_wednesday_returns_no_match:
  "parseQuickAddRu (ru_v @ js '' '' @ ru_sredu @ js '' '' @ ru_podgotovit @ js '' '' @ ru_otchyot) NOW
     = Inr None \<and>
   match (ru_v @ js '' '' @ ru_sredu @ js '' '' @ ru_podgotovit @ js '' '' @ ru_otchyot) weekdayOnceRe
     = None \<and>
   parseQuickAddRu (js ''on wednesday report'') NOW =
     Inr (Some \<lparr>due_date = Some (js ''2024-01-17T23:59:00.000Z''), priority = None,
       project_name = None, labels = None, repeat_after = None, repeat_mode = None,
       cleaned_title = Some (js ''On report'')\<rparr>)"
proof (intro conjI)
  show "parseQuickAddRu (ru_v @ js '' '' @ ru_sredu @ js '' '' @ ru_podgotovit @ js '' '' @ ru_otchyot) NOW
     = Inr None"
    by (simp add: eval_defs)
  show "match (ru_v @ js '' '' @ ru_sredu @ js '' '' @ ru_podgotovit @ js '' '' @ ru_otchyot) weekdayOnceRe
     = None"
    by (simp add: eval_defs)
  show "parseQuickAddRu (js ''on wednesday report'') NOW =
     Inr (Some \<lparr>due_date = Some (js ''2024-01-17T23:59:00.000Z''), priority = None,
       project_name = None, labels = None, repeat_after = None, repeat_mode = None,
       cleaned_title = Some (js ''On report'')\<rparr>)"
    by (rule parse_on_wednesday)
qed

end
